theory Spec2Isabelle
  imports Complex_Main "HOL-Library.Signed_Division"
begin

section \<open>Thermal control of the Prusa firmware (Firmware/temperature.cpp)\<close>

text \<open>
  A shallow embedding of the parts of \<^verbatim>\<open>temperature.cpp\<close> that the properties below
  are about. Conventions:
  \<^item> a C \<^verbatim>\<open>float\<close> is a \<open>real\<close>: the arithmetic is the exact one, rounding is not
    modelled (the one place where NaN matters, the model calibration check, has its own
    float type with NaN and infinities);
  \<^item> a C array indexed by the extruder is a function from \<open>nat\<close>; a loop over
    \<^verbatim>\<open>e < EXTRUDERS\<close> updates exactly the indices below \<open>EXTRUDERS\<close>;
  \<^item> \<^verbatim>\<open>unsigned char\<close> and bit-fields are \<open>nat\<close> with the reduction modulo the
    width written out where a value is stored;
  \<^item> the configuration macros that the file takes from headers outside of it
    (\<^verbatim>\<open>EXTRUDERS\<close>, \<^verbatim>\<open>PID_MAX\<close>, the PID gains of \<^verbatim>\<open>cs\<close>, ...) are the fields
    of a record \<open>config\<close>; the conditional compilation is fixed to \<^verbatim>\<open>PIDTEMP\<close>,
    \<^verbatim>\<open>PIDTEMPBED\<close>, \<^verbatim>\<open>AMBIENT_THERMISTOR\<close>, \<^verbatim>\<open>PINDA_THERMISTOR\<close> and
    \<^verbatim>\<open>TEMP_MODEL\<close> defined, \<^verbatim>\<open>PID_OPENLOOP\<close>, \<^verbatim>\<open>PonM\<close> and
    \<^verbatim>\<open>SLOW_PWM_HEATERS\<close> undefined.
\<close>

subsection \<open>Configuration\<close>

record config =
  EXTRUDERS :: nat
  PID_MAX :: int
  MAX_BED_POWER :: int
  BED_MAXTEMP :: int
  PID_K1 :: real
  cs_Kp :: real
  cs_Ki :: real
  cs_Kd :: real
  cs_bedKp :: real
  cs_bedKi :: real
  cs_bedKd :: real

subsection \<open>The latched error state\<close>

datatype TempErrorSource = hotend | bed | ambient

text \<open>The thermal error type, "in order of decreasing priority".\<close>

datatype TempErrorType = max_t | min_t | preheat | runaway | model

text \<open>The casts \<^verbatim>\<open>(uint8_t)source\<close> and \<^verbatim>\<open>(uint8_t)type\<close>.\<close>

fun source_u8 :: "TempErrorSource \<Rightarrow> nat" where
  "source_u8 hotend = 0"
| "source_u8 bed = 1"
| "source_u8 ambient = 2"

fun type_u8 :: "TempErrorType \<Rightarrow> nat" where
  "type_u8 max_t = 0"
| "type_u8 min_t = 1"
| "type_u8 preheat = 2"
| "type_u8 runaway = 3"
| "type_u8 model = 4"

text \<open>
  The union \<^verbatim>\<open>temp_error_state\<close>: the bit-fields \<^verbatim>\<open>error:1\<close>, \<^verbatim>\<open>assert:1\<close>,
  \<^verbatim>\<open>source:2\<close>, \<^verbatim>\<open>index:1\<close>, \<^verbatim>\<open>type:3\<close>, and the byte \<^verbatim>\<open>v\<close> that overlays them
  (avr-gcc allocates bit-fields from the least significant bit).
\<close>

record temp_error_state_t =
  tes_error :: bool
  tes_assert :: bool
  tes_source :: nat
  tes_index :: nat
  tes_type :: nat

definition tes_v :: "temp_error_state_t \<Rightarrow> nat" where
  "tes_v t = of_bool (tes_error t) + 2 * of_bool (tes_assert t) + 4 * (tes_source t mod 4)
             + 16 * (tes_index t mod 2) + 32 * (tes_type t mod 8)"

text \<open>\<^verbatim>\<open>temp_error_state.v = 0\<close>, the clear of \<^verbatim>\<open>handle_temp_error\<close>.\<close>

definition tes_clear :: temp_error_state_t where
  "tes_clear = \<lparr>tes_error = False, tes_assert = False, tes_source = 0, tes_index = 0, tes_type = 0\<rparr>"

subsection \<open>PID state of one hotend and of the bed\<close>

text \<open>
  The \<open>e\<close>-th elements of the arrays \<^verbatim>\<open>iState_sum\<close>, \<^verbatim>\<open>dState_last\<close>, \<^verbatim>\<open>pTerm\<close>,
  \<^verbatim>\<open>iTerm\<close>, \<^verbatim>\<open>dTerm\<close>, \<^verbatim>\<open>pid_error\<close>, \<^verbatim>\<open>iState_sum_min\<close>, \<^verbatim>\<open>iState_sum_max\<close>,
  \<^verbatim>\<open>pid_reset\<close>, \<^verbatim>\<open>soft_pwm\<close> and \<^verbatim>\<open>maxttemp\<close>.
\<close>

record hotend_pid =
  iState_sum :: real
  dState_last :: real
  pTerm :: real
  iTerm :: real
  dTerm :: real
  pid_error :: real
  iState_sum_min :: real
  iState_sum_max :: real
  pid_reset :: bool
  soft_pwm :: nat
  maxttemp :: int

record bed_pid =
  temp_iState_bed :: real
  temp_dState_bed :: real
  pTerm_bed :: real
  iTerm_bed :: real
  dTerm_bed :: real
  pid_error_bed :: real
  temp_iState_min_bed :: real
  temp_iState_max_bed :: real
  soft_pwm_bed :: nat
  pwm0 :: nat

text \<open>The Arduino macro \<^verbatim>\<open>constrain(amt, low, high)\<close>.\<close>

definition constrain :: "'a::linorder \<Rightarrow> 'a \<Rightarrow> 'a \<Rightarrow> 'a" where
  "constrain amt low high = (if amt < low then low else if amt > high then high else amt)"

text \<open>The cast \<^verbatim>\<open>(int)x\<close> of a float: truncation towards zero.\<close>

definition int_of_float :: "real \<Rightarrow> int" where
  "int_of_float x = (if 0 \<le> x then \<lfloor>x\<rfloor> else \<lceil>x\<rceil>)"

text \<open>
  \<^verbatim>\<open>soft_pwm[e] = (int)pid_output >> 1\<close>: the shift of an int, stored in an
  \<^verbatim>\<open>unsigned char\<close>.
\<close>

definition duty_of_output :: "real \<Rightarrow> nat" where
  "duty_of_output pid_output = nat ((int_of_float pid_output div 2) mod 256)"

text \<open>
  The regulation of \<^verbatim>\<open>pid_heater\<close> for a target other than 0 (the \<^verbatim>\<open>else\<close> branch,
  \<^verbatim>\<open>PonM\<close> undefined): the state after it and \<^verbatim>\<open>pid_output\<close>. \<open>pid_clamped\<close> is the
  state at the point where \<^verbatim>\<open>iTerm[e]\<close> has been computed from the constrained sum.
\<close>

definition pid_clamped :: "config \<Rightarrow> real \<Rightarrow> int \<Rightarrow> hotend_pid \<Rightarrow> hotend_pid" where
  "pid_clamped cfg pid_input target h =
    (let h1 = h\<lparr>pid_error := real_of_int target - pid_input\<rparr>;
         h2 = (if pid_reset h1
               then h1\<lparr>iState_sum := 0, dTerm := 0, pid_reset := False\<rparr>
               else h1);
         h3 = h2\<lparr>pTerm := cs_Kp cfg * pid_error h2\<rparr>;
         h4 = h3\<lparr>iState_sum := iState_sum h3 + pid_error h3\<rparr>;
         h5 = h4\<lparr>iState_sum := constrain (iState_sum h4) (iState_sum_min h4) (iState_sum_max h4)\<rparr>
     in h5\<lparr>iTerm := cs_Ki cfg * iState_sum h5\<rparr>)"

definition pid_raw_output :: "config \<Rightarrow> real \<Rightarrow> int \<Rightarrow> hotend_pid \<Rightarrow> hotend_pid \<times> real" where
  "pid_raw_output cfg pid_input target h =
    (let h6 = pid_clamped cfg pid_input target h;
         h7 = h6\<lparr>dTerm := (cs_Kd cfg * (pid_input - dState_last h6)) * (1 - PID_K1 cfg)
                            + PID_K1 cfg * dTerm h6\<rparr>
     in (h7, pTerm h7 + iTerm h7 - dTerm h7))"

definition pid_regulate :: "config \<Rightarrow> real \<Rightarrow> int \<Rightarrow> hotend_pid \<Rightarrow> hotend_pid \<times> real" where
  "pid_regulate cfg pid_input target h =
    (let (h7, pid_output) = pid_raw_output cfg pid_input target h
     in if pid_output > real_of_int (PID_MAX cfg)
        then ((if pid_error h7 > 0 then h7\<lparr>iState_sum := iState_sum h7 - pid_error h7\<rparr> else h7),
              real_of_int (PID_MAX cfg))
        else if pid_output < 0
        then ((if pid_error h7 < 0 then h7\<lparr>iState_sum := iState_sum h7 - pid_error h7\<rparr> else h7),
              0)
        else (h7, pid_output))"

text \<open>\<^verbatim>\<open>pid_heater(e, current, target)\<close> on the state of hotend \<open>e\<close>.\<close>

definition pid_heater :: "config \<Rightarrow> real \<Rightarrow> int \<Rightarrow> hotend_pid \<Rightarrow> hotend_pid" where
  "pid_heater cfg current target h =
    (let pid_input = current;
         (h1, pid_output) =
           (if target = 0 then (h\<lparr>pid_reset := True\<rparr>, 0)
            else pid_regulate cfg pid_input target h);
         h2 = h1\<lparr>dState_last := pid_input\<rparr>
     in if current < real_of_int (maxttemp h2) \<and> target \<noteq> 0
        then h2\<lparr>soft_pwm := duty_of_output pid_output\<rparr>
        else h2\<lparr>soft_pwm := 0\<rparr>)"

text \<open>
  \<^verbatim>\<open>pid_bed(current, target)\<close> with \<^verbatim>\<open>PIDTEMPBED\<close>; \<open>pwm0\<close> is the value last given to
  \<^verbatim>\<open>timer02_set_pwm0\<close>.
\<close>

definition set_bed_pwm :: "nat \<Rightarrow> bed_pid \<Rightarrow> bed_pid" where
  "set_bed_pwm v b = b\<lparr>soft_pwm_bed := v mod 256, pwm0 := ((v mod 256) * 2) mod 256\<rparr>"

definition pid_bed :: "config \<Rightarrow> real \<Rightarrow> int \<Rightarrow> bed_pid \<Rightarrow> bed_pid" where
  "pid_bed cfg current target b =
    (let pid_input = current;
         b1 = b\<lparr>pid_error_bed := real_of_int target - pid_input\<rparr>;
         b2 = b1\<lparr>pTerm_bed := cs_bedKp cfg * pid_error_bed b1\<rparr>;
         b3 = b2\<lparr>temp_iState_bed := temp_iState_bed b2 + pid_error_bed b2\<rparr>;
         b4 = b3\<lparr>temp_iState_bed :=
                 constrain (temp_iState_bed b3) (temp_iState_min_bed b3) (temp_iState_max_bed b3)\<rparr>;
         b5 = b4\<lparr>iTerm_bed := cs_bedKi cfg * temp_iState_bed b4\<rparr>;
         b6 = b5\<lparr>dTerm_bed := (cs_bedKd cfg * (pid_input - temp_dState_bed b5)) * (1 - PID_K1 cfg)
                               + PID_K1 cfg * dTerm_bed b5\<rparr>;
         b7 = b6\<lparr>temp_dState_bed := pid_input\<rparr>;
         out = pTerm_bed b7 + iTerm_bed b7 - dTerm_bed b7;
         (b8, pid_output) =
           (if out > real_of_int (MAX_BED_POWER cfg)
            then ((if pid_error_bed b7 > 0
                   then b7\<lparr>temp_iState_bed := temp_iState_bed b7 - pid_error_bed b7\<rparr> else b7),
                  real_of_int (MAX_BED_POWER cfg))
            else if out < 0
            then ((if pid_error_bed b7 < 0
                   then b7\<lparr>temp_iState_bed := temp_iState_bed b7 - pid_error_bed b7\<rparr> else b7),
                  0)
            else (b7, out));
         b9 = (if current < real_of_int (BED_MAXTEMP cfg)
               then set_bed_pwm (duty_of_output pid_output) b8
               else set_bed_pwm 0 b8)
     in if target = 0 then set_bed_pwm 0 b9 else b9)"

subsection \<open>The temperatures shared by the foreground and the temperature manager\<close>

record temp_state =
  target_temperature :: "nat \<Rightarrow> int"
  target_temperature_bed :: int
  current_temperature :: "nat \<Rightarrow> real"
  current_temperature_bed :: real
  current_temperature_pinda :: real
  current_temperature_ambient :: real
  current_temperature_isr :: "nat \<Rightarrow> real"
  target_temperature_isr :: "nat \<Rightarrow> int"
  current_temperature_bed_isr :: real
  target_temperature_bed_isr :: int
  current_temperature_pinda_isr :: real
  current_temperature_ambient_isr :: real
  temp_meas_ready :: bool
  temp_mgr_interrupt :: bool
  temp_error_state :: temp_error_state_t
  saved_bed_temperature :: int
  saved_extruder_temperature :: int
  saved_fan_speed :: nat
  fanSpeed :: nat
  fan_full_speed :: bool
  hotend_pids :: "nat \<Rightarrow> hotend_pid"
  the_bed_pid :: bed_pid
  heater_pins_low :: bool

text \<open>
  A loop \<^verbatim>\<open>for(e = 0; e < EXTRUDERS; e++) a[e] = f(e);\<close> over an array \<open>a\<close>.
\<close>

fun for_extruders :: "nat \<Rightarrow> (nat \<Rightarrow> 'a) \<Rightarrow> (nat \<Rightarrow> 'a) \<Rightarrow> (nat \<Rightarrow> 'a)" where
  "for_extruders 0 f a = a"
| "for_extruders (Suc n) f a = (for_extruders n f a)(n := f n)"

definition setCurrentTemperaturesFromIsr :: "config \<Rightarrow> temp_state \<Rightarrow> temp_state" where
  "setCurrentTemperaturesFromIsr cfg s =
     s\<lparr>current_temperature :=
         for_extruders (EXTRUDERS cfg) (current_temperature_isr s) (current_temperature s),
       current_temperature_bed := current_temperature_bed_isr s,
       current_temperature_pinda := current_temperature_pinda_isr s,
       current_temperature_ambient := current_temperature_ambient_isr s\<rparr>"

definition setIsrTargetTemperatures :: "config \<Rightarrow> temp_state \<Rightarrow> temp_state" where
  "setIsrTargetTemperatures cfg s =
     s\<lparr>target_temperature_isr :=
         for_extruders (EXTRUDERS cfg) (target_temperature s) (target_temperature_isr s),
       target_temperature_bed_isr := target_temperature_bed s\<rparr>"

text \<open>
  \<^verbatim>\<open>updateTemperatures\<close>. The \<^verbatim>\<open>TempMgrGuard\<close> saves the interrupt enable bit of the
  temperature manager, clears it, and its destructor sets it again if it was set.
\<close>

definition updateTemperatures :: "config \<Rightarrow> temp_state \<Rightarrow> temp_state" where
  "updateTemperatures cfg s =
    (let temp_mgr_state = temp_mgr_interrupt s;
         s1 = s\<lparr>temp_mgr_interrupt := False\<rparr>;
         s2 = setCurrentTemperaturesFromIsr cfg s1;
         s3 = (if \<not> (tes_v (temp_error_state s2) \<noteq> 0) then setIsrTargetTemperatures cfg s2 else s2);
         s4 = s3\<lparr>temp_meas_ready := False\<rparr>
     in if temp_mgr_state then s4\<lparr>temp_mgr_interrupt := True\<rparr> else s4)"

text \<open>
  \<^verbatim>\<open>temp_mgr_pid\<close> and \<^verbatim>\<open>disable_heater\<close>. \<^verbatim>\<open>setAllTargetHotends(0)\<close> and
  \<^verbatim>\<open>setTargetBed(0)\<close> are inline functions of \<^verbatim>\<open>temperature.h\<close> that store the value in
  \<^verbatim>\<open>target_temperature[e]\<close> for every extruder and in \<^verbatim>\<open>target_temperature_bed\<close>.
  \<open>heater_pins_low\<close> records that the heater pins have been written low.
\<close>

definition temp_mgr_pid :: "config \<Rightarrow> temp_state \<Rightarrow> temp_state" where
  "temp_mgr_pid cfg s =
     s\<lparr>hotend_pids :=
         for_extruders (EXTRUDERS cfg)
           (\<lambda>e. pid_heater cfg (current_temperature_isr s e) (target_temperature_isr s e)
                   (hotend_pids s e))
           (hotend_pids s),
       the_bed_pid :=
         pid_bed cfg (current_temperature_bed_isr s) (target_temperature_bed_isr s) (the_bed_pid s)\<rparr>"

definition disable_heater :: "config \<Rightarrow> temp_state \<Rightarrow> temp_state" where
  "disable_heater cfg s =
    (let s1 = s\<lparr>target_temperature := for_extruders (EXTRUDERS cfg) (\<lambda>e. 0) (target_temperature s)\<rparr>;
         s2 = s1\<lparr>target_temperature_bed := 0\<rparr>;
         s3 = setIsrTargetTemperatures cfg s2;
         s4 = temp_mgr_pid cfg s3;
         s5 = s4\<lparr>heater_pins_low := True\<rparr>
     in s5\<lparr>the_bed_pid := (the_bed_pid s5)\<lparr>pwm0 := 0\<rparr>\<rparr>)"

text \<open>
  \<^verbatim>\<open>set_temp_error(source, index, type)\<close>. \<^verbatim>\<open>hotendFanSetFullSpeed\<close> is outside of this
  file; \<open>fan_full_speed\<close> records the call.
\<close>

definition set_temp_error :: "config \<Rightarrow> TempErrorSource \<Rightarrow> nat \<Rightarrow> TempErrorType \<Rightarrow> temp_state \<Rightarrow> temp_state" where
  "set_temp_error cfg source index type s =
    (let s1 = (if \<not> tes_error (temp_error_state s)
               then s\<lparr>saved_bed_temperature := target_temperature_bed s,
                      saved_extruder_temperature := target_temperature s index,
                      saved_fan_speed := fanSpeed s\<rparr>
               else s);
         s2 = disable_heater cfg s1;
         s3 = s2\<lparr>fan_full_speed := True\<rparr>;
         t = temp_error_state s3;
         t1 = (if \<not> tes_error t \<or> type_u8 type < tes_type t
               then t\<lparr>tes_source := source_u8 source mod 4,
                      tes_index := index mod 2,
                      tes_type := type_u8 type mod 8\<rparr>
               else t)
     in s3\<lparr>temp_error_state := t1\<lparr>tes_error := True, tes_assert := True\<rparr>\<rparr>)"

definition get_temp_error :: "temp_state \<Rightarrow> bool" where
  "get_temp_error s = (tes_v (temp_error_state s) \<noteq> 0)"

subsection \<open>Sequences of raised errors, and a concrete machine\<close>

text \<open>
  A sequence of calls \<^verbatim>\<open>set_temp_error(source, index, type)\<close>, as the checks of the
  temperature manager make them one after the other.
\<close>

fun raise_all :: "config \<Rightarrow> (TempErrorSource \<times> nat \<times> TempErrorType) list \<Rightarrow> temp_state \<Rightarrow> temp_state" where
  "raise_all cfg [] s = s"
| "raise_all cfg (c # cs) s = raise_all cfg cs (set_temp_error cfg (fst c) (fst (snd c)) (snd (snd c)) s)"

text \<open>
  A configuration with one extruder, and a machine heating towards 215 and 60 degrees,
  for the examples.
\<close>

definition example_config :: config where
  "example_config = \<lparr>EXTRUDERS = 1, PID_MAX = 255, MAX_BED_POWER = 255, BED_MAXTEMP = 125,
     PID_K1 = 95 / 100, cs_Kp = 16, cs_Ki = 1, cs_Kd = 0, cs_bedKp = 126, cs_bedKi = 4, cs_bedKd = 0\<rparr>"

definition example_hotend :: hotend_pid where
  "example_hotend = \<lparr>iState_sum = 0, dState_last = 0, pTerm = 0, iTerm = 0, dTerm = 0, pid_error = 0,
     iState_sum_min = 0, iState_sum_max = 255, pid_reset = False, soft_pwm = 0, maxttemp = 305\<rparr>"

definition example_bed :: bed_pid where
  "example_bed = \<lparr>temp_iState_bed = 0, temp_dState_bed = 0, pTerm_bed = 0, iTerm_bed = 0,
     dTerm_bed = 0, pid_error_bed = 0, temp_iState_min_bed = 0, temp_iState_max_bed = 64,
     soft_pwm_bed = 0, pwm0 = 0\<rparr>"

definition example_state :: temp_state where
  "example_state = \<lparr>target_temperature = (\<lambda>e. 215), target_temperature_bed = 60,
     current_temperature = (\<lambda>e. 20), current_temperature_bed = 20, current_temperature_pinda = 20,
     current_temperature_ambient = 20,
     current_temperature_isr = (\<lambda>e. 25), target_temperature_isr = (\<lambda>e. 0),
     current_temperature_bed_isr = 26, target_temperature_bed_isr = 0,
     current_temperature_pinda_isr = 27, current_temperature_ambient_isr = 28,
     temp_meas_ready = True, temp_mgr_interrupt = True, temp_error_state = tes_clear,
     saved_bed_temperature = 0, saved_extruder_temperature = 0, saved_fan_speed = 0,
     fanSpeed = 128, fan_full_speed = False, hotend_pids = (\<lambda>e. example_hotend),
     the_bed_pid = example_bed, heater_pins_low = False\<rparr>"

definition example_error_state :: temp_state where
  "example_error_state = set_temp_error example_config hotend 0 max_t example_state"

subsection \<open>Saturation of the PID output\<close>

text \<open>
  Whether the output computed by \<^verbatim>\<open>pid_heater\<close> took the branch
  \<^verbatim>\<open>pid_output > PID_MAX\<close>, or the branch \<^verbatim>\<open>else if (pid_output < 0)\<close>.
\<close>

definition pid_saturated_high :: "config \<Rightarrow> real \<Rightarrow> int \<Rightarrow> hotend_pid \<Rightarrow> bool" where
  "pid_saturated_high cfg current target h =
     (snd (pid_raw_output cfg current target h) > real_of_int (PID_MAX cfg))"

definition pid_saturated_low :: "config \<Rightarrow> real \<Rightarrow> int \<Rightarrow> hotend_pid \<Rightarrow> bool" where
  "pid_saturated_low cfg current target h =
     (\<not> pid_saturated_high cfg current target h \<and> snd (pid_raw_output cfg current target h) < 0)"

subsection \<open>The soft-PWM generator\<close>

text \<open>
  The static variables \<^verbatim>\<open>pwm_count\<close> and \<^verbatim>\<open>soft_pwm_0\<close> of \<^verbatim>\<open>soft_pwm_core\<close> and the
  level of \<^verbatim>\<open>HEATER_0_PIN\<close>. With more than one extruder the function repeats the same
  statements on \<^verbatim>\<open>soft_pwm_1\<close> and \<^verbatim>\<open>soft_pwm_2\<close>; the bed is driven by the hardware
  PWM of timer 0. All three variables are bytes.
\<close>

record soft_pwm_state =
  pwm_count :: nat
  soft_pwm_0 :: nat
  HEATER_0_PIN :: bool

text \<open>
  One call of \<^verbatim>\<open>soft_pwm_core\<close> (standard modulation, \<^verbatim>\<open>SLOW_PWM_HEATERS\<close> undefined);
  \<open>scale\<close> is \<^verbatim>\<open>SOFT_PWM_SCALE\<close>, which the file defines as 0 unless the configuration
  has defined it, and \<open>duty\<close> is the value of the register \<^verbatim>\<open>soft_pwm[0]\<close> at this tick.
\<close>

definition soft_pwm_core :: "nat \<Rightarrow> nat \<Rightarrow> soft_pwm_state \<Rightarrow> soft_pwm_state" where
  "soft_pwm_core scale duty s =
    (let s1 = (if pwm_count s = 0
               then (let s0 = s\<lparr>soft_pwm_0 := duty\<rparr>
                     in if soft_pwm_0 s0 > 0 then s0\<lparr>HEATER_0_PIN := True\<rparr>
                        else s0\<lparr>HEATER_0_PIN := False\<rparr>)
               else s);
         s2 = (if soft_pwm_0 s1 < pwm_count s1 then s1\<lparr>HEATER_0_PIN := False\<rparr> else s1);
         s3 = s2\<lparr>pwm_count := (pwm_count s2 + 2 ^ scale) mod 256\<rparr>
     in s3\<lparr>pwm_count := pwm_count s3 mod 128\<rparr>)"

text \<open>The state at power-on: the initialisers of the static variables.\<close>

definition soft_pwm_init_state :: "nat \<Rightarrow> soft_pwm_state" where
  "soft_pwm_init_state scale = \<lparr>pwm_count = 2 ^ scale mod 256, soft_pwm_0 = 0, HEATER_0_PIN = False\<rparr>"

text \<open>
  A run of ticks, one per element of the list of the values that the duty register has
  at the ticks: the state after the run, and the level of the pin after each tick.
\<close>

fun soft_pwm_ticks :: "nat \<Rightarrow> nat list \<Rightarrow> soft_pwm_state \<Rightarrow> soft_pwm_state" where
  "soft_pwm_ticks scale [] s = s"
| "soft_pwm_ticks scale (d # ds) s = soft_pwm_ticks scale ds (soft_pwm_core scale d s)"

fun pin_trace :: "nat \<Rightarrow> nat list \<Rightarrow> soft_pwm_state \<Rightarrow> bool list" where
  "pin_trace scale [] s = []"
| "pin_trace scale (d # ds) s =
     HEATER_0_PIN (soft_pwm_core scale d s) # pin_trace scale ds (soft_pwm_core scale d s)"

text \<open>The number of ticks of a run after which the pin is high.\<close>

definition on_ticks :: "bool list \<Rightarrow> nat" where
  "on_ticks tr = length (filter (\<lambda>p. p) tr)"

subsection \<open>Conversion of raw values to temperatures\<close>

text \<open>
  A temperature table is an array \<^verbatim>\<open>short [][2]\<close> of pairs (raw value, degrees); with
  its length it is a list of pairs. \<^verbatim>\<open>heater_ttbl_map[e]\<close> is the table of hotend \<open>e\<close>,
  or \<^verbatim>\<open>NULL\<close>. The tables themselves and the constants of the amplifier formula are in
  headers outside of this file.
\<close>

type_synonym temptable = "(int \<times> int) list"

record sensor_config =
  heater_ttbl_map :: "nat \<Rightarrow> temptable option"
  OVERSAMPLENR :: int
  TEMP_SENSOR_AD595_GAIN :: real
  TEMP_SENSOR_AD595_OFFSET :: real

text \<open>
  An \<^verbatim>\<open>int\<close> of the AVR has 16 bits, as a \<^verbatim>\<open>short\<close> has. \<open>int16\<close> is the value of an
  \<^verbatim>\<open>int\<close> expression whose mathematical value is \<open>x\<close>, with two's complement
  wrap-around.
\<close>

definition int16 :: "int \<Rightarrow> int" where
  "int16 x = (x + 32768) mod 65536 - 32768"

text \<open>
  The search loop of \<^verbatim>\<open>analog2temp\<close>,
  \<^verbatim>\<open>for (i=1; i<len; i++) if (tt[i][0] > raw) { ...; break; }\<close>:
  the value of \<open>i\<close> when the loop is left.
\<close>

function tt_search :: "temptable \<Rightarrow> int \<Rightarrow> nat \<Rightarrow> nat" where
  "tt_search tt raw i =
     (if i < length tt
      then (if fst (tt ! i) > raw then i else tt_search tt raw (Suc i))
      else i)"
  by pat_completeness auto
termination
  by (relation "measure (\<lambda>(tt, raw, i). length tt - i)") auto

declare tt_search.simps [simp del]

text \<open>The interpolation between the entries \<open>i - 1\<close> and \<open>i\<close>, computed in \<^verbatim>\<open>float\<close>.\<close>

definition tt_interpolate :: "temptable \<Rightarrow> int \<Rightarrow> nat \<Rightarrow> real" where
  "tt_interpolate tt raw i =
     real_of_int (snd (tt ! (i - 1)))
     + real_of_int (int16 (raw - fst (tt ! (i - 1))))
       * real_of_int (int16 (snd (tt ! i) - snd (tt ! (i - 1))))
       / real_of_int (int16 (fst (tt ! i) - fst (tt ! (i - 1))))"

text \<open>The branch of \<^verbatim>\<open>analog2temp\<close> for a table that is not \<^verbatim>\<open>NULL\<close>.\<close>

definition tt_celsius :: "temptable \<Rightarrow> int \<Rightarrow> real" where
  "tt_celsius tt raw =
    (let i = tt_search tt raw 1;
         celsius = (if i < length tt then tt_interpolate tt raw i else 0)
     in if i = length tt then real_of_int (snd (tt ! (i - 1))) else celsius)"

text \<open>
  \<^verbatim>\<open>analog2temp(raw, e)\<close> (\<^verbatim>\<open>HEATER_0_USES_MAX6675\<close> undefined). An extruder number that
  is not below \<^verbatim>\<open>EXTRUDERS\<close> ends in \<^verbatim>\<open>kill\<close>, which stops the machine.
\<close>

datatype temp_fault = Invalid_extruder_number

definition analog2temp :: "config \<Rightarrow> sensor_config \<Rightarrow> int \<Rightarrow> nat \<Rightarrow> temp_fault + real" where
  "analog2temp cfg sc raw e =
    (if e \<ge> EXTRUDERS cfg then Inl Invalid_extruder_number
     else case heater_ttbl_map sc e of
            Some tt \<Rightarrow> Inr (tt_celsius tt raw)
          | None \<Rightarrow>
              Inr (((real_of_int raw * ((5 * 100) / 1024) / real_of_int (OVERSAMPLENR sc))
                    * TEMP_SENSOR_AD595_GAIN sc) + TEMP_SENSOR_AD595_OFFSET sc))"

text \<open>
  What a table of a thermistor is: at least one entry and fewer than 256 (its length is
  a byte), the raw values strictly increasing, and raw values and temperatures within the
  14 bits of a sum of \<^verbatim>\<open>OVERSAMPLENR\<close> conversions of 10 bits, so that no difference of
  two of them overflows an \<^verbatim>\<open>int\<close>.
\<close>

definition in14 :: "int \<Rightarrow> bool" where
  "in14 x = (- 16384 \<le> x \<and> x \<le> 16383)"

definition table_ok :: "temptable \<Rightarrow> bool" where
  "table_ok tt = (0 < length tt \<and> length tt < 256
     \<and> sorted_wrt (\<lambda>a b. a < b) (map fst tt)
     \<and> list_all (\<lambda>p. in14 (fst p) \<and> in14 (snd p)) tt)"

text \<open>A table of an NTC thermistor falls, one of a PTC sensor rises, with the raw value.\<close>

definition temps_falling :: "temptable \<Rightarrow> bool" where
  "temps_falling tt = sorted_wrt (\<lambda>a b. a \<ge> b) (map snd tt)"

definition temps_rising :: "temptable \<Rightarrow> bool" where
  "temps_rising tt = sorted_wrt (\<lambda>a b. a \<le> b) (map snd tt)"

text \<open>A falling table and a configuration for examples.\<close>

definition example_table :: temptable where
  "example_table = [(368, 300), (400, 295), (432, 290), (480, 285), (528, 280)]"

definition example_sensors :: sensor_config where
  "example_sensors = \<lparr>heater_ttbl_map = (\<lambda>e. Some example_table), OVERSAMPLENR = 16,
     TEMP_SENSOR_AD595_GAIN = 1, TEMP_SENSOR_AD595_OFFSET = 0\<rparr>"

subsection \<open>The calibration of the temperature model\<close>

text \<open>
  The parameters of the model are floats that are compared with \<^verbatim>\<open>NAN\<close> and that are
  read from the EEPROM as they are, so they are modelled with the values beyond the reals.
  A comparison with an operand that is NaN is false, apart from \<^verbatim>\<open>!=\<close>, which is true.
\<close>

datatype c_float = NaN | MInf | Fin real | PInf

fun c_float_le :: "c_float \<Rightarrow> c_float \<Rightarrow> bool" where
  "c_float_le NaN b = False"
| "c_float_le a NaN = False"
| "c_float_le MInf b = True"
| "c_float_le a PInf = True"
| "c_float_le (Fin x) (Fin y) = (x \<le> y)"
| "c_float_le a b = False"

fun c_float_eq :: "c_float \<Rightarrow> c_float \<Rightarrow> bool" where
  "c_float_eq NaN b = False"
| "c_float_eq a NaN = False"
| "c_float_eq a b = (a = b)"

definition c_float_ge :: "c_float \<Rightarrow> c_float \<Rightarrow> bool" where
  "c_float_ge a b = c_float_le b a"

definition c_float_gt :: "c_float \<Rightarrow> c_float \<Rightarrow> bool" where
  "c_float_gt a b = (c_float_le b a \<and> \<not> c_float_eq a b)"

definition c_float_ne :: "c_float \<Rightarrow> c_float \<Rightarrow> bool" where
  "c_float_ne a b = (\<not> c_float_eq a b)"

definition c_isnan :: "c_float \<Rightarrow> bool" where
  "c_isnan a = (a = NaN)"

text \<open>
  The parameters in \<^verbatim>\<open>temp_model::data\<close> (\<^verbatim>\<open>P\<close>, \<^verbatim>\<open>C\<close>, \<^verbatim>\<open>R[]\<close>, \<^verbatim>\<open>Ta_corr\<close>,
  \<^verbatim>\<open>warn\<close>, \<^verbatim>\<open>err\<close>) and its flag \<^verbatim>\<open>uninitialized\<close>; the variables \<^verbatim>\<open>enabled\<close> and
  \<^verbatim>\<open>warn_beep\<close> of the namespace \<^verbatim>\<open>temp_model\<close>.
\<close>

record model_data =
  data_P :: c_float
  data_C :: c_float
  data_R :: "nat \<Rightarrow> c_float"
  data_Ta_corr :: c_float
  data_warn :: c_float
  data_err :: c_float
  flag_uninitialized :: bool

record temp_model_t =
  data :: model_data
  enabled :: bool
  warn_beep :: bool

text \<open>\<^verbatim>\<open>static_assert(TEMP_MODEL_R_SIZE == 16)\<close>.\<close>

definition TEMP_MODEL_R_SIZE :: nat where
  "TEMP_MODEL_R_SIZE = 16"

text \<open>The defaults of the configuration, and the values stored in the EEPROM.\<close>

record model_defaults =
  TEMP_MODEL_P :: c_float
  TEMP_MODEL_Ta_corr :: c_float
  TEMP_MODEL_W :: c_float
  TEMP_MODEL_E :: c_float

record model_eeprom =
  EEPROM_TEMP_MODEL_ENABLE :: nat
  EEPROM_TEMP_MODEL_P :: c_float
  EEPROM_TEMP_MODEL_C :: c_float
  EEPROM_TEMP_MODEL_R :: "nat \<Rightarrow> c_float"
  EEPROM_TEMP_MODEL_Ta_corr :: c_float
  EEPROM_TEMP_MODEL_W :: c_float
  EEPROM_TEMP_MODEL_E :: c_float

text \<open>\<^verbatim>\<open>temp_model::calibrated()\<close>, with its tests in the order of the source.\<close>

definition calibrated :: "model_data \<Rightarrow> bool" where
  "calibrated d =
    (if \<not> c_float_ge (data_P d) (Fin 0) then False
     else if \<not> c_float_ge (data_C d) (Fin 0) then False
     else if \<not> c_float_ne (data_Ta_corr d) NaN then False
     else if \<not> list_all (\<lambda>i. c_float_ge (data_R d i) (Fin 0)) [0..<TEMP_MODEL_R_SIZE] then False
     else if \<not> c_float_ne (data_warn d) NaN then False
     else if \<not> c_float_ne (data_err d) NaN then False
     else True)"

text \<open>\<^verbatim>\<open>temp_model::setup()\<close>.\<close>

definition temp_model_setup :: "temp_model_t \<Rightarrow> temp_model_t" where
  "temp_model_setup m =
    (let m1 = (if \<not> calibrated (data m) then m\<lparr>enabled := False\<rparr> else m)
     in m1\<lparr>data := (data m1)\<lparr>flag_uninitialized := True\<rparr>\<rparr>)"

text \<open>
  \<^verbatim>\<open>temp_model_reset_settings\<close> and \<^verbatim>\<open>temp_model_load_settings\<close>. Both run under a
  \<^verbatim>\<open>TempMgrGuard\<close>, which masks the interrupt of the temperature manager while they
  run and does not touch the model. Their loops over \<^verbatim>\<open>i != TEMP_MODEL_R_SIZE\<close> write
  the entries of \<^verbatim>\<open>R\<close> below that size, as \<open>for_extruders\<close> does for any bound.
\<close>

definition temp_model_reset_settings :: "model_defaults \<Rightarrow> temp_model_t \<Rightarrow> temp_model_t" where
  "temp_model_reset_settings dflt m =
    (let d1 = (data m)\<lparr>data_P := TEMP_MODEL_P dflt\<rparr>;
         d2 = d1\<lparr>data_C := NaN\<rparr>;
         d3 = d2\<lparr>data_R := for_extruders TEMP_MODEL_R_SIZE (\<lambda>i. NaN) (data_R d2)\<rparr>;
         d4 = d3\<lparr>data_Ta_corr := TEMP_MODEL_Ta_corr dflt\<rparr>;
         d5 = d4\<lparr>data_warn := TEMP_MODEL_W dflt\<rparr>;
         d6 = d5\<lparr>data_err := TEMP_MODEL_E dflt\<rparr>
     in m\<lparr>data := d6, warn_beep := True, enabled := False\<rparr>)"

definition temp_model_load_settings ::
    "model_defaults \<Rightarrow> model_eeprom \<Rightarrow> temp_model_t \<Rightarrow> temp_model_t" where
  "temp_model_load_settings dflt ee m =
    (let m1 = m\<lparr>enabled := (EEPROM_TEMP_MODEL_ENABLE ee mod 256 \<noteq> 0)\<rparr>;
         d1 = (data m1)\<lparr>data_P := EEPROM_TEMP_MODEL_P ee\<rparr>;
         d2 = d1\<lparr>data_C := EEPROM_TEMP_MODEL_C ee\<rparr>;
         d3 = d2\<lparr>data_R := for_extruders TEMP_MODEL_R_SIZE (EEPROM_TEMP_MODEL_R ee) (data_R d2)\<rparr>;
         d4 = d3\<lparr>data_Ta_corr := EEPROM_TEMP_MODEL_Ta_corr ee\<rparr>;
         d5 = d4\<lparr>data_warn := EEPROM_TEMP_MODEL_W ee\<rparr>;
         d6 = d5\<lparr>data_err := EEPROM_TEMP_MODEL_E ee\<rparr>;
         m2 = m1\<lparr>data := d6\<rparr>;
         m3 = (if \<not> calibrated (data m2) then temp_model_reset_settings dflt m2 else m2)
     in temp_model_setup m3)"

text \<open>Values for examples.\<close>

definition example_defaults :: model_defaults where
  "example_defaults = \<lparr>TEMP_MODEL_P = Fin 38, TEMP_MODEL_Ta_corr = Fin (- 7),
     TEMP_MODEL_W = Fin (12 / 10), TEMP_MODEL_E = Fin (174 / 100)\<rparr>"

definition example_model :: temp_model_t where
  "example_model = \<lparr>data = \<lparr>data_P = Fin 0, data_C = Fin 12, data_R = (\<lambda>i. Fin 20),
       data_Ta_corr = Fin (- 7), data_warn = Fin (12 / 10), data_err = Fin (174 / 100),
       flag_uninitialized = False\<rparr>,
     enabled = True, warn_beep = False\<rparr>"

definition blank_eeprom :: model_eeprom where
  "blank_eeprom = \<lparr>EEPROM_TEMP_MODEL_ENABLE = 255, EEPROM_TEMP_MODEL_P = NaN,
     EEPROM_TEMP_MODEL_C = NaN, EEPROM_TEMP_MODEL_R = (\<lambda>i. NaN),
     EEPROM_TEMP_MODEL_Ta_corr = NaN, EEPROM_TEMP_MODEL_W = NaN, EEPROM_TEMP_MODEL_E = NaN\<rparr>"

subsection \<open>The relay autotuner of the PID gains\<close>

text \<open>
  \<^verbatim>\<open>unsigned long\<close> and \<^verbatim>\<open>long\<close> have 32 bits: \<open>u32\<close> and \<open>int32\<close> are the values of
  expressions of these types whose mathematical value is \<open>x\<close>. The division of C
  truncates towards zero (\<open>sdiv\<close>), and \<^verbatim>\<open>>> 1\<close> on a \<^verbatim>\<open>long\<close> is the arithmetic shift.
\<close>

definition u32 :: "int \<Rightarrow> int" where
  "u32 x = x mod 4294967296"

definition int32 :: "int \<Rightarrow> int" where
  "int32 x = (x + 2147483648) mod 4294967296 - 2147483648"

text \<open>What \<^verbatim>\<open>PID_autotune\<close> writes to the serial line.\<close>

datatype serial_line =
    Autotune_start
  | Bad_extruder_number
  | Bias_d_min_max int int real real
  | Ku_Tu real real
  | Classic_PID real real real
  | Temperature_line bool real nat
  | Failed_temperature_too_high
  | Failed_timeout
  | Thermal_runaway bool
  | Autotune_finished

text \<open>How \<^verbatim>\<open>PID_autotune\<close> returns.\<close>

datatype autotune_exit =
    Exit_bad_extruder
  | Exit_too_high
  | Exit_not_rising
  | Exit_timeout
  | Exit_finished


text \<open>
  The local variables of \<^verbatim>\<open>PID_autotune\<close> (with the prefix \<open>at_\<close>), the globals it
  writes (\<^verbatim>\<open>pid_cycle\<close>, \<^verbatim>\<open>pid_number_of_cycles\<close>, \<^verbatim>\<open>pid_tuning_finished\<close>, \<^verbatim>\<open>_Kp\<close>,
  \<^verbatim>\<open>_Ki\<close>, \<^verbatim>\<open>_Kd\<close>), the duty it drives (\<^verbatim>\<open>soft_pwm[extruder]\<close> or \<^verbatim>\<open>soft_pwm_bed\<close>),
  the target it displays and the lines it has written.
\<close>

record autotune =
  at_input :: real
  at_heating :: bool
  at_temp_millis :: int
  at_t1 :: int
  at_t2 :: int
  at_t_high :: int
  at_t_low :: int
  at_bias :: int
  at_d :: int
  at_Ku :: real
  at_Tu :: real
  at_max :: real
  at_min :: real
  at_safety_check_cycles :: nat
  at_temp_ambient :: real
  pid_cycle :: int
  pid_number_of_cycles :: int
  pid_tuning_finished :: bool
  gain_Kp :: real
  gain_Ki :: real
  gain_Kd :: real
  at_duty :: nat
  at_target :: int
  serial :: "serial_line list"

text \<open>
  The parameters of a call: \<^verbatim>\<open>temp\<close>, \<^verbatim>\<open>extruder\<close> (negative for the bed) and
  \<^verbatim>\<open>ncycles\<close>.
\<close>

record autotune_call =
  at_temp :: real
  at_extruder :: int
  at_ncycles :: int

text \<open>\<^verbatim>\<open>(extruder<0?(MAX_BED_POWER):(PID_MAX))\<close> and \<^verbatim>\<open>safety_check_cycles_count\<close>.\<close>

definition max_power :: "config \<Rightarrow> autotune_call \<Rightarrow> int" where
  "max_power cfg c = (if at_extruder c < 0 then MAX_BED_POWER cfg else PID_MAX cfg)"

definition safety_check_cycles_count :: "autotune_call \<Rightarrow> nat" where
  "safety_check_cycles_count c = (if at_extruder c < 0 then 45 else 10)"

text \<open>Writing \<open>v\<close> to the duty, an \<^verbatim>\<open>unsigned char\<close>.\<close>

definition set_duty :: "int \<Rightarrow> autotune \<Rightarrow> autotune" where
  "set_duty v a = a\<lparr>at_duty := nat (v mod 256)\<rparr>"

definition say :: "serial_line \<Rightarrow> autotune \<Rightarrow> autotune" where
  "say l a = a\<lparr>serial := serial a @ [l]\<rparr>"


text \<open>
  The computation of the gains, \<^verbatim>\<open>if(pid_cycle > 2) { ... }\<close>, inside the branch
  \<^verbatim>\<open>if(pid_cycle > 0)\<close>.
\<close>

definition autotune_gains :: "autotune \<Rightarrow> autotune" where
  "autotune_gains a =
    (if pid_cycle a > 2
     then (let a1 = a\<lparr>at_Ku := (4 * real_of_int (at_d a)) / (314159 / 100000 * (at_max a - at_min a) / 2)\<rparr>;
               a2 = a1\<lparr>at_Tu := real_of_int (int32 (at_t_low a1 + at_t_high a1)) / 1000\<rparr>;
               a3 = say (Ku_Tu (at_Ku a2) (at_Tu a2)) a2;
               a4 = a3\<lparr>gain_Kp := 6 / 10 * at_Ku a3\<rparr>;
               a5 = a4\<lparr>gain_Ki := 2 * gain_Kp a4 / at_Tu a4\<rparr>;
               a6 = a5\<lparr>gain_Kd := gain_Kp a5 * at_Tu a5 / 8\<rparr>
           in say (Classic_PID (gain_Kp a6) (gain_Ki a6) (gain_Kd a6)) a6)
     else a)"

text \<open>
  The branch \<^verbatim>\<open>if(pid_cycle > 0) { ... }\<close>: the new bias and amplitude, with the line
  that reports them, and then the gains.
\<close>

definition autotune_new_bias :: "config \<Rightarrow> autotune_call \<Rightarrow> autotune \<Rightarrow> autotune" where
  "autotune_new_bias cfg c a =
    (let a1 = a\<lparr>at_bias := int32 (at_bias a
                  + int32 (at_d a * int32 (at_t_high a - at_t_low a))
                      sdiv int32 (at_t_low a + at_t_high a))\<rparr>;
         a2 = a1\<lparr>at_bias := constrain (at_bias a1) 20 (max_power cfg c - 20)\<rparr>;
         a3 = (if at_bias a2 > max_power cfg c sdiv 2
               then a2\<lparr>at_d := max_power cfg c - 1 - at_bias a2\<rparr>
               else a2\<lparr>at_d := at_bias a2\<rparr>)
     in say (Bias_d_min_max (at_bias a3) (at_d a3) (at_min a3) (at_max a3)) a3)"

definition autotune_bias :: "config \<Rightarrow> autotune_call \<Rightarrow> autotune \<Rightarrow> autotune" where
  "autotune_bias cfg c a =
    (if pid_cycle a > 0 then autotune_gains (autotune_new_bias cfg c a) else a)"

text \<open>
  The first part of an iteration of the loop, \<^verbatim>\<open>if(temp_meas_ready == true) { ... }\<close>:
  \<open>ready\<close> is the flag, \<open>current\<close> the current temperature of the heater after
  \<^verbatim>\<open>updateTemperatures\<close>, and \<open>now\<close> the value of \<^verbatim>\<open>_millis()\<close> during the iteration.
  \<open>autotune_sample\<close> is the reading of the input with the running maximum and minimum,
  \<open>autotune_switch_off\<close> the body of \<^verbatim>\<open>if(heating == true && input > temp)\<close> once the
  5 seconds have passed, and \<open>autotune_switch_on\<close> that of
  \<^verbatim>\<open>if(heating == false && input < temp)\<close>.
\<close>

definition autotune_sample :: "real \<Rightarrow> autotune \<Rightarrow> autotune" where
  "autotune_sample current a =
    (let a1 = a\<lparr>at_input := current\<rparr>;
         a2 = a1\<lparr>at_max := max (at_max a1) (at_input a1)\<rparr>
     in a2\<lparr>at_min := min (at_min a2) (at_input a2)\<rparr>)"

definition autotune_switch_off :: "autotune_call \<Rightarrow> int \<Rightarrow> autotune \<Rightarrow> autotune" where
  "autotune_switch_off c now a =
    (let b1 = a\<lparr>at_heating := False\<rparr>;
         b2 = set_duty (int32 (at_bias b1 - at_d b1) div 2) b1;
         b3 = b2\<lparr>at_t1 := u32 now\<rparr>;
         b4 = b3\<lparr>at_t_high := int32 (at_t1 b3 - at_t2 b3)\<rparr>
     in b4\<lparr>at_max := at_temp c\<rparr>)"

definition autotune_switch_on :: "config \<Rightarrow> autotune_call \<Rightarrow> int \<Rightarrow> autotune \<Rightarrow> autotune" where
  "autotune_switch_on cfg c now a =
    (let b1 = a\<lparr>at_heating := True\<rparr>;
         b2 = b1\<lparr>at_t2 := u32 now\<rparr>;
         b3 = b2\<lparr>at_t_low := int32 (at_t2 b2 - at_t1 b2)\<rparr>;
         b4 = autotune_bias cfg c b3;
         b5 = set_duty (int32 (at_bias b4 + at_d b4) div 2) b4;
         b6 = b5\<lparr>pid_cycle := int16 (pid_cycle b5 + 1)\<rparr>
     in b6\<lparr>at_min := at_temp c\<rparr>)"

definition autotune_relay ::
    "config \<Rightarrow> autotune_call \<Rightarrow> bool \<Rightarrow> real \<Rightarrow> int \<Rightarrow> autotune \<Rightarrow> autotune" where
  "autotune_relay cfg c ready current now a =
    (if ready
     then (let a3 = autotune_sample current a;
               a4 = (if at_heating a3 \<and> at_input a3 > at_temp c \<and> u32 (u32 now - at_t2 a3) > 5000
                     then autotune_switch_off c now a3
                     else a3)
           in if \<not> at_heating a4 \<and> at_input a4 < at_temp c \<and> u32 (u32 now - at_t1 a4) > 5000
              then autotune_switch_on cfg c now a4
              else a4)
     else a)"

text \<open>
  The periodic report, \<^verbatim>\<open>if(_millis() - temp_millis > 2000) { ... }\<close>, with the check
  that the temperature is rising. \<^verbatim>\<open>temp_runaway_stop\<close> writes the thermal runaway of
  the heater and stops the machine.
\<close>

definition autotune_report ::
    "autotune_call \<Rightarrow> int \<Rightarrow> autotune \<Rightarrow> autotune_exit option \<times> autotune" where
  "autotune_report c now a =
    (if u32 (u32 now - at_temp_millis a) > 2000
     then (let a1 = say (Temperature_line (at_extruder c < 0) (at_input a) (at_duty a)) a
           in if at_safety_check_cycles a1 = 0
              then (None, a1\<lparr>at_temp_ambient := at_input a1,
                              at_safety_check_cycles := (at_safety_check_cycles a1 + 1) mod 256,
                              at_temp_millis := u32 now\<rparr>)
              else if at_safety_check_cycles a1 < safety_check_cycles_count c
              then (None, a1\<lparr>at_safety_check_cycles := (at_safety_check_cycles a1 + 1) mod 256,
                              at_temp_millis := u32 now\<rparr>)
              else if at_safety_check_cycles a1 = safety_check_cycles_count c
              then (let a2 = a1\<lparr>at_safety_check_cycles := (at_safety_check_cycles a1 + 1) mod 256\<rparr>
                    in if \<bar>at_input a2 - at_temp_ambient a2\<bar> < 5
                       then (Some Exit_not_rising,
                             (say (Thermal_runaway (at_extruder c < 0)) a2)\<lparr>pid_tuning_finished := True\<rparr>)
                       else (None, a2\<lparr>at_temp_millis := u32 now\<rparr>))
              else (None, a1\<lparr>at_temp_millis := u32 now\<rparr>))
     else (None, a))"

text \<open>The rest of an iteration, from \<^verbatim>\<open>if(input > (temp + 20))\<close> on.\<close>

definition autotune_checks ::
    "autotune_call \<Rightarrow> int \<Rightarrow> autotune \<Rightarrow> autotune_exit option \<times> autotune" where
  "autotune_checks c now a =
    (if at_input a > at_temp c + 20
     then (Some Exit_too_high,
           (say Failed_temperature_too_high a)\<lparr>pid_tuning_finished := True, pid_cycle := 0\<rparr>)
     else case autotune_report c now a of
            (Some e, a1) \<Rightarrow> (Some e, a1)
          | (None, a1) \<Rightarrow>
              if u32 (u32 (u32 now - at_t1 a1) + u32 (u32 now - at_t2 a1)) > 10 * 60 * 1000 * 2
              then (Some Exit_timeout,
                    (say Failed_timeout a1)\<lparr>pid_tuning_finished := True, pid_cycle := 0\<rparr>)
              else if pid_cycle a1 > at_ncycles c
              then (Some Exit_finished,
                    (say Autotune_finished a1)\<lparr>pid_tuning_finished := True, pid_cycle := 0\<rparr>)
              else (None, a1))"

text \<open>One iteration of the loop \<^verbatim>\<open>for(;;)\<close>.\<close>

definition autotune_iteration ::
    "config \<Rightarrow> autotune_call \<Rightarrow> bool \<times> real \<times> int \<Rightarrow> autotune \<Rightarrow> autotune_exit option \<times> autotune" where
  "autotune_iteration cfg c env a =
    (case env of (ready, current, now) \<Rightarrow>
       autotune_checks c now (autotune_relay cfg c ready current now a))"



text \<open>
  The lines of the tuning (bias, ultimate gain and period, gains), the lines that a step
  has added to the serial output, and the condition under which an iteration switches
  the relay back to heating.
\<close>

fun tuning_line :: "serial_line \<Rightarrow> bool" where
  "tuning_line (Bias_d_min_max b d mn mx) = True"
| "tuning_line (Ku_Tu ku tu) = True"
| "tuning_line (Classic_PID kp ki kd) = True"
| "tuning_line l = False"

definition new_lines :: "autotune \<Rightarrow> autotune \<Rightarrow> serial_line list" where
  "new_lines a a' = drop (length (serial a)) (serial a')"

definition switches_to_heating :: "autotune_call \<Rightarrow> bool \<Rightarrow> real \<Rightarrow> int \<Rightarrow> autotune \<Rightarrow> bool" where
  "switches_to_heating c ready current now a =
     (ready \<and> \<not> at_heating a \<and> current < at_temp c \<and> u32 (u32 now - at_t1 a) > 5000)"

text \<open>
  The three conditions that the rest of an iteration tests on the state \<open>a\<close> that the
  first part has left: the input above \<^verbatim>\<open>temp + 20\<close>; a report due, with
  \<^verbatim>\<open>safety_check_cycles == safety_check_cycles_count\<close> and the input less than 5
  degrees away from \<^verbatim>\<open>temp_ambient\<close>; and the sum of the times since \<^verbatim>\<open>t1\<close> and since
  \<^verbatim>\<open>t2\<close> above 20 minutes.
\<close>

definition too_high :: "autotune_call \<Rightarrow> autotune \<Rightarrow> bool" where
  "too_high c a = (at_input a > at_temp c + 20)"

definition not_rising :: "autotune_call \<Rightarrow> int \<Rightarrow> autotune \<Rightarrow> bool" where
  "not_rising c now a =
     (u32 (u32 now - at_temp_millis a) > 2000
      \<and> at_safety_check_cycles a = safety_check_cycles_count c
      \<and> \<bar>at_input a - at_temp_ambient a\<bar> < 5)"

definition timed_out :: "int \<Rightarrow> autotune \<Rightarrow> bool" where
  "timed_out now a = (u32 (u32 (u32 now - at_t1 a) + u32 (u32 now - at_t2 a)) > 1200000)"

text \<open>The globals at power-on, and a call for the examples.\<close>

definition autotune_globals :: autotune where
  "autotune_globals = \<lparr>at_input = 0, at_heating = False, at_temp_millis = 0, at_t1 = 0, at_t2 = 0,
     at_t_high = 0, at_t_low = 0, at_bias = 0, at_d = 0, at_Ku = 0, at_Tu = 0, at_max = 0,
     at_min = 0, at_safety_check_cycles = 0, at_temp_ambient = 0, pid_cycle = 0,
     pid_number_of_cycles = 0, pid_tuning_finished = True, gain_Kp = 0, gain_Ki = 0, gain_Kd = 0,
     at_duty = 0, at_target = 0, serial = []\<rparr>"

definition example_call :: autotune_call where
  "example_call = \<lparr>at_temp = 210, at_extruder = 0, at_ncycles = 5\<rparr>"

text \<open>
  A state of the tuning of a hotend towards 210 degrees, in a cooling phase, after three
  counted cycles.
\<close>

definition example_cooling :: autotune where
  "example_cooling = autotune_globals\<lparr>at_input := 211, at_heating := False,
     at_temp_millis := 129000, at_t1 := 100000, at_t2 := 80000, at_t_high := 20000,
     at_t_low := 25000, at_bias := 127, at_d := 127, at_max := 215, at_min := 205,
     at_safety_check_cycles := 20, at_temp_ambient := 25, pid_cycle := 3,
     pid_number_of_cycles := 5, pid_tuning_finished := False\<rparr>"



section \<open>Properties\<close>

subsection \<open>The latched error state\<close>

lemma for_extruders_apply: "for_extruders n f a e = (if e < n then f e else a e)"
  by (induction n) auto

lemma tes_v_zero_iff:
  "tes_v t = 0 \<longleftrightarrow> \<not> tes_error t \<and> \<not> tes_assert t \<and> tes_source t mod 4 = 0 \<and> tes_index t mod 2 = 0 \<and> tes_type t mod 8 = 0"
  by (auto simp: tes_v_def)

lemma temp_error_state_disable_heater [simp]:
  "temp_error_state (disable_heater cfg s) = temp_error_state s"
  by (simp add: disable_heater_def temp_mgr_pid_def setIsrTargetTemperatures_def Let_def)

lemma type_u8_less_8: "type_u8 ty < 8"
  by (cases ty) auto

lemma set_temp_error_state:
  "temp_error_state (set_temp_error cfg src idx ty s) =
    (let t = temp_error_state s in
     (if \<not> tes_error t \<or> type_u8 ty < tes_type t
      then t\<lparr>tes_source := source_u8 src mod 4, tes_index := idx mod 2, tes_type := type_u8 ty\<rparr>
      else t)\<lparr>tes_error := True, tes_assert := True\<rparr>)"
  using type_u8_less_8[of ty] by (simp add: set_temp_error_def Let_def)

lemma set_temp_error_latched: "tes_error (temp_error_state (set_temp_error cfg src idx ty s))"
  by (simp add: set_temp_error_state Let_def)

lemma raise_all_latched:
  "tes_error (temp_error_state s) \<Longrightarrow> tes_error (temp_error_state (raise_all cfg cs s))"
  by (induction cs arbitrary: s) (auto simp: set_temp_error_latched)

lemma Min_insert_min:
  fixes a b :: nat
  assumes "finite S"
  shows "Min (insert (min a b) S) = min a (Min (insert b S))"
proof (cases "S = {}")
  case True
  then show ?thesis by simp
next
  case False
  with assms show ?thesis by (simp add: min.assoc)
qed

lemma raise_all_type_latched:
  "tes_error (temp_error_state s) \<Longrightarrow>
   tes_type (temp_error_state (raise_all cfg cs s)) =
     Min (insert (tes_type (temp_error_state s)) (type_u8 ` (snd \<circ> snd) ` set cs))"
proof (induction cs arbitrary: s)
  case Nil
  then show ?case by simp
next
  case (Cons c cs)
  let ?s1 = "set_temp_error cfg (fst c) (fst (snd c)) (snd (snd c)) s"
  have l: "tes_error (temp_error_state ?s1)" by (rule set_temp_error_latched)
  have t1: "tes_type (temp_error_state ?s1) = min (type_u8 (snd (snd c))) (tes_type (temp_error_state s))"
    using Cons.prems by (simp add: set_temp_error_state Let_def min_def)
  have fin: "finite (type_u8 ` (snd \<circ> snd) ` set cs)" by simp
  show ?case
    using Cons.IH[OF l] t1 Min_insert_min[OF fin, of "tes_type (temp_error_state s)" "type_u8 (snd (snd c))"]
    by (simp add: min.commute)
qed

lemma raise_all_type_clear:
  assumes "\<not> tes_error (temp_error_state s)" "cs \<noteq> []"
  shows "tes_type (temp_error_state (raise_all cfg cs s)) = Min (type_u8 ` (snd \<circ> snd) ` set cs)"
proof (cases cs)
  case Nil
  with assms show ?thesis by simp
next
  case (Cons c cs')
  let ?s1 = "set_temp_error cfg (fst c) (fst (snd c)) (snd (snd c)) s"
  have l: "tes_error (temp_error_state ?s1)" by (rule set_temp_error_latched)
  have t1: "tes_type (temp_error_state ?s1) = type_u8 (snd (snd c))"
    using assms(1) by (simp add: set_temp_error_state Let_def)
  show ?thesis
    using raise_all_type_latched[OF l, of cfg cs'] t1 Cons by simp
qed

lemma set_temp_error_fields:
  "(let t = temp_error_state s; t' = temp_error_state (set_temp_error cfg src idx ty s) in
      (if \<not> tes_error t \<or> type_u8 ty < tes_type t
       then (tes_source t', tes_index t', tes_type t') = (source_u8 src, idx mod 2, type_u8 ty)
       else (tes_source t', tes_index t', tes_type t') = (tes_source t, tes_index t, tes_type t))
    \<and> (tes_error t \<longrightarrow> tes_type t' \<le> tes_type t)
    \<and> tes_error t' \<and> tes_assert t')"
  by (cases src) (auto simp add: set_temp_error_state Let_def)

text \<open>
  Claim C1. Starting from a cleared error state (\<^verbatim>\<open>temp_error_state.v == 0\<close>), after any
  sequence of calls of \<^verbatim>\<open>set_temp_error\<close> the flag \<^verbatim>\<open>error\<close> is set exactly when
  there was a call, and then the recorded type is the least ordinal, that is the highest
  priority, among the types raised. A single call overwrites the recorded source, index
  and type exactly when no error was latched or the new type has a strictly smaller
  ordinal than the recorded one; otherwise it leaves them as they were, so the ordinal
  of the recorded type of a latched error never grows. Every call sets \<^verbatim>\<open>error\<close> and
  \<^verbatim>\<open>assert\<close>.
\<close>

theorem set_temp_error_priority:
  assumes "tes_v (temp_error_state s0) = 0"
  shows "(tes_error (temp_error_state (raise_all cfg cs s0)) \<longleftrightarrow> cs \<noteq> [])
       \<and> (tes_error (temp_error_state (raise_all cfg cs s0)) \<longrightarrow>
            tes_type (temp_error_state (raise_all cfg cs s0)) = Min (type_u8 ` (snd \<circ> snd) ` set cs))
       \<and> (\<forall>s src idx ty.
            let t = temp_error_state s; t' = temp_error_state (set_temp_error cfg src idx ty s) in
              (if \<not> tes_error t \<or> type_u8 ty < tes_type t
               then (tes_source t', tes_index t', tes_type t') = (source_u8 src, idx mod 2, type_u8 ty)
               else (tes_source t', tes_index t', tes_type t') = (tes_source t, tes_index t, tes_type t))
            \<and> (tes_error t \<longrightarrow> tes_type t' \<le> tes_type t)
            \<and> tes_error t' \<and> tes_assert t')"
proof -
  have clear: "\<not> tes_error (temp_error_state s0)"
    using assms by (simp add: tes_v_zero_iff)
  have a: "tes_error (temp_error_state (raise_all cfg cs s0)) \<longleftrightarrow> cs \<noteq> []"
  proof (cases cs)
    case Nil
    with clear show ?thesis by simp
  next
    case (Cons c cs')
    then show ?thesis
      using raise_all_latched[OF set_temp_error_latched, of cfg cs' cfg "fst c" "fst (snd c)" "snd (snd c)" s0]
      by simp
  qed
  have b: "tes_error (temp_error_state (raise_all cfg cs s0)) \<longrightarrow>
            tes_type (temp_error_state (raise_all cfg cs s0)) = Min (type_u8 ` (snd \<circ> snd) ` set cs)"
    using a raise_all_type_clear[OF clear, of cs cfg] by blast
  show ?thesis
    using a b set_temp_error_fields[of _ cfg] by blast
qed

theorem set_temp_error_priority_witness:
  "tes_v (temp_error_state example_state) = 0
   \<and> tes_error (temp_error_state (raise_all example_config
        [(hotend, 0, model), (bed, 0, min_t), (hotend, 1, runaway)] example_state))
   \<and> tes_type (temp_error_state (raise_all example_config
        [(hotend, 0, model), (bed, 0, min_t), (hotend, 1, runaway)] example_state)) = 1
   \<and> tes_source (temp_error_state (raise_all example_config
        [(hotend, 0, model), (bed, 0, min_t), (hotend, 1, runaway)] example_state)) = 1"
proof -
  have h: "tes_v (temp_error_state example_state) = 0"
    by (simp add: example_state_def tes_clear_def tes_v_def)
  show ?thesis
    using h set_temp_error_priority [OF h, of example_config
        "[(hotend, 0, model), (bed, 0, min_t), (hotend, 1, runaway)]"]
    by (simp add: set_temp_error_state example_state_def tes_clear_def Let_def)
qed

lemma updateTemperatures_error_state:
  "temp_error_state (updateTemperatures cfg s) = temp_error_state s"
  by (simp add: updateTemperatures_def setCurrentTemperaturesFromIsr_def
      setIsrTargetTemperatures_def Let_def)

text \<open>
  Claim C8. \<^verbatim>\<open>updateTemperatures\<close> copies the foreground targets into
  \<^verbatim>\<open>target_temperature_isr\<close> and \<^verbatim>\<open>target_temperature_bed_isr\<close> when the whole byte
  \<^verbatim>\<open>temp_error_state.v\<close> is zero; when it is not zero, both are left as they were. In
  both cases the current temperatures of the foreground are refreshed from their
  \<^verbatim>\<open>_isr\<close> counterparts, and the foreground targets are not written.
\<close>

theorem updateTemperatures_targets_frozen:
  "(tes_v (temp_error_state s) = 0 \<longrightarrow>
      (\<forall>e<EXTRUDERS cfg. target_temperature_isr (updateTemperatures cfg s) e = target_temperature s e)
      \<and> target_temperature_bed_isr (updateTemperatures cfg s) = target_temperature_bed s)
   \<and> (tes_v (temp_error_state s) \<noteq> 0 \<longrightarrow>
      target_temperature_isr (updateTemperatures cfg s) = target_temperature_isr s
      \<and> target_temperature_bed_isr (updateTemperatures cfg s) = target_temperature_bed_isr s)
   \<and> (\<forall>e<EXTRUDERS cfg. current_temperature (updateTemperatures cfg s) e = current_temperature_isr s e)
   \<and> current_temperature_bed (updateTemperatures cfg s) = current_temperature_bed_isr s
   \<and> current_temperature_pinda (updateTemperatures cfg s) = current_temperature_pinda_isr s
   \<and> current_temperature_ambient (updateTemperatures cfg s) = current_temperature_ambient_isr s
   \<and> target_temperature (updateTemperatures cfg s) = target_temperature s
   \<and> target_temperature_bed (updateTemperatures cfg s) = target_temperature_bed s"
  by (simp add: updateTemperatures_def setCurrentTemperaturesFromIsr_def
      setIsrTargetTemperatures_def Let_def for_extruders_apply)

theorem updateTemperatures_targets_frozen_witness:
  "tes_v (temp_error_state example_state) = 0
   \<and> (0::nat) < EXTRUDERS example_config
   \<and> target_temperature_isr example_state 0 = 0
   \<and> target_temperature_isr (updateTemperatures example_config example_state) 0 = 215
   \<and> target_temperature_bed_isr (updateTemperatures example_config example_state) = 60
   \<and> current_temperature (updateTemperatures example_config example_state) 0 = 25
   \<and> tes_v (temp_error_state example_error_state) \<noteq> 0
   \<and> target_temperature_isr
        (updateTemperatures example_config (example_error_state\<lparr>target_temperature := (\<lambda>e. 215)\<rparr>)) 0 = 0
   \<and> current_temperature
        (updateTemperatures example_config (example_error_state\<lparr>target_temperature := (\<lambda>e. 215)\<rparr>)) 0 = 25"
proof -
  have h1: "tes_v (temp_error_state example_state) = 0"
    by (simp add: example_state_def tes_clear_def tes_v_def)
  have h2: "tes_v (temp_error_state (example_error_state\<lparr>target_temperature := (\<lambda>e. 215)\<rparr>)) \<noteq> 0"
    by (simp add: example_error_state_def set_temp_error_state tes_v_def Let_def)
  have h3: "target_temperature_isr (example_error_state\<lparr>target_temperature := (\<lambda>e. 215)\<rparr>) 0 = 0"
    by (simp add: example_error_state_def set_temp_error_def disable_heater_def temp_mgr_pid_def
        setIsrTargetTemperatures_def Let_def for_extruders_apply example_config_def)
  have h4: "current_temperature_isr (example_error_state\<lparr>target_temperature := (\<lambda>e. 215)\<rparr>) 0 = 25"
    by (simp add: example_error_state_def set_temp_error_def disable_heater_def temp_mgr_pid_def
        setIsrTargetTemperatures_def Let_def example_state_def)
  show ?thesis
    using h1 h2 h3 h4
      updateTemperatures_targets_frozen [of example_state example_config]
      updateTemperatures_targets_frozen [of "example_error_state\<lparr>target_temperature := (\<lambda>e. 215)\<rparr>" example_config]
    by (simp add: example_config_def example_state_def)
qed

subsection \<open>The PID regulator of a hotend\<close>

lemma constrain_bounds: "low \<le> high \<Longrightarrow> low \<le> constrain amt low high \<and> constrain amt low high \<le> high"
  by (auto simp: constrain_def)

lemma pid_clamped_fields:
  "iState_sum (pid_clamped cfg current target h) =
     constrain ((if pid_reset h then 0 else iState_sum h) + (real_of_int target - current))
       (iState_sum_min h) (iState_sum_max h)"
  "iTerm (pid_clamped cfg current target h) = cs_Ki cfg * iState_sum (pid_clamped cfg current target h)"
  "pid_error (pid_clamped cfg current target h) = real_of_int target - current"
  "pid_reset (pid_clamped cfg current target h) = False"
  "iState_sum_min (pid_clamped cfg current target h) = iState_sum_min h"
  "iState_sum_max (pid_clamped cfg current target h) = iState_sum_max h"
  "maxttemp (pid_clamped cfg current target h) = maxttemp h"
  by (simp_all add: pid_clamped_def Let_def)

lemma pid_raw_output_fields:
  "iState_sum (fst (pid_raw_output cfg current target h)) = iState_sum (pid_clamped cfg current target h)"
  "iTerm (fst (pid_raw_output cfg current target h)) = iTerm (pid_clamped cfg current target h)"
  "pid_error (fst (pid_raw_output cfg current target h)) = real_of_int target - current"
  "pid_reset (fst (pid_raw_output cfg current target h)) = False"
  "maxttemp (fst (pid_raw_output cfg current target h)) = maxttemp h"
  by (simp_all add: pid_raw_output_def Let_def pid_clamped_fields)

lemma pid_regulate_fields:
  "iState_sum (fst (pid_regulate cfg current target h)) =
     (if pid_saturated_high cfg current target h
      then (if real_of_int target - current > 0
            then iState_sum (pid_clamped cfg current target h) - (real_of_int target - current)
            else iState_sum (pid_clamped cfg current target h))
      else if pid_saturated_low cfg current target h
      then (if real_of_int target - current < 0
            then iState_sum (pid_clamped cfg current target h) - (real_of_int target - current)
            else iState_sum (pid_clamped cfg current target h))
      else iState_sum (pid_clamped cfg current target h))"
  "iTerm (fst (pid_regulate cfg current target h)) = iTerm (pid_clamped cfg current target h)"
  "pid_reset (fst (pid_regulate cfg current target h)) = False"
  "maxttemp (fst (pid_regulate cfg current target h)) = maxttemp h"
  using pid_raw_output_fields[of cfg current target h]
  by (auto simp add: pid_regulate_def pid_saturated_high_def pid_saturated_low_def
      split_beta Let_def)

lemma pid_heater_nonzero:
  "target \<noteq> 0 \<Longrightarrow>
   iState_sum (pid_heater cfg current target h) = iState_sum (fst (pid_regulate cfg current target h))
   \<and> iTerm (pid_heater cfg current target h) = iTerm (fst (pid_regulate cfg current target h))
   \<and> pid_reset (pid_heater cfg current target h) = False"
  by (simp add: pid_heater_def Let_def split_beta pid_regulate_fields)

text \<open>
  Claim C2, as stated, fails twice on the code. A step from an integral within its bounds
  (target 280, current temperature 20, so an error of 260 against \<open>iState_sum_max = 255\<close>)
  saturates high and leaves \<^verbatim>\<open>iState_sum\<close> at \<open>-5\<close>, below \<^verbatim>\<open>iState_sum_min\<close>: the
  error is subtracted after the sum was constrained. And after a step that saturated
  (target 210 at 20 degrees), the next step (at 205 degrees) does not saturate and takes
  the absolute value of the integral from 0 to 5.
\<close>

theorem pid_integral_bounds_counterexample:
  "(280::int) \<noteq> 0
   \<and> iState_sum_min example_hotend \<le> iState_sum example_hotend
   \<and> iState_sum example_hotend \<le> iState_sum_max example_hotend
   \<and> iState_sum (pid_heater example_config 20 280 example_hotend)
       < iState_sum_min (pid_heater example_config 20 280 example_hotend)
   \<and> snd (pid_raw_output example_config 20 210 example_hotend) > real_of_int (PID_MAX example_config)
   \<and> 0 \<le> snd (pid_raw_output example_config 205 210 (pid_heater example_config 20 210 example_hotend))
   \<and> snd (pid_raw_output example_config 205 210 (pid_heater example_config 20 210 example_hotend))
       \<le> real_of_int (PID_MAX example_config)
   \<and> \<bar>iState_sum (pid_heater example_config 20 210 example_hotend)\<bar>
       < \<bar>iState_sum (pid_heater example_config 205 210 (pid_heater example_config 20 210 example_hotend))\<bar>"
  by (simp add: pid_heater_def pid_regulate_def pid_raw_output_def pid_clamped_def constrain_def
      example_config_def example_hotend_def Let_def)

lemma pid_clamped_in_bounds:
  assumes "iState_sum_min h \<le> iState_sum_max h"
  shows "iState_sum_min h \<le> iState_sum (pid_clamped cfg current target h)
       \<and> iState_sum (pid_clamped cfg current target h) \<le> iState_sum_max h"
  using constrain_bounds[OF assms] by (simp add: pid_clamped_fields)

lemma pid_anti_windup_high:
  assumes "\<not> pid_reset h" "iState_sum_min h \<le> iState_sum h" "real_of_int target - current > 0"
  shows "iState_sum (pid_clamped cfg current target h) - (real_of_int target - current) \<le> iState_sum h"
  using assms by (simp add: pid_clamped_fields constrain_def)

lemma pid_anti_windup_low:
  assumes "\<not> pid_reset h" "iState_sum h \<le> iState_sum_max h" "real_of_int target - current < 0"
  shows "iState_sum h \<le> iState_sum (pid_clamped cfg current target h) - (real_of_int target - current)"
  using assms by (simp add: pid_clamped_fields constrain_def)

text \<open>
  Claim C2, amended. For a step of \<^verbatim>\<open>pid_heater\<close> with a target other than 0 and
  \<open>iState_sum_min \<le> iState_sum_max\<close>: the constrained sum \<open>c\<close> from which \<^verbatim>\<open>iTerm\<close> is
  computed lies within the bounds, and it is the stored integral when the output did not
  saturate. When the output saturated high, the stored integral is \<open>c\<close> minus the error
  if the error is positive and \<open>c\<close> otherwise, so it is at most \<open>iState_sum_max\<close>; when the
  output saturated low it is \<open>c\<close> minus the error if the error is negative, so at least
  \<open>iState_sum_min\<close>. A step that saturates high with a positive error, entered without a
  pending reset and with an integral not below \<open>iState_sum_min\<close>, does not increase the
  stored integral; symmetrically a step that saturates low with a negative error does
  not decrease it.
\<close>

theorem pid_integral_clamped:
  assumes "target \<noteq> 0" and "iState_sum_min h \<le> iState_sum_max h"
  shows "let h' = pid_heater cfg current target h;
             c = iState_sum (pid_clamped cfg current target h);
             e = real_of_int target - current
         in iState_sum_min h \<le> c \<and> c \<le> iState_sum_max h \<and> iTerm h' = cs_Ki cfg * c
          \<and> (\<not> pid_saturated_high cfg current target h \<and> \<not> pid_saturated_low cfg current target h
               \<longrightarrow> iState_sum h' = c)
          \<and> (pid_saturated_high cfg current target h
               \<longrightarrow> iState_sum h' = (if e > 0 then c - e else c) \<and> iState_sum h' \<le> iState_sum_max h)
          \<and> (pid_saturated_low cfg current target h
               \<longrightarrow> iState_sum h' = (if e < 0 then c - e else c) \<and> iState_sum_min h \<le> iState_sum h')
          \<and> (pid_saturated_high cfg current target h \<and> \<not> pid_reset h
               \<and> iState_sum_min h \<le> iState_sum h \<and> e > 0 \<longrightarrow> iState_sum h' \<le> iState_sum h)
          \<and> (pid_saturated_low cfg current target h \<and> \<not> pid_reset h
               \<and> iState_sum h \<le> iState_sum_max h \<and> e < 0 \<longrightarrow> iState_sum h \<le> iState_sum h')"
proof -
  let ?h' = "pid_heater cfg current target h"
  let ?c = "iState_sum (pid_clamped cfg current target h)"
  let ?e = "real_of_int target - current"
  have I: "iState_sum ?h' = iState_sum (fst (pid_regulate cfg current target h))"
    and T: "iTerm ?h' = cs_Ki cfg * ?c"
    using pid_heater_nonzero[OF assms(1), of cfg current h]
    by (simp_all add: pid_regulate_fields pid_clamped_fields)
  have b: "iState_sum_min h \<le> ?c \<and> ?c \<le> iState_sum_max h"
    by (rule pid_clamped_in_bounds[OF assms(2)])
  have hi: "pid_saturated_high cfg current target h \<Longrightarrow>
      iState_sum ?h' = (if ?e > 0 then ?c - ?e else ?c)"
    by (simp add: I pid_regulate_fields)
  have lo: "pid_saturated_low cfg current target h \<Longrightarrow>
      iState_sum ?h' = (if ?e < 0 then ?c - ?e else ?c)"
    by (simp add: I pid_regulate_fields pid_saturated_low_def)
  have un: "\<not> pid_saturated_high cfg current target h \<Longrightarrow> \<not> pid_saturated_low cfg current target h
      \<Longrightarrow> iState_sum ?h' = ?c"
    by (simp add: I pid_regulate_fields)
  have hib: "pid_saturated_high cfg current target h \<Longrightarrow> iState_sum ?h' \<le> iState_sum_max h"
    using hi b by (auto split: if_splits)
  have lob: "pid_saturated_low cfg current target h \<Longrightarrow> iState_sum_min h \<le> iState_sum ?h'"
    using lo b by (auto split: if_splits)
  have awh: "pid_saturated_high cfg current target h \<Longrightarrow> \<not> pid_reset h \<Longrightarrow>
      iState_sum_min h \<le> iState_sum h \<Longrightarrow> ?e > 0 \<Longrightarrow> iState_sum ?h' \<le> iState_sum h"
    using hi pid_anti_windup_high[of h target current cfg] by simp
  have awl: "pid_saturated_low cfg current target h \<Longrightarrow> \<not> pid_reset h \<Longrightarrow>
      iState_sum h \<le> iState_sum_max h \<Longrightarrow> ?e < 0 \<Longrightarrow> iState_sum h \<le> iState_sum ?h'"
    using lo pid_anti_windup_low[of h target current cfg] by simp
  show ?thesis
    unfolding Let_def
    using b T un hi lo hib lob awh awl by blast
qed

theorem pid_integral_clamped_witness:
  "(280::int) \<noteq> 0
   \<and> iState_sum_min example_hotend \<le> iState_sum_max example_hotend
   \<and> pid_saturated_high example_config 20 280 example_hotend
   \<and> iState_sum (pid_clamped example_config 20 280 example_hotend) = 255
   \<and> iState_sum (pid_heater example_config 20 280 example_hotend) = - 5
   \<and> iState_sum (pid_heater example_config 20 280 example_hotend) \<le> iState_sum_max example_hotend
   \<and> pid_saturated_high example_config 20 210 example_hotend
   \<and> iState_sum (pid_heater example_config 20 210 example_hotend) \<le> iState_sum example_hotend"
proof -
  have h1: "(280::int) \<noteq> 0" and h1': "(210::int) \<noteq> 0" by simp_all
  have h2: "iState_sum_min example_hotend \<le> iState_sum_max example_hotend"
    by (simp add: example_hotend_def)
  have s1: "pid_saturated_high example_config 20 280 example_hotend"
    by (simp add: pid_saturated_high_def pid_raw_output_def pid_clamped_def constrain_def
        example_config_def example_hotend_def Let_def)
  have s2: "pid_saturated_high example_config 20 210 example_hotend"
    by (simp add: pid_saturated_high_def pid_raw_output_def pid_clamped_def constrain_def
        example_config_def example_hotend_def Let_def)
  have c: "iState_sum (pid_clamped example_config 20 280 example_hotend) = 255"
    by (simp add: pid_clamped_def constrain_def example_hotend_def Let_def)
  have r: "\<not> pid_reset example_hotend" "iState_sum_min example_hotend \<le> iState_sum example_hotend"
    by (simp_all add: example_hotend_def)
  show ?thesis
    using h2 s1 s2 c r
      pid_integral_clamped [OF h1 h2, of example_config 20]
      pid_integral_clamped [OF h1' h2, of example_config 20]
    by (simp add: Let_def)
qed

text \<open>
  Claim C7, as stated, fails on the code: with a target of 200 and a current temperature
  of 310, at or above \<^verbatim>\<open>maxttemp\<close> (305), the duty is 0 but the reset flag is not set
  after the step, whether it was set before or not.
\<close>

theorem pid_heater_reset_counterexample:
  "real_of_int (maxttemp example_hotend) \<le> 310
   \<and> soft_pwm (pid_heater example_config 310 200 example_hotend) = 0
   \<and> \<not> pid_reset (pid_heater example_config 310 200 example_hotend)
   \<and> \<not> pid_reset (pid_heater example_config 310 200 (example_hotend\<lparr>pid_reset := True\<rparr>))"
  by (simp add: pid_heater_def pid_regulate_def pid_raw_output_def pid_clamped_def constrain_def
      example_config_def example_hotend_def Let_def)

lemma pid_heater_zero:
  "pid_heater cfg current 0 h = h\<lparr>pid_reset := True, dState_last := current, soft_pwm := 0\<rparr>"
  by (simp add: pid_heater_def Let_def)

lemma pid_heater_nonzero_eq:
  "target \<noteq> 0 \<Longrightarrow> pid_heater cfg current target h =
     (let h2 = (fst (pid_regulate cfg current target h))\<lparr>dState_last := current\<rparr>
      in if current < real_of_int (maxttemp h)
         then h2\<lparr>soft_pwm := duty_of_output (snd (pid_regulate cfg current target h))\<rparr>
         else h2\<lparr>soft_pwm := 0\<rparr>)"
  by (simp add: pid_heater_def Let_def split_beta pid_regulate_fields(4))

lemma pid_clamped_reset:
  "pid_reset h \<Longrightarrow> pid_clamped cfg current target (h\<lparr>iState_sum := 0, dTerm := 0, pid_reset := False\<rparr>)
      = pid_clamped cfg current target h"
  by (simp add: pid_clamped_def Let_def)

lemma pid_raw_output_reset:
  "pid_reset h \<Longrightarrow> pid_raw_output cfg current target (h\<lparr>iState_sum := 0, dTerm := 0, pid_reset := False\<rparr>)
      = pid_raw_output cfg current target h"
  by (simp only: pid_raw_output_def pid_clamped_reset)

lemma pid_regulate_reset:
  "pid_reset h \<Longrightarrow> pid_regulate cfg current target (h\<lparr>iState_sum := 0, dTerm := 0, pid_reset := False\<rparr>)
      = pid_regulate cfg current target h"
  by (simp only: pid_regulate_def pid_raw_output_reset)

lemma pid_heater_reset:
  "pid_reset h \<Longrightarrow> target \<noteq> 0 \<Longrightarrow>
    pid_heater cfg current target (h\<lparr>iState_sum := 0, dTerm := 0, pid_reset := False\<rparr>)
      = pid_heater cfg current target h"
  by (simp add: pid_heater_nonzero_eq pid_regulate_reset Let_def cong: if_cong)

text \<open>
  Claim C7, amended. If the target is 0 or the current temperature is at or above
  \<^verbatim>\<open>maxttemp[e]\<close>, the step sets \<^verbatim>\<open>soft_pwm[e]\<close> to 0. If the target is 0 the step sets
  \<^verbatim>\<open>pid_reset[e]\<close> and leaves the integral alone; if the target is not 0 the flag is
  clear after the step. A step with a target other than 0 that finds the flag set
  behaves as on the state with \<^verbatim>\<open>iState_sum[e] = 0\<close> and \<^verbatim>\<open>dTerm[e] = 0\<close>: the sum it
  constrains is 0 plus the error of this step.
\<close>

theorem pid_heater_off_state:
  "((target = 0 \<or> real_of_int (maxttemp h) \<le> current)
      \<longrightarrow> soft_pwm (pid_heater cfg current target h) = 0)
   \<and> (target = 0 \<longrightarrow> pid_reset (pid_heater cfg current target h)
        \<and> iState_sum (pid_heater cfg current target h) = iState_sum h)
   \<and> (target \<noteq> 0 \<longrightarrow> \<not> pid_reset (pid_heater cfg current target h))
   \<and> (pid_reset h \<and> target \<noteq> 0 \<longrightarrow>
        pid_heater cfg current target h
          = pid_heater cfg current target (h\<lparr>iState_sum := 0, dTerm := 0, pid_reset := False\<rparr>)
        \<and> iState_sum (pid_clamped cfg current target h)
          = constrain (0 + (real_of_int target - current)) (iState_sum_min h) (iState_sum_max h))"
proof -
  have a: "(target = 0 \<or> real_of_int (maxttemp h) \<le> current)
      \<longrightarrow> soft_pwm (pid_heater cfg current target h) = 0"
  proof (cases "target = 0")
    case True
    then show ?thesis by (simp add: pid_heater_zero)
  next
    case False
    then show ?thesis by (simp add: pid_heater_nonzero_eq Let_def)
  qed
  have b: "target = 0 \<longrightarrow> pid_reset (pid_heater cfg current target h)
        \<and> iState_sum (pid_heater cfg current target h) = iState_sum h"
    by (simp add: pid_heater_zero)
  have c: "target \<noteq> 0 \<longrightarrow> \<not> pid_reset (pid_heater cfg current target h)"
    using pid_heater_nonzero[of target cfg current h] by simp
  have d: "pid_reset h \<and> target \<noteq> 0 \<longrightarrow>
        pid_heater cfg current target h
          = pid_heater cfg current target (h\<lparr>iState_sum := 0, dTerm := 0, pid_reset := False\<rparr>)
        \<and> iState_sum (pid_clamped cfg current target h)
          = constrain (0 + (real_of_int target - current)) (iState_sum_min h) (iState_sum_max h)"
    by (simp add: pid_heater_reset pid_clamped_fields)
  show ?thesis using a b c d by blast
qed

theorem pid_heater_off_state_witness:
  "soft_pwm (pid_heater example_config 20 0 (example_hotend\<lparr>iState_sum := 100, soft_pwm := 64\<rparr>)) = 0
   \<and> pid_reset (pid_heater example_config 20 0 (example_hotend\<lparr>iState_sum := 100, soft_pwm := 64\<rparr>))
   \<and> real_of_int (maxttemp example_hotend) \<le> 310
   \<and> soft_pwm (pid_heater example_config 310 200 example_hotend) = 0
   \<and> (200::int) \<noteq> 0
   \<and> \<not> pid_reset (pid_heater example_config 310 200 example_hotend)
   \<and> iState_sum (pid_clamped example_config 210 215
        (pid_heater example_config 20 0 (example_hotend\<lparr>iState_sum := 100, soft_pwm := 64\<rparr>))) = 5"
proof -
  let ?h = "example_hotend\<lparr>iState_sum := 100, soft_pwm := 64\<rparr>"
  have r: "pid_reset (pid_heater example_config 20 0 ?h)"
    by (simp add: pid_heater_def Let_def)
  have m: "real_of_int (maxttemp example_hotend) \<le> 310"
    by (simp add: example_hotend_def)
  have f: "iState_sum_min (pid_heater example_config 20 0 ?h) = 0"
    "iState_sum_max (pid_heater example_config 20 0 ?h) = 255"
    by (simp_all add: pid_heater_def Let_def example_hotend_def)
  show ?thesis
    using r m f
      pid_heater_off_state [of 0 ?h 20 example_config]
      pid_heater_off_state [of 200 example_hotend 310 example_config]
      pid_heater_off_state [of 215 "pid_heater example_config 20 0 ?h" 210 example_config]
    by (simp add: constrain_def)
qed

subsection \<open>The soft-PWM generator\<close>

lemma soft_pwm_core_nonzero:
  assumes "pwm_count s = c" "0 < c" "c < 128"
  shows "soft_pwm_core 0 d s =
     s\<lparr>HEATER_0_PIN := (HEATER_0_PIN s \<and> c \<le> soft_pwm_0 s), pwm_count := Suc c mod 128\<rparr>"
  using assms by (simp add: soft_pwm_core_def Let_def not_less)

lemma soft_pwm_core_zero:
  assumes "pwm_count s = 0"
  shows "soft_pwm_core 0 d s = s\<lparr>soft_pwm_0 := d, HEATER_0_PIN := (0 < d), pwm_count := 1\<rparr>"
  using assms by (simp add: soft_pwm_core_def Let_def)

lemma pin_trace_from:
  assumes "pwm_count s = c" "0 < c" "c < 128" "c + n \<le> 128"
  shows "pin_trace 0 (replicate n d') s = map (\<lambda>k. HEATER_0_PIN s \<and> k \<le> soft_pwm_0 s) [c..<c + n]
       \<and> pwm_count (soft_pwm_ticks 0 (replicate n d') s) = (c + n) mod 128
       \<and> soft_pwm_0 (soft_pwm_ticks 0 (replicate n d') s) = soft_pwm_0 s"
  using assms
proof (induction n arbitrary: s c)
  case 0
  then show ?case by simp
next
  case (Suc n)
  let ?s1 = "soft_pwm_core 0 d' s"
  have c128: "c < 128" using Suc.prems by simp
  have s1: "?s1 = s\<lparr>HEATER_0_PIN := (HEATER_0_PIN s \<and> c \<le> soft_pwm_0 s), pwm_count := Suc c mod 128\<rparr>"
    by (rule soft_pwm_core_nonzero[OF Suc.prems(1,2) c128])
  show ?case
  proof (cases n)
    case 0
    then show ?thesis using s1 by simp
  next
    case (Suc m)
    then have lt: "Suc c < 128" using Suc.prems by simp
    then have pc: "pwm_count ?s1 = Suc c" using s1 by simp
    have ih: "pin_trace 0 (replicate n d') ?s1 =
          map (\<lambda>k. HEATER_0_PIN ?s1 \<and> k \<le> soft_pwm_0 ?s1) [Suc c..<Suc c + n]
       \<and> pwm_count (soft_pwm_ticks 0 (replicate n d') ?s1) = (Suc c + n) mod 128
       \<and> soft_pwm_0 (soft_pwm_ticks 0 (replicate n d') ?s1) = soft_pwm_0 ?s1"
      using Suc.IH[OF pc _ lt] Suc.prems by simp
    have l0: "soft_pwm_0 ?s1 = soft_pwm_0 s" using s1 by simp
    have p1: "HEATER_0_PIN ?s1 = (HEATER_0_PIN s \<and> c \<le> soft_pwm_0 s)" using s1 by simp
    have up: "[c..<c + Suc n] = c # [Suc c..<Suc c + n]"
      by (simp add: upt_rec)
    have m: "map (\<lambda>k. HEATER_0_PIN ?s1 \<and> k \<le> soft_pwm_0 ?s1) [Suc c..<Suc c + n]
           = map (\<lambda>k. HEATER_0_PIN s \<and> k \<le> soft_pwm_0 s) [Suc c..<Suc c + n]"
      by (rule map_cong) (auto simp: p1 l0)
    show ?thesis
      using ih m up p1 l0 by simp
  qed
qed

lemma pin_trace_window:
  assumes "pwm_count s = 0"
  shows "pin_trace 0 (replicate 128 d) s = map (\<lambda>k. 0 < d \<and> k \<le> d) [0..<128]
       \<and> pwm_count (soft_pwm_ticks 0 (replicate 128 d) s) = 0
       \<and> soft_pwm_0 (soft_pwm_ticks 0 (replicate 128 d) s) = d"
proof -
  let ?s1 = "soft_pwm_core 0 d s"
  have s1: "?s1 = s\<lparr>soft_pwm_0 := d, HEATER_0_PIN := (0 < d), pwm_count := 1\<rparr>"
    by (rule soft_pwm_core_zero[OF assms])
  have pc: "pwm_count ?s1 = 1" using s1 by simp
  have r: "replicate 128 d = d # replicate 127 d"
    by (simp add: numeral_eq_Suc)
  have up: "[0..<128] = 0 # [1..<1 + 127]"
    by (simp add: upt_rec[of 0])
  have t: "pin_trace 0 (replicate 127 d) ?s1 = map (\<lambda>k. HEATER_0_PIN ?s1 \<and> k \<le> soft_pwm_0 ?s1) [1..<1 + 127]
       \<and> pwm_count (soft_pwm_ticks 0 (replicate 127 d) ?s1) = (1 + 127) mod 128
       \<and> soft_pwm_0 (soft_pwm_ticks 0 (replicate 127 d) ?s1) = soft_pwm_0 ?s1"
    by (rule pin_trace_from[OF pc]) simp_all
  have f: "HEATER_0_PIN ?s1 = (0 < d)" "soft_pwm_0 ?s1 = d" using s1 by simp_all
  show ?thesis
    unfolding r up using t f by simp
qed

lemma length_filter_le_upt:
  "length (filter (\<lambda>k. k \<le> d) [0..<n]) = min n (Suc d)"
  by (induction n) auto

lemma on_ticks_window:
  "on_ticks (map (\<lambda>k. 0 < d \<and> k \<le> d) [0..<128]) = (if d = 0 then 0 else min 128 (Suc d))"
proof (cases "d = 0")
  case True
  then show ?thesis by (simp add: on_ticks_def)
next
  case False
  then have "filter (\<lambda>p. p) (map (\<lambda>k. 0 < d \<and> k \<le> d) [0..<128])
      = map (\<lambda>k. True) (filter (\<lambda>k. k \<le> d) [0..<128])"
    by (simp add: filter_map comp_def)
  then show ?thesis using False length_filter_le_upt[of d 128]
    by (simp add: on_ticks_def)
qed

lemma duty_fraction_close:
  assumes "0 < d" "d \<le> 127"
  shows "\<bar>real (Suc d) / 128 - real d / 127\<bar> \<le> 1 / 127"
proof -
  have e: "real (Suc d) / 128 - real d / 127 = (127 - real d) / 16256"
    by (simp add: field_simps)
  have "0 \<le> 127 - real d" "127 - real d \<le> 128" using assms by simp_all
  then show ?thesis unfolding e by (simp add: abs_if field_simps)
qed

lemma pin_trace_append:
  "pin_trace sc (xs @ ys) s = pin_trace sc xs s @ pin_trace sc ys (soft_pwm_ticks sc xs s)"
  by (induction xs arbitrary: s) simp_all

lemma soft_pwm_ticks_append:
  "soft_pwm_ticks sc (xs @ ys) s = soft_pwm_ticks sc ys (soft_pwm_ticks sc xs s)"
  by (induction xs arbitrary: s) simp_all

lemma pin_trace_Nil_iff: "pin_trace sc xs s = [] \<longleftrightarrow> xs = []"
  by (cases xs) simp_all

lemma soft_pwm_ticks_pin:
  "xs \<noteq> [] \<Longrightarrow> HEATER_0_PIN (soft_pwm_ticks sc xs s) = last (pin_trace sc xs s)"
proof (induction xs arbitrary: s)
  case Nil
  then show ?case by simp
next
  case (Cons x xs)
  show ?case
  proof (cases "xs = []")
    case True
    then show ?thesis by simp
  next
    case False
    then show ?thesis using Cons.IH[OF False] by (simp add: pin_trace_Nil_iff)
  qed
qed

lemma on_ticks_append: "on_ticks (xs @ ys) = on_ticks xs + on_ticks ys"
  by (simp add: on_ticks_def)

lemma soft_pwm_ticks_cycles:
  assumes "pwm_count s = 0"
  shows "pwm_count (soft_pwm_ticks 0 (replicate (128 * q) d) s) = 0"
  using assms
proof (induction q arbitrary: s)
  case 0
  then show ?case by simp
next
  case (Suc q)
  have r: "replicate (128 * Suc q) d = replicate 128 d @ replicate (128 * q) d"
    by (simp add: replicate_add[symmetric])
  have c: "pwm_count (soft_pwm_ticks 0 (replicate 128 d) s) = 0"
    using pin_trace_window[OF Suc.prems, of d] by simp
  show ?case unfolding r soft_pwm_ticks_append by (rule Suc.IH[OF c])
qed

text \<open>A run of at most 128 ticks from the start of a cycle.\<close>

lemma pin_trace_aligned:
  assumes "pwm_count s = 0" "n \<le> 128"
  shows "pin_trace 0 (replicate n d) s = map (\<lambda>k. 0 < d \<and> k \<le> d) [0..<n]
       \<and> pwm_count (soft_pwm_ticks 0 (replicate n d) s) = n mod 128
       \<and> (0 < n \<longrightarrow> soft_pwm_0 (soft_pwm_ticks 0 (replicate n d) s) = d)"
proof (cases n)
  case 0
  then show ?thesis using assms by simp
next
  case (Suc m)
  let ?s1 = "soft_pwm_core 0 d s"
  have s1: "?s1 = s\<lparr>soft_pwm_0 := d, HEATER_0_PIN := (0 < d), pwm_count := 1\<rparr>"
    by (rule soft_pwm_core_zero[OF assms(1)])
  have pc: "pwm_count ?s1 = 1" using s1 by simp
  have f: "HEATER_0_PIN ?s1 = (0 < d)" "soft_pwm_0 ?s1 = d" using s1 by simp_all
  have t: "pin_trace 0 (replicate m d) ?s1 = map (\<lambda>k. HEATER_0_PIN ?s1 \<and> k \<le> soft_pwm_0 ?s1) [1..<1 + m]
       \<and> pwm_count (soft_pwm_ticks 0 (replicate m d) ?s1) = (1 + m) mod 128
       \<and> soft_pwm_0 (soft_pwm_ticks 0 (replicate m d) ?s1) = soft_pwm_0 ?s1"
    by (rule pin_trace_from[OF pc]) (use assms(2) Suc in simp_all)
  have up: "[0..<Suc m] = 0 # [1..<1 + m]"
    by (simp add: upt_rec[of 0])
  show ?thesis
    unfolding Suc up using t f by simp
qed

lemma pin_trace_steady:
  assumes "pwm_count s = 0"
  shows "pin_trace 0 (replicate 128 d) (soft_pwm_ticks 0 (replicate c d) s)
           = map (\<lambda>k. 0 < d \<and> k \<le> d) [c mod 128..<128] @ map (\<lambda>k. 0 < d \<and> k \<le> d) [0..<c mod 128]
       \<and> pwm_count (soft_pwm_ticks 0 (replicate c d) s) = c mod 128"
proof -
  define q r where "q = c div 128" and "r = c mod 128"
  have c: "c = 128 * q + r" and r128: "r < 128" by (simp_all add: q_def r_def)
  let ?f = "\<lambda>k. 0 < d \<and> k \<le> d"
  let ?b = "soft_pwm_ticks 0 (replicate (128 * q) d) s"
  let ?s = "soft_pwm_ticks 0 (replicate r d) ?b"
  have s0: "pwm_count ?b = 0" by (rule soft_pwm_ticks_cycles[OF assms])
  have sc: "soft_pwm_ticks 0 (replicate c d) s = ?s"
    unfolding c replicate_add soft_pwm_ticks_append ..
  have al: "pin_trace 0 (replicate r d) ?b = map ?f [0..<r]"
    "pwm_count ?s = r mod 128" "0 < r \<longrightarrow> soft_pwm_0 ?s = d"
    using pin_trace_aligned[OF s0, of r d] r128 by simp_all
  have pc: "pwm_count ?s = r" using al(2) r128 by simp
  have tr: "pin_trace 0 (replicate 128 d) ?s = map ?f [r..<128] @ map ?f [0..<r]"
  proof (cases "r = 0")
    case True
    have z: "pwm_count ?s = 0" using pc True by (rule trans)
    have "pin_trace 0 (replicate 128 d) ?s = map ?f [0..<128]"
      using pin_trace_window[OF z, of d] by simp
    then show ?thesis unfolding True by simp
  next
    case False
    then have r0: "0 < r" by simp
    have latch: "soft_pwm_0 ?s = d" using al(3) r0 by simp
    have ne: "replicate r d \<noteq> []" using r0 by simp
    have pin: "HEATER_0_PIN ?s = ?f (r - 1)"
      unfolding soft_pwm_ticks_pin[OF ne] al(1) using r0 by (simp add: last_map)
    have sp: "replicate 128 d = replicate (128 - r) d @ replicate r d"
      using r128 by (simp add: replicate_add[symmetric])
    have t1: "pin_trace 0 (replicate (128 - r) d) ?s
                = map (\<lambda>k. HEATER_0_PIN ?s \<and> k \<le> soft_pwm_0 ?s) [r..<r + (128 - r)]
       \<and> pwm_count (soft_pwm_ticks 0 (replicate (128 - r) d) ?s) = (r + (128 - r)) mod 128
       \<and> soft_pwm_0 (soft_pwm_ticks 0 (replicate (128 - r) d) ?s) = soft_pwm_0 ?s"
      by (rule pin_trace_from[OF pc r0 r128]) (use r128 in simp)
    have m: "map (\<lambda>k. HEATER_0_PIN ?s \<and> k \<le> soft_pwm_0 ?s) [r..<128] = map ?f [r..<128]"
      by (rule map_cong) (use pin latch r0 in auto)
    have p1: "pin_trace 0 (replicate (128 - r) d) ?s = map ?f [r..<128]"
      using t1 m r128 by simp
    have c0: "pwm_count (soft_pwm_ticks 0 (replicate (128 - r) d) ?s) = 0"
      using t1 r128 by simp
    have p2: "pin_trace 0 (replicate r d) (soft_pwm_ticks 0 (replicate (128 - r) d) ?s) = map ?f [0..<r]"
      using pin_trace_aligned[OF c0, of r d] r128 by simp
    show ?thesis unfolding sp pin_trace_append p1 p2 ..
  qed
  show ?thesis unfolding sc using tr pc by (simp add: r_def)
qed

lemma on_ticks_rotated:
  assumes "r \<le> n"
  shows "on_ticks (map f [r..<n] @ map f [0..<r]) = on_ticks (map f [0..<n])"
proof -
  have "[0..<n] = [0..<r] @ [r..<n]"
    using assms upt_add_eq_append[of 0 r "n - r"] by simp
  then show ?thesis by (simp add: on_ticks_append)
qed

lemma on_ticks_none: "(\<And>x. x \<in> set xs \<Longrightarrow> \<not> f x) \<Longrightarrow> on_ticks (map f xs) = 0"
  by (simp add: on_ticks_def)

text \<open>A window of 128 ticks that starts inside a cycle, from any state.\<close>

lemma pin_trace_unaligned:
  assumes "pwm_count s = c" "0 < c" "c < 128"
  shows "pin_trace 0 (replicate 128 d) s
           = map (\<lambda>k. HEATER_0_PIN s \<and> k \<le> soft_pwm_0 s) [c..<128]
             @ map (\<lambda>k. 0 < d \<and> k \<le> d) [0..<c]"
proof -
  have sp: "replicate 128 d = replicate (128 - c) d @ replicate c d"
    using assms(3) by (simp add: replicate_add[symmetric])
  have t1: "pin_trace 0 (replicate (128 - c) d) s
                = map (\<lambda>k. HEATER_0_PIN s \<and> k \<le> soft_pwm_0 s) [c..<c + (128 - c)]
       \<and> pwm_count (soft_pwm_ticks 0 (replicate (128 - c) d) s) = (c + (128 - c)) mod 128
       \<and> soft_pwm_0 (soft_pwm_ticks 0 (replicate (128 - c) d) s) = soft_pwm_0 s"
    by (rule pin_trace_from[OF assms]) (use assms(3) in simp)
  have p1: "pin_trace 0 (replicate (128 - c) d) s
              = map (\<lambda>k. HEATER_0_PIN s \<and> k \<le> soft_pwm_0 s) [c..<128]"
    using t1 assms(3) by simp
  have c0: "pwm_count (soft_pwm_ticks 0 (replicate (128 - c) d) s) = 0"
    using t1 assms(3) by simp
  have p2: "pin_trace 0 (replicate c d) (soft_pwm_ticks 0 (replicate (128 - c) d) s)
              = map (\<lambda>k. 0 < d \<and> k \<le> d) [0..<c]"
    using pin_trace_aligned[OF c0, of c d] assms(3) by simp
  show ?thesis unfolding sp pin_trace_append p1 p2 ..
qed

lemma example_mid_cycle:
  "soft_pwm_ticks 0 (replicate 127 0 @ replicate 64 127) (soft_pwm_init_state 0)
     = \<lparr>pwm_count = 64, soft_pwm_0 = 127, HEATER_0_PIN = True\<rparr>"
proof -
  let ?a = "soft_pwm_ticks 0 (replicate 127 0) (soft_pwm_init_state 0)"
  let ?b = "soft_pwm_ticks 0 (replicate 64 127) ?a"
  have a: "pwm_count ?a = 0"
    using pin_trace_from[of "soft_pwm_init_state 0" 1 127 0] by (simp add: soft_pwm_init_state_def)
  have al: "pin_trace 0 (replicate 64 127) ?a = map (\<lambda>k. (0::nat) < 127 \<and> k \<le> 127) [0..<64]"
    "pwm_count ?b = 64" "soft_pwm_0 ?b = 127"
    using pin_trace_aligned[OF a, of 64 127] by simp_all
  have ne: "replicate 64 (127::nat) \<noteq> []" by simp
  have pin: "HEATER_0_PIN ?b"
    unfolding soft_pwm_ticks_pin[OF ne] al(1) by (simp add: last_map)
  have "?b = \<lparr>pwm_count = 64, soft_pwm_0 = 127, HEATER_0_PIN = True\<rparr>"
    using al(2,3) pin by (cases ?b) simp
  then show ?thesis unfolding soft_pwm_ticks_append .
qed

text \<open>
  Claim C3, as stated, fails on the code: the register is latched only where
  \<^verbatim>\<open>pwm_count == 0\<close>, so a window of 128 ticks that starts elsewhere shows, up to the
  next latch, the duty of the cycle that was running. From power-on, where \<^verbatim>\<open>pwm_count\<close>
  is 1 and the latch 0, the register held at 127 for 128 ticks leaves the pin low after
  the first 127 ticks and high after one. And 64 ticks into a cycle that was started with
  the duty 127 (a state that the generator reaches from power-on), the register held at
  0 for 128 ticks leaves the pin high after the first 64 of them, and the register held
  at 64 leaves it high after all 128, where \<open>64 / 127\<close> is about a half.
\<close>

theorem soft_pwm_window_counterexample:
  "on_ticks (pin_trace 0 (replicate 128 127) (soft_pwm_init_state 0)) = 1
   \<and> \<not> hd (pin_trace 0 (replicate 128 127) (soft_pwm_init_state 0))
   \<and> soft_pwm_ticks 0 (replicate 127 0 @ replicate 64 127) (soft_pwm_init_state 0)
       = \<lparr>pwm_count = 64, soft_pwm_0 = 127, HEATER_0_PIN = True\<rparr>
   \<and> on_ticks (pin_trace 0 (replicate 128 0) \<lparr>pwm_count = 64, soft_pwm_0 = 127, HEATER_0_PIN = True\<rparr>) = 64
   \<and> hd (pin_trace 0 (replicate 128 0) \<lparr>pwm_count = 64, soft_pwm_0 = 127, HEATER_0_PIN = True\<rparr>)
   \<and> on_ticks (pin_trace 0 (replicate 128 64) \<lparr>pwm_count = 64, soft_pwm_0 = 127, HEATER_0_PIN = True\<rparr>) = 128
   \<and> 1 / 127 < \<bar>real (on_ticks (pin_trace 0 (replicate 128 64)
                      \<lparr>pwm_count = 64, soft_pwm_0 = 127, HEATER_0_PIN = True\<rparr>)) / 128 - real 64 / 127\<bar>"
proof -
  let ?m = "\<lparr>pwm_count = 64, soft_pwm_0 = 127, HEATER_0_PIN = True\<rparr>"
  have i: "pin_trace 0 (replicate 128 127) (soft_pwm_init_state 0)
             = map (\<lambda>k. False) [1..<128] @ map (\<lambda>k. (0::nat) < 127 \<and> k \<le> 127) [0..<1]"
    using pin_trace_unaligned[of "soft_pwm_init_state 0" 1 127]
    by (simp add: soft_pwm_init_state_def)
  have i1: "on_ticks (pin_trace 0 (replicate 128 127) (soft_pwm_init_state 0)) = 1"
    unfolding i on_ticks_append by (simp add: on_ticks_none on_ticks_def)
  have i2: "\<not> hd (pin_trace 0 (replicate 128 127) (soft_pwm_init_state 0))"
    unfolding i by (simp add: upt_rec[of "Suc 0"])
  have m0: "pin_trace 0 (replicate 128 0) ?m
             = map (\<lambda>k. k \<le> 127) [64..<128] @ map (\<lambda>k. False) [0..<64]"
    using pin_trace_unaligned[of ?m 64 0] by simp
  have m1: "on_ticks (pin_trace 0 (replicate 128 0) ?m) = 64"
    unfolding m0 on_ticks_append by (simp add: on_ticks_none on_ticks_def)
  have m2: "hd (pin_trace 0 (replicate 128 0) ?m)"
    unfolding m0 by (simp add: upt_rec[of 64])
  have h0: "pin_trace 0 (replicate 128 64) ?m
             = map (\<lambda>k. k \<le> 127) [64..<128] @ map (\<lambda>k. k \<le> 64) [0..<64]"
    using pin_trace_unaligned[of ?m 64 64] by simp
  have h1: "on_ticks (pin_trace 0 (replicate 128 64) ?m) = 128"
    unfolding h0 on_ticks_append by (simp add: on_ticks_def)
  have h2: "1 / 127 < \<bar>real (on_ticks (pin_trace 0 (replicate 128 64) ?m)) / 128 - real 64 / 127\<bar>"
    unfolding h1 by simp
  show ?thesis
    by (intro conjI) (rule i1, rule i2, rule example_mid_cycle, rule m1, rule m2, rule h1, rule h2)
qed

text \<open>
  Claim C3, amended. Let the duty register hold the value \<open>d \<le> 127\<close> from a tick where
  the generator starts a cycle (\<^verbatim>\<open>pwm_count == 0\<close>, with \<^verbatim>\<open>SOFT_PWM_SCALE\<close> 0) on. Then
  over every window of 128 ticks, starting any number \<open>c\<close> of ticks after that one: with
  \<open>d = 0\<close> the pin is low after every tick, with \<open>d = 127\<close> it is high after every tick,
  and otherwise it is high after \<open>d + 1\<close> of the 128 ticks, so the on-fraction differs
  from \<open>d / 127\<close> by at most \<open>1 / 127\<close>. The window starts \<open>c mod 128\<close> ticks into a cycle.
\<close>

theorem soft_pwm_duty_fraction:
  assumes "pwm_count s = 0" and "d \<le> 127"
  shows "let tr = pin_trace 0 (replicate 128 d) (soft_pwm_ticks 0 (replicate c d) s) in
           length tr = 128
         \<and> (d = 0 \<longrightarrow> (\<forall>p\<in>set tr. \<not> p))
         \<and> (d = 127 \<longrightarrow> (\<forall>p\<in>set tr. p))
         \<and> on_ticks tr = (if d = 0 then 0 else d + 1)
         \<and> \<bar>real (on_ticks tr) / 128 - real d / 127\<bar> \<le> 1 / 127
         \<and> pwm_count (soft_pwm_ticks 0 (replicate c d) s) = c mod 128"
proof -
  let ?f = "\<lambda>k. 0 < d \<and> k \<le> d"
  let ?tr = "pin_trace 0 (replicate 128 d) (soft_pwm_ticks 0 (replicate c d) s)"
  have tr: "?tr = map ?f [c mod 128..<128] @ map ?f [0..<c mod 128]"
    and pc: "pwm_count (soft_pwm_ticks 0 (replicate c d) s) = c mod 128"
    using pin_trace_steady[OF assms(1), of d c] by simp_all
  have len: "length ?tr = 128" unfolding tr by simp
  have low: "d = 0 \<longrightarrow> (\<forall>p\<in>set ?tr. \<not> p)" unfolding tr by auto
  have high: "d = 127 \<longrightarrow> (\<forall>p\<in>set ?tr. p)" unfolding tr by auto
  have "on_ticks ?tr = on_ticks (map ?f [0..<128])"
    unfolding tr by (rule on_ticks_rotated) simp
  then have on: "on_ticks ?tr = (if d = 0 then 0 else d + 1)"
    unfolding on_ticks_window using assms(2) by simp
  have frac: "\<bar>real (on_ticks ?tr) / 128 - real d / 127\<bar> \<le> 1 / 127"
  proof (cases "d = 0")
    case True
    then show ?thesis using on by simp
  next
    case False
    then show ?thesis using on duty_fraction_close[of d] assms(2) by simp
  qed
  show ?thesis unfolding Let_def using len low high on frac pc by blast
qed

theorem soft_pwm_duty_fraction_witness:
  "pwm_count (soft_pwm_ticks 0 (replicate 127 0) (soft_pwm_init_state 0)) = 0
   \<and> (64::nat) \<le> 127
   \<and> on_ticks (pin_trace 0 (replicate 128 64)
        (soft_pwm_ticks 0 (replicate 200 64)
          (soft_pwm_ticks 0 (replicate 127 0) (soft_pwm_init_state 0)))) = 65
   \<and> on_ticks (pin_trace 0 (replicate 128 64)
        (soft_pwm_ticks 0 (replicate 127 0) (soft_pwm_init_state 0))) = 65
   \<and> on_ticks (pin_trace 0 (replicate 128 0)
        (soft_pwm_ticks 0 (replicate 200 0)
          (soft_pwm_ticks 0 (replicate 127 0) (soft_pwm_init_state 0)))) = 0
   \<and> on_ticks (pin_trace 0 (replicate 128 127)
        (soft_pwm_ticks 0 (replicate 200 127)
          (soft_pwm_ticks 0 (replicate 127 0) (soft_pwm_init_state 0)))) = 128"
proof -
  let ?s = "soft_pwm_ticks 0 (replicate 127 0) (soft_pwm_init_state 0)"
  have h: "pwm_count ?s = 0"
    using pin_trace_from[of "soft_pwm_init_state 0" 1 127 0] by (simp add: soft_pwm_init_state_def)
  have b: "(64::nat) \<le> 127" "(0::nat) \<le> 127" "(127::nat) \<le> 127" by simp_all
  have w1: "on_ticks (pin_trace 0 (replicate 128 64) (soft_pwm_ticks 0 (replicate 200 64) ?s)) = 65"
    using soft_pwm_duty_fraction [OF h b(1), where c = 200] unfolding Let_def by simp
  have w2: "on_ticks (pin_trace 0 (replicate 128 64) ?s) = 65"
    using soft_pwm_duty_fraction [OF h b(1), where c = 0] unfolding Let_def by simp
  have w3: "on_ticks (pin_trace 0 (replicate 128 0) (soft_pwm_ticks 0 (replicate 200 0) ?s)) = 0"
    using soft_pwm_duty_fraction [OF h b(2), where c = 200] unfolding Let_def by simp
  have w4: "on_ticks (pin_trace 0 (replicate 128 127) (soft_pwm_ticks 0 (replicate 200 127) ?s)) = 128"
    using soft_pwm_duty_fraction [OF h b(3), where c = 200] unfolding Let_def by simp
  show ?thesis
    by (intro conjI) (rule h, rule b(1), rule w1, rule w2, rule w3, rule w4)
qed

subsection \<open>Conversion of raw values to temperatures\<close>

lemma tt_search_ge: "i \<le> tt_search tt raw i"
proof (induction tt raw i rule: tt_search.induct)
  case (1 tt raw i)
  show ?case
    using 1 by (subst tt_search.simps) (auto simp: Suc_leD)
qed

lemma tt_search_le: "tt_search tt raw i \<le> max i (length tt)"
proof (induction tt raw i rule: tt_search.induct)
  case (1 tt raw i)
  show ?case
    using 1 by (subst tt_search.simps) auto
qed

lemma tt_search_found:
  "tt_search tt raw i < length tt \<Longrightarrow> raw < fst (tt ! tt_search tt raw i)"
proof (induction tt raw i rule: tt_search.induct)
  case (1 tt raw i)
  show ?case
  proof (cases "i < length tt \<and> \<not> raw < fst (tt ! i)")
    case True
    then have e: "tt_search tt raw i = tt_search tt raw (Suc i)"
      by (subst tt_search.simps) simp
    show ?thesis using 1 True e by simp
  next
    case False
    then have e: "tt_search tt raw i = i"
      by (subst tt_search.simps) auto
    show ?thesis using "1.prems" False e by auto
  qed
qed

lemma tt_search_skipped:
  "i \<le> k \<Longrightarrow> k < tt_search tt raw i \<Longrightarrow> fst (tt ! k) \<le> raw"
proof (induction tt raw i rule: tt_search.induct)
  case (1 tt raw i)
  show ?case
  proof (cases "i < length tt \<and> \<not> raw < fst (tt ! i)")
    case True
    then have e: "tt_search tt raw i = tt_search tt raw (Suc i)"
      by (subst tt_search.simps) simp
    show ?thesis
    proof (cases "k = i")
      case True
      with \<open>i < length tt \<and> \<not> raw < fst (tt ! i)\<close> show ?thesis by simp
    next
      case False
      then have "Suc i \<le> k" using "1.prems"(1) by simp
      then show ?thesis using "1.IH" True "1.prems"(2) e by simp
    qed
  next
    case False
    then have e: "tt_search tt raw i = i"
      by (subst tt_search.simps) auto
    show ?thesis using "1.prems" e by simp
  qed
qed

lemma tt_search_saturated:
  assumes "tt \<noteq> []" "\<forall>k\<in>set (map fst tt). k \<le> raw"
  shows "tt_search tt raw 1 = length tt"
proof -
  let ?j = "tt_search tt raw 1"
  have len: "1 \<le> length tt" using assms(1) by (cases tt) simp_all
  have up: "?j \<le> length tt" using tt_search_le[of tt raw 1] len by simp
  have "\<not> ?j < length tt"
  proof
    assume lt: "?j < length tt"
    then have "raw < fst (tt ! ?j)" by (rule tt_search_found)
    moreover have "fst (tt ! ?j) \<in> set (map fst tt)" using lt by simp
    ultimately show False using assms(2) by fastforce
  qed
  then show ?thesis using up by simp
qed

lemma tt_celsius_saturated:
  assumes "tt \<noteq> []" "\<forall>k\<in>set (map fst tt). k \<le> raw"
  shows "tt_celsius tt raw = real_of_int (snd (last tt))"
  using tt_search_saturated[OF assms] assms(1)
  by (simp add: tt_celsius_def Let_def last_conv_nth)

lemma int16_id: "- 32768 \<le> x \<Longrightarrow> x \<le> 32767 \<Longrightarrow> int16 x = x"
  by (simp add: int16_def)

lemma int16_diff: "in14 a \<Longrightarrow> in14 b \<Longrightarrow> int16 (a - b) = a - b"
  by (rule int16_id) (simp_all add: in14_def)

lemma table_ok_nth:
  "table_ok tt \<Longrightarrow> i < length tt \<Longrightarrow> in14 (fst (tt ! i)) \<and> in14 (snd (tt ! i))"
  by (simp add: table_ok_def list_all_length)

lemma tt_interpolate_exact:
  assumes "table_ok tt" "in14 raw" "0 < i" "i < length tt"
  shows "tt_interpolate tt raw i =
     real_of_int (snd (tt ! (i - 1)))
     + real_of_int (raw - fst (tt ! (i - 1))) * real_of_int (snd (tt ! i) - snd (tt ! (i - 1)))
       / real_of_int (fst (tt ! i) - fst (tt ! (i - 1)))"
proof -
  have a: "in14 (fst (tt ! i)) \<and> in14 (snd (tt ! i))"
    using table_ok_nth[OF assms(1,4)] .
  have b: "in14 (fst (tt ! (i - 1))) \<and> in14 (snd (tt ! (i - 1)))"
    using table_ok_nth[OF assms(1), of "i - 1"] assms(4) by simp
  show ?thesis
    using a b assms(2) by (simp add: tt_interpolate_def int16_diff)
qed

lemma tt_search_bracket:
  assumes "fst (tt ! 0) \<le> raw" "tt_search tt raw 1 < length tt"
  shows "0 < tt_search tt raw 1
       \<and> fst (tt ! (tt_search tt raw 1 - 1)) \<le> raw \<and> raw < fst (tt ! tt_search tt raw 1)"
proof -
  let ?j = "tt_search tt raw 1"
  have j1: "1 \<le> ?j" by (rule tt_search_ge)
  have lo: "fst (tt ! (?j - 1)) \<le> raw"
  proof (cases "?j = 1")
    case True
    then show ?thesis using assms(1) by simp
  next
    case False
    then have "1 \<le> ?j - 1" "?j - 1 < ?j" using j1 by simp_all
    then show ?thesis by (rule tt_search_skipped)
  qed
  show ?thesis using j1 lo tt_search_found[OF assms(2)] by simp
qed

lemma tt_search_mono:
  assumes "r1 \<le> r2"
  shows "tt_search tt r1 1 \<le> tt_search tt r2 1"
proof (rule ccontr)
  assume "\<not> tt_search tt r1 1 \<le> tt_search tt r2 1"
  then have lt: "tt_search tt r2 1 < tt_search tt r1 1" by simp
  have "tt_search tt r1 1 \<le> max 1 (length tt)" by (rule tt_search_le)
  moreover have "1 \<le> tt_search tt r2 1" by (rule tt_search_ge)
  ultimately have "tt_search tt r2 1 < length tt" using lt by simp
  then have "r2 < fst (tt ! tt_search tt r2 1)" by (rule tt_search_found)
  moreover have "fst (tt ! tt_search tt r2 1) \<le> r1"
    by (rule tt_search_skipped[OF tt_search_ge lt])
  ultimately show False using assms by simp
qed

lemma lin_between_falling:
  fixes x0 x1 r y0 y1 :: real
  assumes "x0 \<le> r" "r < x1" "y1 \<le> y0"
  shows "y1 \<le> y0 + (r - x0) * (y1 - y0) / (x1 - x0) \<and> y0 + (r - x0) * (y1 - y0) / (x1 - x0) \<le> y0"
proof -
  define t where "t = (r - x0) / (x1 - x0)"
  have d: "0 < x1 - x0" using assms by simp
  have t0: "0 \<le> t" using assms d by (simp add: t_def)
  have t1: "t \<le> 1" using assms d by (simp add: t_def)
  have e: "(r - x0) * (y1 - y0) / (x1 - x0) = t * (y1 - y0)" by (simp add: t_def)
  have n: "y1 - y0 \<le> 0" using assms(3) by simp
  have up: "t * (y1 - y0) \<le> 0"
    using t0 n by (rule mult_nonneg_nonpos)
  have "t * (y0 - y1) \<le> 1 * (y0 - y1)"
    using t1 assms(3) by (intro mult_right_mono) simp_all
  then have lo: "y1 - y0 \<le> t * (y1 - y0)"
    by (simp add: algebra_simps)
  show ?thesis unfolding e using up lo by simp
qed

lemma lin_mono_falling:
  fixes x0 x1 r1 r2 y0 y1 :: real
  assumes "r1 \<le> r2" "x0 < x1" "y1 \<le> y0"
  shows "y0 + (r2 - x0) * (y1 - y0) / (x1 - x0) \<le> y0 + (r1 - x0) * (y1 - y0) / (x1 - x0)"
proof -
  have d: "0 < x1 - x0" using assms by simp
  have "(r2 - x0) * (y1 - y0) \<le> (r1 - x0) * (y1 - y0)"
    using assms(1,3) by (intro mult_right_mono_neg) simp_all
  then show ?thesis using d by (simp add: divide_right_mono)
qed

lemma lin_between_rising:
  fixes x0 x1 r y0 y1 :: real
  assumes "x0 \<le> r" "r < x1" "y0 \<le> y1"
  shows "y0 \<le> y0 + (r - x0) * (y1 - y0) / (x1 - x0) \<and> y0 + (r - x0) * (y1 - y0) / (x1 - x0) \<le> y1"
proof -
  define t where "t = (r - x0) / (x1 - x0)"
  have d: "0 < x1 - x0" using assms by simp
  have t0: "0 \<le> t" using assms d by (simp add: t_def)
  have t1: "t \<le> 1" using assms d by (simp add: t_def)
  have e: "(r - x0) * (y1 - y0) / (x1 - x0) = t * (y1 - y0)" by (simp add: t_def)
  have p: "0 \<le> y1 - y0" using assms(3) by simp
  have lo: "0 \<le> t * (y1 - y0)"
    using t0 p by (rule mult_nonneg_nonneg)
  have "t * (y1 - y0) \<le> 1 * (y1 - y0)"
    using t1 p by (rule mult_right_mono)
  then have up: "t * (y1 - y0) \<le> y1 - y0" by simp
  show ?thesis unfolding e using up lo by simp
qed

lemma lin_mono_rising:
  fixes x0 x1 r1 r2 y0 y1 :: real
  assumes "r1 \<le> r2" "x0 < x1" "y0 \<le> y1"
  shows "y0 + (r1 - x0) * (y1 - y0) / (x1 - x0) \<le> y0 + (r2 - x0) * (y1 - y0) / (x1 - x0)"
proof -
  have d: "0 < x1 - x0" using assms by simp
  have "(r1 - x0) * (y1 - y0) \<le> (r2 - x0) * (y1 - y0)"
    using assms(1,3) by (intro mult_right_mono) simp_all
  then show ?thesis using d by (simp add: divide_right_mono)
qed

lemma tt_celsius_found:
  assumes "table_ok tt" "in14 raw" "fst (tt ! 0) \<le> raw" "tt_search tt raw 1 < length tt"
  shows "tt_celsius tt raw =
     real_of_int (snd (tt ! (tt_search tt raw 1 - 1)))
     + (real_of_int raw - real_of_int (fst (tt ! (tt_search tt raw 1 - 1))))
       * (real_of_int (snd (tt ! tt_search tt raw 1)) - real_of_int (snd (tt ! (tt_search tt raw 1 - 1))))
       / (real_of_int (fst (tt ! tt_search tt raw 1)) - real_of_int (fst (tt ! (tt_search tt raw 1 - 1))))"
proof -
  have p: "0 < tt_search tt raw 1" using tt_search_bracket[OF assms(3,4)] by simp
  show ?thesis
    using assms(4) tt_interpolate_exact[OF assms(1,2) p assms(4)]
    by (simp add: tt_celsius_def Let_def)
qed

lemma tt_celsius_end:
  "tt_search tt raw 1 = length tt \<Longrightarrow> tt_celsius tt raw = real_of_int (snd (tt ! (length tt - 1)))"
  by (simp add: tt_celsius_def Let_def)

lemma temps_falling_nth:
  assumes "temps_falling tt" "i \<le> k" "k < length tt"
  shows "snd (tt ! k) \<le> snd (tt ! i)"
proof (cases "i = k")
  case True
  then show ?thesis by simp
next
  case False
  then have "i < k" using assms(2) by simp
  then show ?thesis
    using assms(1,3) by (simp add: temps_falling_def sorted_wrt_iff_nth_less)
qed

lemma temps_rising_nth:
  assumes "temps_rising tt" "i \<le> k" "k < length tt"
  shows "snd (tt ! i) \<le> snd (tt ! k)"
proof (cases "i = k")
  case True
  then show ?thesis by simp
next
  case False
  then have "i < k" using assms(2) by simp
  then show ?thesis
    using assms(1,3) by (simp add: temps_rising_def sorted_wrt_iff_nth_less)
qed

lemma tt_celsius_between_falling:
  assumes "table_ok tt" "temps_falling tt" "in14 raw" "fst (tt ! 0) \<le> raw"
    "tt_search tt raw 1 < length tt"
  shows "real_of_int (snd (tt ! tt_search tt raw 1)) \<le> tt_celsius tt raw
       \<and> tt_celsius tt raw \<le> real_of_int (snd (tt ! (tt_search tt raw 1 - 1)))"
proof -
  let ?j = "tt_search tt raw 1"
  have b: "0 < ?j" "fst (tt ! (?j - 1)) \<le> raw" "raw < fst (tt ! ?j)"
    using tt_search_bracket[OF assms(4,5)] by simp_all
  have y: "snd (tt ! ?j) \<le> snd (tt ! (?j - 1))"
    by (rule temps_falling_nth[OF assms(2) _ assms(5)]) simp
  show ?thesis
    unfolding tt_celsius_found[OF assms(1,3,4,5)]
    by (rule lin_between_falling) (use b y in simp_all)
qed

lemma tt_celsius_between_rising:
  assumes "table_ok tt" "temps_rising tt" "in14 raw" "fst (tt ! 0) \<le> raw"
    "tt_search tt raw 1 < length tt"
  shows "real_of_int (snd (tt ! (tt_search tt raw 1 - 1))) \<le> tt_celsius tt raw
       \<and> tt_celsius tt raw \<le> real_of_int (snd (tt ! tt_search tt raw 1))"
proof -
  let ?j = "tt_search tt raw 1"
  have b: "0 < ?j" "fst (tt ! (?j - 1)) \<le> raw" "raw < fst (tt ! ?j)"
    using tt_search_bracket[OF assms(4,5)] by simp_all
  have y: "snd (tt ! (?j - 1)) \<le> snd (tt ! ?j)"
    by (rule temps_rising_nth[OF assms(2) _ assms(5)]) simp
  show ?thesis
    unfolding tt_celsius_found[OF assms(1,3,4,5)]
    by (rule lin_between_rising) (use b y in simp_all)
qed

lemma tt_celsius_mono_falling:
  assumes "table_ok tt" "temps_falling tt" "in14 r1" "in14 r2" "fst (tt ! 0) \<le> r1" "r1 \<le> r2"
  shows "tt_celsius tt r2 \<le> tt_celsius tt r1"
proof -
  let ?j1 = "tt_search tt r1 1" and ?j2 = "tt_search tt r2 1"
  have len: "0 < length tt" using assms(1) by (simp add: table_ok_def)
  have j12: "?j1 \<le> ?j2" by (rule tt_search_mono[OF assms(6)])
  have j2len: "?j2 \<le> length tt" using tt_search_le[of tt r2 1] len by simp
  have lo2: "fst (tt ! 0) \<le> r2" using assms(5,6) by simp
  show ?thesis
  proof (cases "?j1 < length tt")
    case False
    then have "?j1 = length tt" "?j2 = length tt" using j12 j2len by simp_all
    then show ?thesis by (simp add: tt_celsius_end)
  next
    case j1: True
    have v1: "real_of_int (snd (tt ! ?j1)) \<le> tt_celsius tt r1"
      using tt_celsius_between_falling[OF assms(1,2,3,5) j1] by simp
    have b1: "0 < ?j1" "fst (tt ! (?j1 - 1)) \<le> r1" "r1 < fst (tt ! ?j1)"
      using tt_search_bracket[OF assms(5) j1] by simp_all
    show ?thesis
    proof (cases "?j2 = ?j1")
      case True
      have j2: "?j2 < length tt" using True j1 by simp
      have y: "snd (tt ! ?j1) \<le> snd (tt ! (?j1 - 1))"
        by (rule temps_falling_nth[OF assms(2) _ j1]) simp
      have x: "real_of_int (fst (tt ! (?j1 - 1))) < real_of_int (fst (tt ! ?j1))"
        using b1 by simp
      show ?thesis
        unfolding tt_celsius_found[OF assms(1,3,5) j1] tt_celsius_found[OF assms(1,4) lo2 j2] True
        by (rule lin_mono_falling) (use assms(6) x y in simp_all)
    next
      case False
      then have lt: "?j1 < ?j2" using j12 by simp
      have v2: "tt_celsius tt r2 \<le> real_of_int (snd (tt ! (?j2 - 1)))"
      proof (cases "?j2 < length tt")
        case True
        then show ?thesis using tt_celsius_between_falling[OF assms(1,2,4) lo2] by simp
      next
        case False
        then have "?j2 = length tt" using j2len by simp
        then show ?thesis by (simp add: tt_celsius_end)
      qed
      have "snd (tt ! (?j2 - 1)) \<le> snd (tt ! ?j1)"
        by (rule temps_falling_nth[OF assms(2)]) (use lt j2len in simp_all)
      then show ?thesis using v1 v2 by simp
    qed
  qed
qed

lemma tt_celsius_mono_rising:
  assumes "table_ok tt" "temps_rising tt" "in14 r1" "in14 r2" "fst (tt ! 0) \<le> r1" "r1 \<le> r2"
  shows "tt_celsius tt r1 \<le> tt_celsius tt r2"
proof -
  let ?j1 = "tt_search tt r1 1" and ?j2 = "tt_search tt r2 1"
  have len: "0 < length tt" using assms(1) by (simp add: table_ok_def)
  have j12: "?j1 \<le> ?j2" by (rule tt_search_mono[OF assms(6)])
  have j2len: "?j2 \<le> length tt" using tt_search_le[of tt r2 1] len by simp
  have lo2: "fst (tt ! 0) \<le> r2" using assms(5,6) by simp
  show ?thesis
  proof (cases "?j1 < length tt")
    case False
    then have "?j1 = length tt" "?j2 = length tt" using j12 j2len by simp_all
    then show ?thesis by (simp add: tt_celsius_end)
  next
    case j1: True
    have v1: "tt_celsius tt r1 \<le> real_of_int (snd (tt ! ?j1))"
      using tt_celsius_between_rising[OF assms(1,2,3,5) j1] by simp
    have b1: "0 < ?j1" "fst (tt ! (?j1 - 1)) \<le> r1" "r1 < fst (tt ! ?j1)"
      using tt_search_bracket[OF assms(5) j1] by simp_all
    show ?thesis
    proof (cases "?j2 = ?j1")
      case True
      have j2: "?j2 < length tt" using True j1 by simp
      have y: "snd (tt ! (?j1 - 1)) \<le> snd (tt ! ?j1)"
        by (rule temps_rising_nth[OF assms(2) _ j1]) simp
      have x: "real_of_int (fst (tt ! (?j1 - 1))) < real_of_int (fst (tt ! ?j1))"
        using b1 by simp
      show ?thesis
        unfolding tt_celsius_found[OF assms(1,3,5) j1] tt_celsius_found[OF assms(1,4) lo2 j2] True
        by (rule lin_mono_rising) (use assms(6) x y in simp_all)
    next
      case False
      then have lt: "?j1 < ?j2" using j12 by simp
      have v2: "real_of_int (snd (tt ! (?j2 - 1))) \<le> tt_celsius tt r2"
      proof (cases "?j2 < length tt")
        case True
        then show ?thesis using tt_celsius_between_rising[OF assms(1,2,4) lo2] by simp
      next
        case False
        then have "?j2 = length tt" using j2len by simp
        then show ?thesis by (simp add: tt_celsius_end)
      qed
      have "snd (tt ! ?j1) \<le> snd (tt ! (?j2 - 1))"
        by (rule temps_rising_nth[OF assms(2)]) (use lt j2len in simp_all)
      then show ?thesis using v1 v2 by simp
    qed
  qed
qed

text \<open>
  Claim C4. For an extruder \<open>e\<close> below \<^verbatim>\<open>EXTRUDERS\<close> whose table is not \<^verbatim>\<open>NULL\<close>:
  for a raw value at or above every raw value of the (non-empty) table,
  \<^verbatim>\<open>analog2temp\<close> returns exactly the temperature of the last entry; and on a table of
  a thermistor (\<open>table_ok\<close>), for raw values \<open>r1 \<le> r2\<close> of 14 bits from the first raw
  value of the table on, the result at \<open>r2\<close> is not above the result at \<open>r1\<close> when the
  temperatures of the table fall, and not below it when they rise.
\<close>

theorem analog2temp_monotonic_saturating:
  assumes "e < EXTRUDERS cfg" and "heater_ttbl_map sc e = Some tt"
  shows "(tt \<noteq> [] \<and> (\<forall>k\<in>set (map fst tt). k \<le> raw)
            \<longrightarrow> analog2temp cfg sc raw e = Inr (real_of_int (snd (last tt))))
       \<and> (table_ok tt \<and> in14 r1 \<and> in14 r2 \<and> fst (tt ! 0) \<le> r1 \<and> r1 \<le> r2
            \<longrightarrow> (\<exists>t1 t2. analog2temp cfg sc r1 e = Inr t1 \<and> analog2temp cfg sc r2 e = Inr t2
                   \<and> (temps_falling tt \<longrightarrow> t2 \<le> t1) \<and> (temps_rising tt \<longrightarrow> t1 \<le> t2)))"
proof -
  have eq: "\<And>raw. analog2temp cfg sc raw e = Inr (tt_celsius tt raw)"
    using assms by (simp add: analog2temp_def)
  have sat: "tt \<noteq> [] \<and> (\<forall>k\<in>set (map fst tt). k \<le> raw)
            \<longrightarrow> analog2temp cfg sc raw e = Inr (real_of_int (snd (last tt)))"
    using tt_celsius_saturated[of tt raw] by (simp add: eq)
  have mono: "table_ok tt \<and> in14 r1 \<and> in14 r2 \<and> fst (tt ! 0) \<le> r1 \<and> r1 \<le> r2
            \<longrightarrow> (\<exists>t1 t2. analog2temp cfg sc r1 e = Inr t1 \<and> analog2temp cfg sc r2 e = Inr t2
                   \<and> (temps_falling tt \<longrightarrow> t2 \<le> t1) \<and> (temps_rising tt \<longrightarrow> t1 \<le> t2))"
    using tt_celsius_mono_falling[of tt r1 r2] tt_celsius_mono_rising[of tt r1 r2]
    by (simp add: eq)
  show ?thesis using sat mono by blast
qed

lemma example_table_ok: "table_ok example_table \<and> temps_falling example_table"
  by (simp add: table_ok_def temps_falling_def example_table_def in14_def)

theorem analog2temp_monotonic_saturating_witness:
  "(0::nat) < EXTRUDERS example_config
   \<and> heater_ttbl_map example_sensors 0 = Some example_table
   \<and> example_table \<noteq> []
   \<and> list_all (\<lambda>k. k \<le> 600) (map fst example_table)
   \<and> analog2temp example_config example_sensors 600 0 = Inr 280
   \<and> analog2temp example_config example_sensors 528 0 = Inr 280
   \<and> table_ok example_table \<and> temps_falling example_table
   \<and> in14 400 \<and> in14 410 \<and> fst (example_table ! 0) \<le> 400 \<and> (400::int) \<le> 410
   \<and> (\<exists>t1 t2. analog2temp example_config example_sensors 400 0 = Inr t1
         \<and> analog2temp example_config example_sensors 410 0 = Inr t2 \<and> t2 \<le> t1)"
proof -
  have h1: "(0::nat) < EXTRUDERS example_config" by (simp add: example_config_def)
  have h2: "heater_ttbl_map example_sensors 0 = Some example_table"
    by (simp add: example_sensors_def)
  have h3: "example_table \<noteq> []" "\<forall>k\<in>set (map fst example_table). k \<le> 600"
    "\<forall>k\<in>set (map fst example_table). k \<le> 528" "last example_table = (528, 280)"
    "list_all (\<lambda>k. k \<le> 600) (map fst example_table)"
    by (simp_all add: example_table_def)
  have h4: "in14 400" "in14 410" "fst (example_table ! 0) \<le> 400"
    by (simp_all add: in14_def example_table_def)
  show ?thesis
    using h1 h2 h3 h4 example_table_ok
      analog2temp_monotonic_saturating [OF h1 h2, of 600 400 410]
      analog2temp_monotonic_saturating [OF h1 h2, of 528 400 410]
    by auto
qed

lemma tt_search_first:
  assumes "table_ok tt" "2 \<le> length tt" "raw < fst (tt ! 0)"
  shows "tt_search tt raw 1 = 1"
proof -
  have "fst (tt ! 0) < fst (tt ! 1)"
    using assms(1,2) by (simp add: table_ok_def sorted_wrt_iff_nth_less)
  then have "raw < fst (tt ! 1)" using assms(3) by simp
  then show ?thesis using assms(2) by (subst tt_search.simps) simp
qed

text \<open>
  Claim C10. For an extruder \<open>e\<close> below \<^verbatim>\<open>EXTRUDERS\<close> whose table is not \<^verbatim>\<open>NULL\<close>, is
  a table of a thermistor and has at least two entries, and for a raw value of 14 bits
  strictly below the first (smallest) raw value of the table: \<^verbatim>\<open>analog2temp\<close> returns
  the value at \<open>raw\<close> of the line through the entries 0 and 1; this is strictly above the
  temperature of entry 0 when the table falls from entry 0 to entry 1 and strictly below
  it when the table rises, so the low end is not saturated.
\<close>

theorem analog2temp_low_end_extrapolates:
  assumes "e < EXTRUDERS cfg" and "heater_ttbl_map sc e = Some tt"
    and "table_ok tt" and "2 \<le> length tt" and "in14 raw" and "raw < fst (tt ! 0)"
  shows "analog2temp cfg sc raw e =
           Inr (real_of_int (snd (tt ! 0))
                + (real_of_int raw - real_of_int (fst (tt ! 0)))
                  * (real_of_int (snd (tt ! 1)) - real_of_int (snd (tt ! 0)))
                  / (real_of_int (fst (tt ! 1)) - real_of_int (fst (tt ! 0))))
       \<and> (snd (tt ! 1) < snd (tt ! 0)
            \<longrightarrow> (\<exists>t. analog2temp cfg sc raw e = Inr t \<and> real_of_int (snd (tt ! 0)) < t))
       \<and> (snd (tt ! 0) < snd (tt ! 1)
            \<longrightarrow> (\<exists>t. analog2temp cfg sc raw e = Inr t \<and> t < real_of_int (snd (tt ! 0))))"
proof -
  let ?x0 = "real_of_int (fst (tt ! 0))" and ?x1 = "real_of_int (fst (tt ! 1))"
  let ?y0 = "real_of_int (snd (tt ! 0))" and ?y1 = "real_of_int (snd (tt ! 1))"
  let ?r = "real_of_int raw"
  have j: "tt_search tt raw 1 = 1" by (rule tt_search_first[OF assms(3,4,6)])
  then have j': "tt_search tt raw (Suc 0) = Suc 0" by simp
  have l1: "1 < length tt" using assms(4) by simp
  have ip: "tt_interpolate tt raw 1 = ?y0 + (?r - ?x0) * (?y1 - ?y0) / (?x1 - ?x0)"
    using tt_interpolate_exact[OF assms(3,5) _ l1] by simp
  have v: "analog2temp cfg sc raw e = Inr (?y0 + (?r - ?x0) * (?y1 - ?y0) / (?x1 - ?x0))"
    using assms(1,2) l1 ip j' by (simp add: analog2temp_def tt_celsius_def Let_def)
  have x: "0 < ?x1 - ?x0"
    using assms(3,4) by (simp add: table_ok_def sorted_wrt_iff_nth_less)
  have r: "?r - ?x0 < 0" using assms(6) by simp
  have fall: "snd (tt ! 1) < snd (tt ! 0) \<Longrightarrow> 0 < (?r - ?x0) * (?y1 - ?y0) / (?x1 - ?x0)"
  proof -
    assume "snd (tt ! 1) < snd (tt ! 0)"
    then have "?y1 - ?y0 < 0" by simp
    then have "0 < (?r - ?x0) * (?y1 - ?y0)" using r by (rule mult_neg_neg[rotated])
    then show ?thesis using x by (rule divide_pos_pos)
  qed
  have rise: "snd (tt ! 0) < snd (tt ! 1) \<Longrightarrow> (?r - ?x0) * (?y1 - ?y0) / (?x1 - ?x0) < 0"
  proof -
    assume "snd (tt ! 0) < snd (tt ! 1)"
    then have "0 < ?y1 - ?y0" by simp
    then have "(?r - ?x0) * (?y1 - ?y0) < 0" using r by (simp add: mult_neg_pos)
    then show ?thesis using x by (rule divide_neg_pos)
  qed
  show ?thesis using v fall rise by auto
qed

theorem analog2temp_low_end_extrapolates_witness:
  "(0::nat) < EXTRUDERS example_config
   \<and> heater_ttbl_map example_sensors 0 = Some example_table
   \<and> table_ok example_table \<and> 2 \<le> length example_table \<and> in14 336
   \<and> 336 < fst (example_table ! 0)
   \<and> snd (example_table ! 1) < snd (example_table ! 0)
   \<and> analog2temp example_config example_sensors 336 0 = Inr 305
   \<and> real_of_int (snd (example_table ! 0)) < 305"
proof -
  have h1: "(0::nat) < EXTRUDERS example_config" by (simp add: example_config_def)
  have h2: "heater_ttbl_map example_sensors 0 = Some example_table"
    by (simp add: example_sensors_def)
  have h3: "table_ok example_table" using example_table_ok by simp
  have h4: "2 \<le> length example_table" by (simp add: example_table_def)
  have h5: "in14 336" by (simp add: in14_def)
  have h6: "336 < fst (example_table ! 0)" by (simp add: example_table_def)
  show ?thesis
    using h1 h2 h3 h4 h5 h6 analog2temp_low_end_extrapolates [OF h1 h2 h3 h4 h5 h6]
    by (simp add: example_table_def)
qed

subsection \<open>The calibration of the temperature model\<close>

lemma c_float_ne_NaN [simp]: "c_float_ne a NaN"
  by (cases a) (simp_all add: c_float_ne_def)

lemma calibrated_iff:
  "calibrated d \<longleftrightarrow> c_float_ge (data_P d) (Fin 0) \<and> c_float_ge (data_C d) (Fin 0)
     \<and> (\<forall>i<TEMP_MODEL_R_SIZE. c_float_ge (data_R d i) (Fin 0))"
  by (auto simp add: calibrated_def list_all_iff)

lemma c_float_ge_NaN [simp]: "\<not> c_float_ge NaN b"
  by (cases b) (simp_all add: c_float_ge_def)

lemma calibrated_reset:
  "\<not> calibrated (data (temp_model_reset_settings dflt m))"
  by (simp add: calibrated_iff temp_model_reset_settings_def Let_def)

text \<open>
  Claim C9, as stated, fails on the code: with \<open>P = 0\<close> (and the other parameters valid)
  \<^verbatim>\<open>calibrated()\<close> returns true, although \<open>P > 0\<close> does not hold. The test is
  \<^verbatim>\<open>!(data.P >= 0)\<close>, and likewise for \<open>C\<close>.
\<close>

theorem calibrated_counterexample:
  "calibrated (data example_model) \<and> \<not> c_float_gt (data_P (data example_model)) (Fin 0)"
  by (simp add: calibrated_iff example_model_def c_float_ge_def c_float_gt_def)

text \<open>
  The tests \<^verbatim>\<open>data.Ta_corr != NAN\<close>, \<^verbatim>\<open>data.warn != NAN\<close> and \<^verbatim>\<open>data.err != NAN\<close> never
  fail, since a comparison \<^verbatim>\<open>!=\<close> with NaN is true for every operand: parameters that
  are NaN there pass the check.
\<close>

lemma calibrated_accepts_nan:
  "calibrated (data example_model\<lparr>data_Ta_corr := NaN, data_warn := NaN, data_err := NaN\<rparr>)"
  by (simp add: calibrated_iff example_model_def c_float_ge_def)

text \<open>
  Claim C9, amended. For parameters whose \<^verbatim>\<open>Ta_corr\<close>, \<^verbatim>\<open>warn\<close> and \<^verbatim>\<open>err\<close> are not
  NaN, \<^verbatim>\<open>calibrated()\<close> returns true if and only if \<open>P \<ge> 0\<close>, \<open>C \<ge> 0\<close> and
  \<open>R[i] \<ge> 0\<close> for every \<open>i\<close> below \<^verbatim>\<open>TEMP_MODEL_R_SIZE\<close> (comparisons of floats: false
  on NaN). When the parameters read by \<^verbatim>\<open>temp_model_load_settings\<close> fail the check,
  the function returns with the parameters of \<^verbatim>\<open>temp_model_reset_settings\<close> (the
  defaults for \<open>P\<close>, \<open>Ta_corr\<close>, \<open>warn\<close>, \<open>err\<close>, and NaN for \<open>C\<close> and every \<open>R[i]\<close>) and
  with the model disabled; when they pass, it keeps them and the stored enable flag.
\<close>

theorem calibrated_validity:
  "(\<not> c_isnan (data_Ta_corr d) \<and> \<not> c_isnan (data_warn d) \<and> \<not> c_isnan (data_err d) \<longrightarrow>
      (calibrated d \<longleftrightarrow> c_float_ge (data_P d) (Fin 0) \<and> c_float_ge (data_C d) (Fin 0)
         \<and> (\<forall>i<TEMP_MODEL_R_SIZE. c_float_ge (data_R d i) (Fin 0))))
   \<and> (let loaded = (data m)\<lparr>data_P := EEPROM_TEMP_MODEL_P ee, data_C := EEPROM_TEMP_MODEL_C ee,
                        data_R := for_extruders TEMP_MODEL_R_SIZE (EEPROM_TEMP_MODEL_R ee) (data_R (data m)),
                        data_Ta_corr := EEPROM_TEMP_MODEL_Ta_corr ee,
                        data_warn := EEPROM_TEMP_MODEL_W ee, data_err := EEPROM_TEMP_MODEL_E ee\<rparr>;
            m' = temp_model_load_settings dflt ee m
        in (\<not> calibrated loaded \<longrightarrow>
              data_P (data m') = TEMP_MODEL_P dflt \<and> data_C (data m') = NaN
              \<and> (\<forall>i<TEMP_MODEL_R_SIZE. data_R (data m') i = NaN)
              \<and> data_Ta_corr (data m') = TEMP_MODEL_Ta_corr dflt
              \<and> data_warn (data m') = TEMP_MODEL_W dflt \<and> data_err (data m') = TEMP_MODEL_E dflt
              \<and> warn_beep m' \<and> \<not> enabled m' \<and> flag_uninitialized (data m'))
         \<and> (calibrated loaded \<longrightarrow>
              data m' = loaded\<lparr>flag_uninitialized := True\<rparr>
              \<and> enabled m' = (EEPROM_TEMP_MODEL_ENABLE ee mod 256 \<noteq> 0)))"
proof -
  let ?loaded = "(data m)\<lparr>data_P := EEPROM_TEMP_MODEL_P ee, data_C := EEPROM_TEMP_MODEL_C ee,
                        data_R := for_extruders TEMP_MODEL_R_SIZE (EEPROM_TEMP_MODEL_R ee) (data_R (data m)),
                        data_Ta_corr := EEPROM_TEMP_MODEL_Ta_corr ee,
                        data_warn := EEPROM_TEMP_MODEL_W ee, data_err := EEPROM_TEMP_MODEL_E ee\<rparr>"
  let ?m2 = "m\<lparr>enabled := (EEPROM_TEMP_MODEL_ENABLE ee mod 256 \<noteq> 0), data := ?loaded\<rparr>"
  let ?m' = "temp_model_load_settings dflt ee m"
  have ld: "?m' = temp_model_setup (if \<not> calibrated ?loaded then temp_model_reset_settings dflt ?m2 else ?m2)"
    by (simp add: temp_model_load_settings_def Let_def)
  have bad: "\<not> calibrated ?loaded \<Longrightarrow>
      ?m' = (temp_model_reset_settings dflt ?m2)
              \<lparr>enabled := False,
               data := (data (temp_model_reset_settings dflt ?m2))\<lparr>flag_uninitialized := True\<rparr>\<rparr>"
    using calibrated_reset[of dflt ?m2] by (simp add: ld temp_model_setup_def Let_def)
  have bad': "\<not> calibrated ?loaded \<longrightarrow>
              data_P (data ?m') = TEMP_MODEL_P dflt \<and> data_C (data ?m') = NaN
              \<and> (\<forall>i<TEMP_MODEL_R_SIZE. data_R (data ?m') i = NaN)
              \<and> data_Ta_corr (data ?m') = TEMP_MODEL_Ta_corr dflt
              \<and> data_warn (data ?m') = TEMP_MODEL_W dflt \<and> data_err (data ?m') = TEMP_MODEL_E dflt
              \<and> warn_beep ?m' \<and> \<not> enabled ?m' \<and> flag_uninitialized (data ?m')"
    using bad by (simp add: temp_model_reset_settings_def Let_def for_extruders_apply)
  have good: "calibrated ?loaded \<longrightarrow>
              data ?m' = ?loaded\<lparr>flag_uninitialized := True\<rparr>
              \<and> enabled ?m' = (EEPROM_TEMP_MODEL_ENABLE ee mod 256 \<noteq> 0)"
    by (simp add: ld temp_model_setup_def Let_def)
  have iff: "\<not> c_isnan (data_Ta_corr d) \<and> \<not> c_isnan (data_warn d) \<and> \<not> c_isnan (data_err d) \<longrightarrow>
      (calibrated d \<longleftrightarrow> c_float_ge (data_P d) (Fin 0) \<and> c_float_ge (data_C d) (Fin 0)
         \<and> (\<forall>i<TEMP_MODEL_R_SIZE. c_float_ge (data_R d i) (Fin 0)))"
    using calibrated_iff[of d] by simp
  show ?thesis unfolding Let_def using iff bad' good by blast
qed

theorem calibrated_validity_witness:
  "\<not> c_isnan (data_Ta_corr (data example_model)) \<and> \<not> c_isnan (data_warn (data example_model))
   \<and> \<not> c_isnan (data_err (data example_model))
   \<and> calibrated (data example_model)
   \<and> \<not> calibrated (data example_model\<lparr>data_C := Fin (- 1)\<rparr>)
   \<and> \<not> enabled (temp_model_load_settings example_defaults blank_eeprom example_model)
   \<and> data_P (data (temp_model_load_settings example_defaults blank_eeprom example_model)) = Fin 38
   \<and> data_C (data (temp_model_load_settings example_defaults blank_eeprom example_model)) = NaN"
proof -
  have n: "\<not> c_isnan (data_Ta_corr (data example_model))" "\<not> c_isnan (data_warn (data example_model))"
    "\<not> c_isnan (data_err (data example_model))"
    "\<not> c_isnan (data_Ta_corr (data example_model\<lparr>data_C := Fin (- 1)\<rparr>))"
    "\<not> c_isnan (data_warn (data example_model\<lparr>data_C := Fin (- 1)\<rparr>))"
    "\<not> c_isnan (data_err (data example_model\<lparr>data_C := Fin (- 1)\<rparr>))"
    by (simp_all add: example_model_def c_isnan_def)
  have v: "c_float_ge (data_P (data example_model)) (Fin 0)"
    "c_float_ge (data_C (data example_model)) (Fin 0)"
    "\<forall>i<TEMP_MODEL_R_SIZE. c_float_ge (data_R (data example_model) i) (Fin 0)"
    "\<not> c_float_ge (data_C (data example_model\<lparr>data_C := Fin (- 1)\<rparr>)) (Fin 0)"
    by (simp_all add: example_model_def c_float_ge_def)
  have b: "\<not> c_float_ge (EEPROM_TEMP_MODEL_P blank_eeprom) (Fin 0)"
    by (simp add: blank_eeprom_def)
  have d: "TEMP_MODEL_P example_defaults = Fin 38" by (simp add: example_defaults_def)
  show ?thesis
    using n v b d
      calibrated_validity [where d = "data example_model" and m = example_model
        and ee = blank_eeprom and dflt = example_defaults]
      calibrated_validity [where d = "data example_model\<lparr>data_C := Fin (- 1)\<rparr>"
        and m = example_model and ee = blank_eeprom and dflt = example_defaults]
    by (simp add: Let_def calibrated_iff)
qed

subsection \<open>The relay autotuner: the reported gains\<close>

lemma arctan_series_bounds:
  fixes x :: real
  assumes "0 < x" "x \<le> 1"
  shows "(\<Sum>i<2 * n. (- 1) ^ i * (1 / real (i * 2 + 1) * x ^ (i * 2 + 1))) \<le> arctan x"
    and "arctan x \<le> (\<Sum>i<2 * n + 1. (- 1) ^ i * (1 / real (i * 2 + 1) * x ^ (i * 2 + 1)))"
proof -
  have ax: "\<bar>x\<bar> \<le> 1" using assms by simp
  have pos: "0 < 1 / real (0 * 2 + 1) * x ^ (0 * 2 + 1)" using assms by simp
  have "arctan x \<in> {(\<Sum>i<2 * n. (- 1) ^ i * (1 / real (i * 2 + 1) * x ^ (i * 2 + 1))) ..
        (\<Sum>i<2 * n + 1. (- 1) ^ i * (1 / real (i * 2 + 1) * x ^ (i * 2 + 1)))}"
    using summable_Leibniz(2)[OF zeroseq_arctan_series[OF ax] monoseq_arctan_series[OF ax]] pos
    unfolding arctan_series[OF ax] by blast
  then show "(\<Sum>i<2 * n. (- 1) ^ i * (1 / real (i * 2 + 1) * x ^ (i * 2 + 1))) \<le> arctan x"
    and "arctan x \<le> (\<Sum>i<2 * n + 1. (- 1) ^ i * (1 / real (i * 2 + 1) * x ^ (i * 2 + 1)))"
    by simp_all
qed

lemma pi_gt_314159: "314159 / 100000 < pi"
proof -
  have l: "(\<Sum>i<2 * 2. (- 1) ^ i * (1 / real (i * 2 + 1) * (1 / 5) ^ (i * 2 + 1))) \<le> arctan (1 / 5 :: real)"
    by (rule arctan_series_bounds(1)) simp_all
  have u: "arctan (1 / 239 :: real) \<le> (\<Sum>i<2 * 0 + 1. (- 1) ^ i * (1 / real (i * 2 + 1) * (1 / 239) ^ (i * 2 + 1)))"
    by (rule arctan_series_bounds(2)) simp_all
  have l': "(1 / 5 - 1 / 375 + 1 / 15625 - 1 / 546875 :: real) \<le> arctan (1 / 5)"
    using l by (simp add: lessThan_nat_numeral lessThan_Suc power_numeral_reduce field_simps)
  have u': "arctan (1 / 239 :: real) \<le> 1 / 239"
    using u by simp
  have "pi = 16 * arctan (1 / 5) - 4 * arctan (1 / 239)"
    using machin by simp
  then show ?thesis using l' u' by simp
qed

lemma autotune_gains_gt2:
  assumes "2 < pid_cycle a"
  shows "at_Ku (autotune_gains a) = 4 * real_of_int (at_d a) / (314159 / 100000 * (at_max a - at_min a) / 2)"
    and "at_Tu (autotune_gains a) = real_of_int (int32 (at_t_low a + at_t_high a)) / 1000"
    and "gain_Kp (autotune_gains a) = 6 / 10 * at_Ku (autotune_gains a)"
    and "gain_Ki (autotune_gains a) = 2 * gain_Kp (autotune_gains a) / at_Tu (autotune_gains a)"
    and "gain_Kd (autotune_gains a) = gain_Kp (autotune_gains a) * at_Tu (autotune_gains a) / 8"
    and "serial (autotune_gains a) = serial a @
           [Ku_Tu (at_Ku (autotune_gains a)) (at_Tu (autotune_gains a)),
            Classic_PID (gain_Kp (autotune_gains a)) (gain_Ki (autotune_gains a))
              (gain_Kd (autotune_gains a))]"
  using assms by (simp_all add: autotune_gains_def say_def Let_def) (auto simp: divide_simps)

lemma autotune_gains_same:
  "at_d (autotune_gains a) = at_d a" "at_bias (autotune_gains a) = at_bias a"
  "at_heating (autotune_gains a) = at_heating a" "pid_cycle (autotune_gains a) = pid_cycle a"
  "at_t_low (autotune_gains a) = at_t_low a" "at_t_high (autotune_gains a) = at_t_high a"
  "at_max (autotune_gains a) = at_max a" "at_min (autotune_gains a) = at_min a"
  by (simp_all add: autotune_gains_def say_def Let_def)

lemma autotune_gains_id: "\<not> 2 < pid_cycle a \<Longrightarrow> autotune_gains a = a"
  by (simp add: autotune_gains_def)

lemma autotune_bias_id: "\<not> 0 < pid_cycle a \<Longrightarrow> autotune_bias cfg c a = a"
  by (simp add: autotune_bias_def)

lemma autotune_new_bias_fields:
  "serial (autotune_new_bias cfg c a) = serial a @
     [Bias_d_min_max (at_bias (autotune_new_bias cfg c a)) (at_d (autotune_new_bias cfg c a))
        (at_min a) (at_max a)]"
  "at_min (autotune_new_bias cfg c a) = at_min a" "at_max (autotune_new_bias cfg c a) = at_max a"
  "at_t_low (autotune_new_bias cfg c a) = at_t_low a" "at_t_high (autotune_new_bias cfg c a) = at_t_high a"
  "at_heating (autotune_new_bias cfg c a) = at_heating a" "pid_cycle (autotune_new_bias cfg c a) = pid_cycle a"
  "at_Ku (autotune_new_bias cfg c a) = at_Ku a" "at_Tu (autotune_new_bias cfg c a) = at_Tu a"
  "gain_Kp (autotune_new_bias cfg c a) = gain_Kp a" "gain_Ki (autotune_new_bias cfg c a) = gain_Ki a"
  "gain_Kd (autotune_new_bias cfg c a) = gain_Kd a"
  by (simp_all add: autotune_new_bias_def say_def Let_def)

lemma autotune_bias_fields:
  "at_heating (autotune_bias cfg c a) = at_heating a" "pid_cycle (autotune_bias cfg c a) = pid_cycle a"
  "at_t_low (autotune_bias cfg c a) = at_t_low a" "at_t_high (autotune_bias cfg c a) = at_t_high a"
  "at_max (autotune_bias cfg c a) = at_max a" "at_min (autotune_bias cfg c a) = at_min a"
  by (simp_all add: autotune_bias_def autotune_gains_same autotune_new_bias_fields)

lemma autotune_bias_low:
  assumes "\<not> 2 < pid_cycle a"
  shows "at_Ku (autotune_bias cfg c a) = at_Ku a" "at_Tu (autotune_bias cfg c a) = at_Tu a"
    "gain_Kp (autotune_bias cfg c a) = gain_Kp a" "gain_Ki (autotune_bias cfg c a) = gain_Ki a"
    "gain_Kd (autotune_bias cfg c a) = gain_Kd a"
    "serial (autotune_bias cfg c a) = serial a @
       (if 0 < pid_cycle a
        then [Bias_d_min_max (at_bias (autotune_bias cfg c a)) (at_d (autotune_bias cfg c a))
                (at_min a) (at_max a)]
        else [])"
  using assms
  by (simp_all add: autotune_bias_def autotune_gains_id autotune_new_bias_fields)

lemma autotune_bias_high:
  assumes "2 < pid_cycle a"
  shows "at_Ku (autotune_bias cfg c a) =
           4 * real_of_int (at_d (autotune_bias cfg c a)) / (314159 / 100000 * (at_max a - at_min a) / 2)"
    and "at_Tu (autotune_bias cfg c a) = real_of_int (int32 (at_t_low a + at_t_high a)) / 1000"
    and "gain_Kp (autotune_bias cfg c a) = 6 / 10 * at_Ku (autotune_bias cfg c a)"
    and "gain_Ki (autotune_bias cfg c a) = 2 * gain_Kp (autotune_bias cfg c a) / at_Tu (autotune_bias cfg c a)"
    and "gain_Kd (autotune_bias cfg c a) = gain_Kp (autotune_bias cfg c a) * at_Tu (autotune_bias cfg c a) / 8"
    and "serial (autotune_bias cfg c a) = serial a @
           [Bias_d_min_max (at_bias (autotune_bias cfg c a)) (at_d (autotune_bias cfg c a))
              (at_min a) (at_max a),
            Ku_Tu (at_Ku (autotune_bias cfg c a)) (at_Tu (autotune_bias cfg c a)),
            Classic_PID (gain_Kp (autotune_bias cfg c a)) (gain_Ki (autotune_bias cfg c a))
              (gain_Kd (autotune_bias cfg c a))]"
proof -
  let ?X = "autotune_new_bias cfg c a"
  have e: "autotune_bias cfg c a = autotune_gains ?X"
    using assms by (simp add: autotune_bias_def)
  have p: "2 < pid_cycle ?X" using assms by (simp add: autotune_new_bias_fields)
  show "at_Ku (autotune_bias cfg c a) =
           4 * real_of_int (at_d (autotune_bias cfg c a)) / (314159 / 100000 * (at_max a - at_min a) / 2)"
    unfolding e autotune_gains_gt2(1)[OF p] autotune_gains_same autotune_new_bias_fields ..
  show "at_Tu (autotune_bias cfg c a) = real_of_int (int32 (at_t_low a + at_t_high a)) / 1000"
    unfolding e autotune_gains_gt2(2)[OF p] autotune_new_bias_fields ..
  show "gain_Kp (autotune_bias cfg c a) = 6 / 10 * at_Ku (autotune_bias cfg c a)"
    unfolding e by (rule autotune_gains_gt2(3)[OF p])
  show "gain_Ki (autotune_bias cfg c a) = 2 * gain_Kp (autotune_bias cfg c a) / at_Tu (autotune_bias cfg c a)"
    unfolding e by (rule autotune_gains_gt2(4)[OF p])
  show "gain_Kd (autotune_bias cfg c a) = gain_Kp (autotune_bias cfg c a) * at_Tu (autotune_bias cfg c a) / 8"
    unfolding e by (rule autotune_gains_gt2(5)[OF p])
  show "serial (autotune_bias cfg c a) = serial a @
           [Bias_d_min_max (at_bias (autotune_bias cfg c a)) (at_d (autotune_bias cfg c a))
              (at_min a) (at_max a),
            Ku_Tu (at_Ku (autotune_bias cfg c a)) (at_Tu (autotune_bias cfg c a)),
            Classic_PID (gain_Kp (autotune_bias cfg c a)) (gain_Ki (autotune_bias cfg c a))
              (gain_Kd (autotune_bias cfg c a))]"
    unfolding e autotune_gains_gt2(6)[OF p]
    by (simp add: autotune_new_bias_fields(1) autotune_gains_same)
qed

lemma autotune_switch_on_eq:
  "\<exists>b3. autotune_switch_on cfg c now a =
          (autotune_bias cfg c b3)\<lparr>at_duty := at_duty (autotune_switch_on cfg c now a),
             pid_cycle := int16 (pid_cycle a + 1), at_min := at_temp c\<rparr>
       \<and> pid_cycle b3 = pid_cycle a \<and> serial b3 = serial a
       \<and> at_max b3 = at_max a \<and> at_min b3 = at_min a
       \<and> at_Ku b3 = at_Ku a \<and> at_Tu b3 = at_Tu a
       \<and> gain_Kp b3 = gain_Kp a \<and> gain_Ki b3 = gain_Ki a \<and> gain_Kd b3 = gain_Kd a
       \<and> at_heating b3"
proof -
  let ?b3 = "a\<lparr>at_heating := True, at_t2 := u32 now, at_t_low := int32 (u32 now - at_t1 a)\<rparr>"
  have "autotune_switch_on cfg c now a =
          (autotune_bias cfg c ?b3)\<lparr>at_duty := at_duty (autotune_switch_on cfg c now a),
             pid_cycle := int16 (pid_cycle a + 1), at_min := at_temp c\<rparr>"
    by (simp add: autotune_switch_on_def Let_def set_duty_def autotune_bias_fields)
  then show ?thesis by (intro exI[of _ ?b3]) simp
qed

lemma autotune_switch_on_high:
  assumes "2 < pid_cycle a"
  shows "\<exists>b. serial (autotune_switch_on cfg c now a) = serial a @
           [Bias_d_min_max b (at_d (autotune_switch_on cfg c now a)) (at_min a) (at_max a),
            Ku_Tu (at_Ku (autotune_switch_on cfg c now a)) (at_Tu (autotune_switch_on cfg c now a)),
            Classic_PID (gain_Kp (autotune_switch_on cfg c now a))
              (gain_Ki (autotune_switch_on cfg c now a)) (gain_Kd (autotune_switch_on cfg c now a))]"
    and "at_Ku (autotune_switch_on cfg c now a) =
           4 * real_of_int (at_d (autotune_switch_on cfg c now a))
             / (314159 / 100000 * (at_max a - at_min a) / 2)"
    and "at_Tu (autotune_switch_on cfg c now a) =
           real_of_int (int32 (at_t_low (autotune_switch_on cfg c now a)
                               + at_t_high (autotune_switch_on cfg c now a))) / 1000"
    and "gain_Kp (autotune_switch_on cfg c now a) = 6 / 10 * at_Ku (autotune_switch_on cfg c now a)"
    and "gain_Ki (autotune_switch_on cfg c now a) =
           2 * gain_Kp (autotune_switch_on cfg c now a) / at_Tu (autotune_switch_on cfg c now a)"
    and "gain_Kd (autotune_switch_on cfg c now a) =
           gain_Kp (autotune_switch_on cfg c now a) * at_Tu (autotune_switch_on cfg c now a) / 8"
proof -
  let ?a' = "autotune_switch_on cfg c now a"
  obtain b3 where e: "?a' = (autotune_bias cfg c b3)\<lparr>at_duty := at_duty ?a',
             pid_cycle := int16 (pid_cycle a + 1), at_min := at_temp c\<rparr>"
    and f: "pid_cycle b3 = pid_cycle a" "serial b3 = serial a" "at_max b3 = at_max a"
      "at_min b3 = at_min a"
    using autotune_switch_on_eq[of cfg c now a] by blast
  let ?B = "autotune_bias cfg c b3"
  have p: "2 < pid_cycle b3" using assms f by simp
  have g: "at_Ku ?a' = at_Ku ?B" "at_Tu ?a' = at_Tu ?B" "gain_Kp ?a' = gain_Kp ?B"
    "gain_Ki ?a' = gain_Ki ?B" "gain_Kd ?a' = gain_Kd ?B" "at_d ?a' = at_d ?B"
    "serial ?a' = serial ?B" "at_t_low ?a' = at_t_low ?B" "at_t_high ?a' = at_t_high ?B"
    by (subst e, simp)+
  show "\<exists>b. serial ?a' = serial a @
           [Bias_d_min_max b (at_d ?a') (at_min a) (at_max a), Ku_Tu (at_Ku ?a') (at_Tu ?a'),
            Classic_PID (gain_Kp ?a') (gain_Ki ?a') (gain_Kd ?a')]"
    unfolding g autotune_bias_high(6)[OF p] f by simp
  show "at_Ku ?a' = 4 * real_of_int (at_d ?a') / (314159 / 100000 * (at_max a - at_min a) / 2)"
    unfolding g autotune_bias_high(1)[OF p] f ..
  show "at_Tu ?a' = real_of_int (int32 (at_t_low ?a' + at_t_high ?a')) / 1000"
    unfolding g autotune_bias_high(2)[OF p] autotune_bias_fields ..
  show "gain_Kp ?a' = 6 / 10 * at_Ku ?a'"
    unfolding g by (rule autotune_bias_high(3)[OF p])
  show "gain_Ki ?a' = 2 * gain_Kp ?a' / at_Tu ?a'"
    unfolding g by (rule autotune_bias_high(4)[OF p])
  show "gain_Kd ?a' = gain_Kp ?a' * at_Tu ?a' / 8"
    unfolding g by (rule autotune_bias_high(5)[OF p])
qed

lemma autotune_switch_on_low:
  assumes "\<not> 2 < pid_cycle a"
  shows "at_Ku (autotune_switch_on cfg c now a) = at_Ku a"
    and "at_Tu (autotune_switch_on cfg c now a) = at_Tu a"
    and "gain_Kp (autotune_switch_on cfg c now a) = gain_Kp a"
    and "gain_Ki (autotune_switch_on cfg c now a) = gain_Ki a"
    and "gain_Kd (autotune_switch_on cfg c now a) = gain_Kd a"
    and "serial (autotune_switch_on cfg c now a) = serial a @
          (if 0 < pid_cycle a
           then [Bias_d_min_max (at_bias (autotune_switch_on cfg c now a))
                   (at_d (autotune_switch_on cfg c now a)) (at_min a) (at_max a)]
           else [])"
proof -
  let ?a' = "autotune_switch_on cfg c now a"
  obtain b3 where e: "?a' = (autotune_bias cfg c b3)\<lparr>at_duty := at_duty ?a',
             pid_cycle := int16 (pid_cycle a + 1), at_min := at_temp c\<rparr>"
    and f: "pid_cycle b3 = pid_cycle a" "serial b3 = serial a" "at_max b3 = at_max a"
      "at_min b3 = at_min a" "at_Ku b3 = at_Ku a" "at_Tu b3 = at_Tu a"
      "gain_Kp b3 = gain_Kp a" "gain_Ki b3 = gain_Ki a" "gain_Kd b3 = gain_Kd a"
    using autotune_switch_on_eq[of cfg c now a] by blast
  let ?B = "autotune_bias cfg c b3"
  have p: "\<not> 2 < pid_cycle b3" using assms f by simp
  have g: "at_Ku ?a' = at_Ku ?B" "at_Tu ?a' = at_Tu ?B" "gain_Kp ?a' = gain_Kp ?B"
    "gain_Ki ?a' = gain_Ki ?B" "gain_Kd ?a' = gain_Kd ?B" "at_d ?a' = at_d ?B"
    "serial ?a' = serial ?B" "at_bias ?a' = at_bias ?B"
    by (subst e, simp)+
  show "at_Ku ?a' = at_Ku a" "at_Tu ?a' = at_Tu a" "gain_Kp ?a' = gain_Kp a"
    "gain_Ki ?a' = gain_Ki a" "gain_Kd ?a' = gain_Kd a"
    unfolding g autotune_bias_low[OF p] f by (rule refl)+
  show "serial ?a' = serial a @
          (if 0 < pid_cycle a then [Bias_d_min_max (at_bias ?a') (at_d ?a') (at_min a) (at_max a)] else [])"
    unfolding g autotune_bias_low(6)[OF p] f by simp
qed

lemma autotune_sample_fields:
  "serial (autotune_sample current a) = serial a" "pid_cycle (autotune_sample current a) = pid_cycle a"
  "at_heating (autotune_sample current a) = at_heating a" "at_t1 (autotune_sample current a) = at_t1 a"
  "at_t2 (autotune_sample current a) = at_t2 a"
  "at_input (autotune_sample current a) = current"
  "at_Ku (autotune_sample current a) = at_Ku a" "at_Tu (autotune_sample current a) = at_Tu a"
  "gain_Kp (autotune_sample current a) = gain_Kp a" "gain_Ki (autotune_sample current a) = gain_Ki a"
  "gain_Kd (autotune_sample current a) = gain_Kd a"
  "at_max (autotune_sample current a) = max (at_max a) current"
  "at_min (autotune_sample current a) = min (at_min a) current"
  by (simp_all add: autotune_sample_def Let_def)

lemma autotune_switch_off_fields:
  "serial (autotune_switch_off c now a) = serial a" "pid_cycle (autotune_switch_off c now a) = pid_cycle a"
  "at_heating (autotune_switch_off c now a) = False"
  "at_input (autotune_switch_off c now a) = at_input a"
  "at_Ku (autotune_switch_off c now a) = at_Ku a" "at_Tu (autotune_switch_off c now a) = at_Tu a"
  "gain_Kp (autotune_switch_off c now a) = gain_Kp a" "gain_Ki (autotune_switch_off c now a) = gain_Ki a"
  "gain_Kd (autotune_switch_off c now a) = gain_Kd a"
  by (simp_all add: autotune_switch_off_def set_duty_def Let_def)

lemma autotune_switch_on_heating: "at_heating (autotune_switch_on cfg c now a)"
  by (simp add: autotune_switch_on_def set_duty_def Let_def autotune_bias_fields)

lemma autotune_relay_switch:
  assumes "switches_to_heating c ready current now a"
  shows "autotune_relay cfg c ready current now a
           = autotune_switch_on cfg c now (autotune_sample current a)"
  using assms
  by (simp add: autotune_relay_def switches_to_heating_def Let_def autotune_sample_fields)

lemma autotune_relay_no_switch:
  assumes "\<not> switches_to_heating c ready current now a"
  shows "serial (autotune_relay cfg c ready current now a) = serial a"
    and "at_Ku (autotune_relay cfg c ready current now a) = at_Ku a"
    and "at_Tu (autotune_relay cfg c ready current now a) = at_Tu a"
    and "gain_Kp (autotune_relay cfg c ready current now a) = gain_Kp a"
    and "gain_Ki (autotune_relay cfg c ready current now a) = gain_Ki a"
    and "gain_Kd (autotune_relay cfg c ready current now a) = gain_Kd a"
    and "at_heating (autotune_relay cfg c ready current now a) \<Longrightarrow> at_heating a"
proof -
  have r: "autotune_relay cfg c ready current now a = a
         \<or> autotune_relay cfg c ready current now a = autotune_sample current a
         \<or> autotune_relay cfg c ready current now a
             = autotune_switch_off c now (autotune_sample current a)"
    using assms
    by (auto simp add: autotune_relay_def switches_to_heating_def Let_def autotune_sample_fields
        autotune_switch_off_fields)
  show "serial (autotune_relay cfg c ready current now a) = serial a"
    and "at_Ku (autotune_relay cfg c ready current now a) = at_Ku a"
    and "at_Tu (autotune_relay cfg c ready current now a) = at_Tu a"
    and "gain_Kp (autotune_relay cfg c ready current now a) = gain_Kp a"
    and "gain_Ki (autotune_relay cfg c ready current now a) = gain_Ki a"
    and "gain_Kd (autotune_relay cfg c ready current now a) = gain_Kd a"
    using r by (auto simp add: autotune_sample_fields autotune_switch_off_fields)
  show "at_heating (autotune_relay cfg c ready current now a) \<Longrightarrow> at_heating a"
    using r by (auto simp add: autotune_sample_fields autotune_switch_off_fields)
qed

lemma autotune_report_fields:
  "\<exists>X. serial (snd (autotune_report c now a)) = serial a @ X \<and> filter tuning_line X = []"
  "at_Ku (snd (autotune_report c now a)) = at_Ku a" "at_Tu (snd (autotune_report c now a)) = at_Tu a"
  "gain_Kp (snd (autotune_report c now a)) = gain_Kp a"
  "gain_Ki (snd (autotune_report c now a)) = gain_Ki a"
  "gain_Kd (snd (autotune_report c now a)) = gain_Kd a"
  "at_d (snd (autotune_report c now a)) = at_d a"
  "at_heating (snd (autotune_report c now a)) = at_heating a"
  "at_t_low (snd (autotune_report c now a)) = at_t_low a"
  "at_t_high (snd (autotune_report c now a)) = at_t_high a"
  "at_t1 (snd (autotune_report c now a)) = at_t1 a"
  "at_t2 (snd (autotune_report c now a)) = at_t2 a"
  "at_input (snd (autotune_report c now a)) = at_input a"
  "pid_cycle (snd (autotune_report c now a)) = pid_cycle a"
  by (simp_all add: autotune_report_def say_def Let_def)

lemma autotune_checks_fields:
  shows "\<exists>X. serial (snd (autotune_checks c now a)) = serial a @ X \<and> filter tuning_line X = []"
    and "at_Ku (snd (autotune_checks c now a)) = at_Ku a"
    and "at_Tu (snd (autotune_checks c now a)) = at_Tu a"
    and "gain_Kp (snd (autotune_checks c now a)) = gain_Kp a"
    and "gain_Ki (snd (autotune_checks c now a)) = gain_Ki a"
    and "gain_Kd (snd (autotune_checks c now a)) = gain_Kd a"
    and "at_d (snd (autotune_checks c now a)) = at_d a"
    and "at_heating (snd (autotune_checks c now a)) = at_heating a"
    and "at_t_low (snd (autotune_checks c now a)) = at_t_low a"
    and "at_t_high (snd (autotune_checks c now a)) = at_t_high a"
proof -
  obtain e a1 where r: "autotune_report c now a = (e, a1)"
    by (cases "autotune_report c now a")
  obtain X where X: "serial a1 = serial a @ X" "filter tuning_line X = []"
    using autotune_report_fields(1)[of c now a] r by auto
  have f: "at_Ku a1 = at_Ku a" "at_Tu a1 = at_Tu a" "gain_Kp a1 = gain_Kp a" "gain_Ki a1 = gain_Ki a"
    "gain_Kd a1 = gain_Kd a" "at_d a1 = at_d a" "at_heating a1 = at_heating a"
    "at_t_low a1 = at_t_low a" "at_t_high a1 = at_t_high a"
    using autotune_report_fields(2-10)[of c now a] r by simp_all
  have cs: "snd (autotune_checks c now a) =
              (say Failed_temperature_too_high a)\<lparr>pid_tuning_finished := True, pid_cycle := 0\<rparr>
          \<or> snd (autotune_checks c now a) = a1
          \<or> snd (autotune_checks c now a) =
              (say Failed_timeout a1)\<lparr>pid_tuning_finished := True, pid_cycle := 0\<rparr>
          \<or> snd (autotune_checks c now a) =
              (say Autotune_finished a1)\<lparr>pid_tuning_finished := True, pid_cycle := 0\<rparr>"
    by (cases e) (simp_all add: autotune_checks_def r)
  show "\<exists>X. serial (snd (autotune_checks c now a)) = serial a @ X \<and> filter tuning_line X = []"
    using cs X by (auto simp add: say_def)
  show "at_Ku (snd (autotune_checks c now a)) = at_Ku a"
    and "at_Tu (snd (autotune_checks c now a)) = at_Tu a"
    and "gain_Kp (snd (autotune_checks c now a)) = gain_Kp a"
    and "gain_Ki (snd (autotune_checks c now a)) = gain_Ki a"
    and "gain_Kd (snd (autotune_checks c now a)) = gain_Kd a"
    and "at_d (snd (autotune_checks c now a)) = at_d a"
    and "at_heating (snd (autotune_checks c now a)) = at_heating a"
    and "at_t_low (snd (autotune_checks c now a)) = at_t_low a"
    and "at_t_high (snd (autotune_checks c now a)) = at_t_high a"
    using cs f by (auto simp add: say_def)
qed

lemma autotune_iteration_fields:
  shows "\<exists>X. serial (snd (autotune_iteration cfg c (ready, current, now) a))
               = serial (autotune_relay cfg c ready current now a) @ X
             \<and> filter tuning_line X = []"
    and "at_Ku (snd (autotune_iteration cfg c (ready, current, now) a))
           = at_Ku (autotune_relay cfg c ready current now a)"
    and "at_Tu (snd (autotune_iteration cfg c (ready, current, now) a))
           = at_Tu (autotune_relay cfg c ready current now a)"
    and "gain_Kp (snd (autotune_iteration cfg c (ready, current, now) a))
           = gain_Kp (autotune_relay cfg c ready current now a)"
    and "gain_Ki (snd (autotune_iteration cfg c (ready, current, now) a))
           = gain_Ki (autotune_relay cfg c ready current now a)"
    and "gain_Kd (snd (autotune_iteration cfg c (ready, current, now) a))
           = gain_Kd (autotune_relay cfg c ready current now a)"
    and "at_d (snd (autotune_iteration cfg c (ready, current, now) a))
           = at_d (autotune_relay cfg c ready current now a)"
    and "at_heating (snd (autotune_iteration cfg c (ready, current, now) a))
           = at_heating (autotune_relay cfg c ready current now a)"
    and "at_t_low (snd (autotune_iteration cfg c (ready, current, now) a))
           = at_t_low (autotune_relay cfg c ready current now a)"
    and "at_t_high (snd (autotune_iteration cfg c (ready, current, now) a))
           = at_t_high (autotune_relay cfg c ready current now a)"
  by (simp_all add: autotune_iteration_def autotune_checks_fields)

lemma autotune_iteration_heating:
  "switches_to_heating c ready current now a \<longleftrightarrow>
     \<not> at_heating a \<and> at_heating (snd (autotune_iteration cfg c (ready, current, now) a))"
proof (cases "switches_to_heating c ready current now a")
  case True
  then show ?thesis
    unfolding autotune_iteration_fields autotune_relay_switch[OF True]
    by (simp add: autotune_switch_on_heating switches_to_heating_def)
next
  case False
  then show ?thesis
    unfolding autotune_iteration_fields
    using autotune_relay_no_switch(7)[OF False, of cfg] by blast
qed

lemma autotune_iteration_high:
  assumes "switches_to_heating c ready current now a" and "2 < pid_cycle a"
  shows "\<exists>b. filter tuning_line (new_lines a (snd (autotune_iteration cfg c (ready, current, now) a))) =
           [Bias_d_min_max b (at_d (snd (autotune_iteration cfg c (ready, current, now) a)))
              (min (at_min a) current) (max (at_max a) current),
            Ku_Tu (at_Ku (snd (autotune_iteration cfg c (ready, current, now) a)))
              (at_Tu (snd (autotune_iteration cfg c (ready, current, now) a))),
            Classic_PID (gain_Kp (snd (autotune_iteration cfg c (ready, current, now) a)))
              (gain_Ki (snd (autotune_iteration cfg c (ready, current, now) a)))
              (gain_Kd (snd (autotune_iteration cfg c (ready, current, now) a)))]"
    and "at_Ku (snd (autotune_iteration cfg c (ready, current, now) a)) =
           4 * real_of_int (at_d (snd (autotune_iteration cfg c (ready, current, now) a)))
             / (314159 / 100000 * (max (at_max a) current - min (at_min a) current) / 2)"
    and "at_Tu (snd (autotune_iteration cfg c (ready, current, now) a)) =
           real_of_int (int32 (at_t_low (snd (autotune_iteration cfg c (ready, current, now) a))
                               + at_t_high (snd (autotune_iteration cfg c (ready, current, now) a)))) / 1000"
    and "gain_Kp (snd (autotune_iteration cfg c (ready, current, now) a)) =
           6 / 10 * at_Ku (snd (autotune_iteration cfg c (ready, current, now) a))"
    and "gain_Ki (snd (autotune_iteration cfg c (ready, current, now) a)) =
           2 * gain_Kp (snd (autotune_iteration cfg c (ready, current, now) a))
             / at_Tu (snd (autotune_iteration cfg c (ready, current, now) a))"
    and "gain_Kd (snd (autotune_iteration cfg c (ready, current, now) a)) =
           gain_Kp (snd (autotune_iteration cfg c (ready, current, now) a))
             * at_Tu (snd (autotune_iteration cfg c (ready, current, now) a)) / 8"
proof -
  let ?r = "autotune_relay cfg c ready current now a"
  let ?a' = "snd (autotune_iteration cfg c (ready, current, now) a)"
  let ?s = "autotune_sample current a"
  obtain X where X: "serial ?a' = serial ?r @ X" "filter tuning_line X = []"
    using autotune_iteration_fields(1)[of cfg c ready current now a] by auto
  note k = autotune_iteration_fields(2-10)[of cfg c ready current now a]
  have p: "2 < pid_cycle ?s" using assms(2) by (simp add: autotune_sample_fields)
  have r: "?r = autotune_switch_on cfg c now ?s" by (rule autotune_relay_switch[OF assms(1)])
  obtain b where b: "serial ?r = serial ?s @
         [Bias_d_min_max b (at_d ?r) (at_min ?s) (at_max ?s), Ku_Tu (at_Ku ?r) (at_Tu ?r),
          Classic_PID (gain_Kp ?r) (gain_Ki ?r) (gain_Kd ?r)]"
    unfolding r using autotune_switch_on_high(1)[OF p, of cfg c now] by blast
  have "filter tuning_line (new_lines a ?a') =
         [Bias_d_min_max b (at_d ?a') (min (at_min a) current) (max (at_max a) current),
          Ku_Tu (at_Ku ?a') (at_Tu ?a'), Classic_PID (gain_Kp ?a') (gain_Ki ?a') (gain_Kd ?a')]"
    unfolding k new_lines_def X(1) b using X(2) by (simp add: autotune_sample_fields)
  then show "\<exists>b. filter tuning_line (new_lines a ?a') =
         [Bias_d_min_max b (at_d ?a') (min (at_min a) current) (max (at_max a) current),
          Ku_Tu (at_Ku ?a') (at_Tu ?a'), Classic_PID (gain_Kp ?a') (gain_Ki ?a') (gain_Kd ?a')]"
    by blast
  show "at_Ku ?a' = 4 * real_of_int (at_d ?a')
             / (314159 / 100000 * (max (at_max a) current - min (at_min a) current) / 2)"
    unfolding k r autotune_switch_on_high(2)[OF p] autotune_sample_fields ..
  show "at_Tu ?a' = real_of_int (int32 (at_t_low ?a' + at_t_high ?a')) / 1000"
    unfolding k r by (rule autotune_switch_on_high(3)[OF p])
  show "gain_Kp ?a' = 6 / 10 * at_Ku ?a'"
    unfolding k r by (rule autotune_switch_on_high(4)[OF p])
  show "gain_Ki ?a' = 2 * gain_Kp ?a' / at_Tu ?a'"
    unfolding k r by (rule autotune_switch_on_high(5)[OF p])
  show "gain_Kd ?a' = gain_Kp ?a' * at_Tu ?a' / 8"
    unfolding k r by (rule autotune_switch_on_high(6)[OF p])
qed

lemma autotune_iteration_low:
  assumes "\<not> (switches_to_heating c ready current now a \<and> 2 < pid_cycle a)"
  shows "\<forall>l\<in>set (filter tuning_line (new_lines a (snd (autotune_iteration cfg c (ready, current, now) a)))).
           \<exists>b d mn mx. l = Bias_d_min_max b d mn mx"
    and "at_Ku (snd (autotune_iteration cfg c (ready, current, now) a)) = at_Ku a"
    and "at_Tu (snd (autotune_iteration cfg c (ready, current, now) a)) = at_Tu a"
    and "gain_Kp (snd (autotune_iteration cfg c (ready, current, now) a)) = gain_Kp a"
    and "gain_Ki (snd (autotune_iteration cfg c (ready, current, now) a)) = gain_Ki a"
    and "gain_Kd (snd (autotune_iteration cfg c (ready, current, now) a)) = gain_Kd a"
proof -
  let ?r = "autotune_relay cfg c ready current now a"
  let ?a' = "snd (autotune_iteration cfg c (ready, current, now) a)"
  let ?s = "autotune_sample current a"
  let ?tl = "filter tuning_line (new_lines a ?a')"
  obtain X where X: "serial ?a' = serial ?r @ X" "filter tuning_line X = []"
    using autotune_iteration_fields(1)[of cfg c ready current now a] by auto
  note k = autotune_iteration_fields(2-10)[of cfg c ready current now a]
  have "(\<forall>l\<in>set ?tl. \<exists>b d mn mx. l = Bias_d_min_max b d mn mx)
         \<and> at_Ku ?a' = at_Ku a \<and> at_Tu ?a' = at_Tu a
         \<and> gain_Kp ?a' = gain_Kp a \<and> gain_Ki ?a' = gain_Ki a \<and> gain_Kd ?a' = gain_Kd a"
  proof (cases "switches_to_heating c ready current now a")
    case True
    then have p: "\<not> 2 < pid_cycle ?s" using assms by (simp add: autotune_sample_fields)
    have r: "?r = autotune_switch_on cfg c now ?s" by (rule autotune_relay_switch[OF True])
    have s: "serial ?r = serial ?s @
        (if 0 < pid_cycle ?s
         then [Bias_d_min_max (at_bias ?r) (at_d ?r) (at_min ?s) (at_max ?s)] else [])"
      unfolding r by (rule autotune_switch_on_low(6)[OF p])
    have tl: "\<forall>l\<in>set ?tl. \<exists>b d mn mx. l = Bias_d_min_max b d mn mx"
      unfolding new_lines_def X(1) s using X(2) by (simp add: autotune_sample_fields)
    have g: "at_Ku ?a' = at_Ku a" "at_Tu ?a' = at_Tu a" "gain_Kp ?a' = gain_Kp a"
      "gain_Ki ?a' = gain_Ki a" "gain_Kd ?a' = gain_Kd a"
      unfolding k r autotune_switch_on_low(1-5)[OF p] autotune_sample_fields by (rule refl)+
    show ?thesis using tl g by blast
  next
    case False
    have tl: "\<forall>l\<in>set ?tl. \<exists>b d mn mx. l = Bias_d_min_max b d mn mx"
      unfolding new_lines_def X(1) autotune_relay_no_switch(1)[OF False] using X(2) by simp
    have g: "at_Ku ?a' = at_Ku a" "at_Tu ?a' = at_Tu a" "gain_Kp ?a' = gain_Kp a"
      "gain_Ki ?a' = gain_Ki a" "gain_Kd ?a' = gain_Kd a"
      unfolding k autotune_relay_no_switch(2-6)[OF False] by (rule refl)+
    show ?thesis using tl g by blast
  qed
  then show "\<forall>l\<in>set ?tl. \<exists>b d mn mx. l = Bias_d_min_max b d mn mx"
    and "at_Ku ?a' = at_Ku a" and "at_Tu ?a' = at_Tu a" and "gain_Kp ?a' = gain_Kp a"
    and "gain_Ki ?a' = gain_Ki a" and "gain_Kd ?a' = gain_Kd a"
    by blast+
qed

lemma autotune_new_bias_d:
  "at_d (autotune_new_bias cfg c a) =
     (if max_power cfg c sdiv 2
          < constrain (int32 (at_bias a + int32 (at_d a * int32 (at_t_high a - at_t_low a))
                                 sdiv int32 (at_t_low a + at_t_high a))) 20 (max_power cfg c - 20)
      then max_power cfg c - 1
           - constrain (int32 (at_bias a + int32 (at_d a * int32 (at_t_high a - at_t_low a))
                                 sdiv int32 (at_t_low a + at_t_high a))) 20 (max_power cfg c - 20)
      else constrain (int32 (at_bias a + int32 (at_d a * int32 (at_t_high a - at_t_low a))
                                 sdiv int32 (at_t_low a + at_t_high a))) 20 (max_power cfg c - 20))"
  by (simp add: autotune_new_bias_def say_def Let_def)

lemma autotune_switch_on_d:
  assumes "0 < pid_cycle a"
  shows "at_d (autotune_switch_on cfg c now a) =
     at_d (autotune_new_bias cfg c
             (a\<lparr>at_heating := True, at_t2 := u32 now, at_t_low := int32 (u32 now - at_t1 a)\<rparr>))"
  using assms
  by (simp add: autotune_switch_on_def set_duty_def Let_def autotune_bias_def autotune_gains_same)

lemma autotune_iteration_d:
  assumes "switches_to_heating c ready current now a" "0 < pid_cycle a"
  shows "at_d (snd (autotune_iteration cfg c (ready, current, now) a)) =
     at_d (autotune_new_bias cfg c
             ((autotune_sample current a)
                \<lparr>at_heating := True, at_t2 := u32 now, at_t_low := int32 (u32 now - at_t1 a)\<rparr>))"
proof -
  have "at_d (snd (autotune_iteration cfg c (ready, current, now) a))
      = at_d (autotune_relay cfg c ready current now a)"
    by (simp add: autotune_iteration_def autotune_checks_fields)
  also have "\<dots> = at_d (autotune_switch_on cfg c now (autotune_sample current a))"
    by (simp add: autotune_relay_switch[OF assms(1)])
  also have "\<dots> = at_d (autotune_new_bias cfg c
             ((autotune_sample current a)
                \<lparr>at_heating := True, at_t2 := u32 now, at_t_low := int32 (u32 now - at_t1 a)\<rparr>))"
    using autotune_switch_on_d[of "autotune_sample current a" cfg c now] assms(2)
    by (simp add: autotune_sample_fields)
  finally show ?thesis .
qed

lemma example_cooling_switches:
  "switches_to_heating example_call True 209 130000 example_cooling"
  "switches_to_heating example_call True 209 130000 (example_cooling\<lparr>pid_cycle := 2\<rparr>)"
  by (simp_all add: switches_to_heating_def example_call_def example_cooling_def u32_def)

lemma example_cooling_d:
  "at_d (snd (autotune_iteration example_config example_call (True, 209, 130000) example_cooling)) = 102"
proof -
  have p: "0 < pid_cycle example_cooling"
    by (simp add: example_cooling_def)
  show ?thesis
    unfolding autotune_iteration_d[OF example_cooling_switches(1) p]
    by (simp add: autotune_new_bias_d autotune_sample_def example_cooling_def autotune_globals_def
        example_call_def example_config_def max_power_def u32_def int32_def constrain_def
        signed_divide_int_def Let_def)
qed

text \<open>
  Claim C5, amended. An iteration of the loop of \<^verbatim>\<open>PID_autotune\<close> switches the relay
  back to heating exactly when it finds \<^verbatim>\<open>heating\<close> false and leaves it true. If it does
  so with \<^verbatim>\<open>pid_cycle > 2\<close>, the tuning lines it writes are the line of the bias (with
  the amplitude \<open>d\<close>, and \<open>min\<close> and \<open>max\<close>), the line of \<open>Ku\<close> and \<open>Tu\<close> and the line of
  the classic gains, where \<open>Ku = 4 d / (3.14159 (max - min) / 2)\<close>,
  \<open>Tu = (t_low + t_high) / 1000\<close>, \<open>Kp = 0.6 Ku\<close>, \<open>Ki = 2 Kp / Tu\<close> and \<open>Kd = Kp Tu / 8\<close>,
  in exact arithmetic; these are also the values left in \<^verbatim>\<open>_Kp\<close>, \<^verbatim>\<open>_Ki\<close>, \<^verbatim>\<open>_Kd\<close>.
  In every other iteration the only tuning lines written are lines of the bias, and
  \<open>Ku\<close>, \<open>Tu\<close> and the gains are left as they were.
\<close>

theorem autotune_gains_reported:
  "let a' = snd (autotune_iteration cfg c (ready, current, now) a);
       tl = filter tuning_line (new_lines a a')
   in (switches_to_heating c ready current now a \<longleftrightarrow> \<not> at_heating a \<and> at_heating a')
    \<and> (switches_to_heating c ready current now a \<and> 2 < pid_cycle a \<longrightarrow>
         (\<exists>b mn mx. tl = [Bias_d_min_max b (at_d a') mn mx, Ku_Tu (at_Ku a') (at_Tu a'),
                          Classic_PID (gain_Kp a') (gain_Ki a') (gain_Kd a')]
            \<and> at_Ku a' = 4 * real_of_int (at_d a') / (314159 / 100000 * (mx - mn) / 2))
         \<and> at_Tu a' = real_of_int (int32 (at_t_low a' + at_t_high a')) / 1000
         \<and> gain_Kp a' = 6 / 10 * at_Ku a'
         \<and> gain_Ki a' = 2 * gain_Kp a' / at_Tu a'
         \<and> gain_Kd a' = gain_Kp a' * at_Tu a' / 8)
    \<and> (\<not> (switches_to_heating c ready current now a \<and> 2 < pid_cycle a) \<longrightarrow>
         (\<forall>l\<in>set tl. \<exists>b d mn mx. l = Bias_d_min_max b d mn mx)
         \<and> at_Ku a' = at_Ku a \<and> at_Tu a' = at_Tu a
         \<and> gain_Kp a' = gain_Kp a \<and> gain_Ki a' = gain_Ki a \<and> gain_Kd a' = gain_Kd a)"
proof -
  let ?a' = "snd (autotune_iteration cfg c (ready, current, now) a)"
  let ?tl = "filter tuning_line (new_lines a ?a')"
  let ?sw = "switches_to_heating c ready current now a"
  have heat: "?sw \<longleftrightarrow> \<not> at_heating a \<and> at_heating ?a'"
    by (rule autotune_iteration_heating)
  have high: "?sw \<and> 2 < pid_cycle a \<longrightarrow>
         (\<exists>b mn mx. ?tl = [Bias_d_min_max b (at_d ?a') mn mx, Ku_Tu (at_Ku ?a') (at_Tu ?a'),
                          Classic_PID (gain_Kp ?a') (gain_Ki ?a') (gain_Kd ?a')]
            \<and> at_Ku ?a' = 4 * real_of_int (at_d ?a') / (314159 / 100000 * (mx - mn) / 2))
         \<and> at_Tu ?a' = real_of_int (int32 (at_t_low ?a' + at_t_high ?a')) / 1000
         \<and> gain_Kp ?a' = 6 / 10 * at_Ku ?a'
         \<and> gain_Ki ?a' = 2 * gain_Kp ?a' / at_Tu ?a'
         \<and> gain_Kd ?a' = gain_Kp ?a' * at_Tu ?a' / 8"
  proof
    assume h: "?sw \<and> 2 < pid_cycle a"
    then have sw: ?sw and p: "2 < pid_cycle a" by simp_all
    obtain b where b: "?tl = [Bias_d_min_max b (at_d ?a') (min (at_min a) current)
         (max (at_max a) current), Ku_Tu (at_Ku ?a') (at_Tu ?a'),
         Classic_PID (gain_Kp ?a') (gain_Ki ?a') (gain_Kd ?a')]"
      using autotune_iteration_high(1)[OF sw p, of cfg] by (elim exE)
    have ex: "\<exists>b mn mx. ?tl = [Bias_d_min_max b (at_d ?a') mn mx, Ku_Tu (at_Ku ?a') (at_Tu ?a'),
                          Classic_PID (gain_Kp ?a') (gain_Ki ?a') (gain_Kd ?a')]
            \<and> at_Ku ?a' = 4 * real_of_int (at_d ?a') / (314159 / 100000 * (mx - mn) / 2)"
      by (intro exI conjI) (rule b, rule autotune_iteration_high(2)[OF sw p])
    show "(\<exists>b mn mx. ?tl = [Bias_d_min_max b (at_d ?a') mn mx, Ku_Tu (at_Ku ?a') (at_Tu ?a'),
                          Classic_PID (gain_Kp ?a') (gain_Ki ?a') (gain_Kd ?a')]
            \<and> at_Ku ?a' = 4 * real_of_int (at_d ?a') / (314159 / 100000 * (mx - mn) / 2))
         \<and> at_Tu ?a' = real_of_int (int32 (at_t_low ?a' + at_t_high ?a')) / 1000
         \<and> gain_Kp ?a' = 6 / 10 * at_Ku ?a'
         \<and> gain_Ki ?a' = 2 * gain_Kp ?a' / at_Tu ?a'
         \<and> gain_Kd ?a' = gain_Kp ?a' * at_Tu ?a' / 8"
      by (intro conjI) (rule ex, rule autotune_iteration_high(3)[OF sw p],
          rule autotune_iteration_high(4)[OF sw p], rule autotune_iteration_high(5)[OF sw p],
          rule autotune_iteration_high(6)[OF sw p])
  qed
  have low: "\<not> (?sw \<and> 2 < pid_cycle a) \<longrightarrow>
         (\<forall>l\<in>set ?tl. \<exists>b d mn mx. l = Bias_d_min_max b d mn mx)
         \<and> at_Ku ?a' = at_Ku a \<and> at_Tu ?a' = at_Tu a
         \<and> gain_Kp ?a' = gain_Kp a \<and> gain_Ki ?a' = gain_Ki a \<and> gain_Kd ?a' = gain_Kd a"
  proof
    assume h: "\<not> (?sw \<and> 2 < pid_cycle a)"
    show "(\<forall>l\<in>set ?tl. \<exists>b d mn mx. l = Bias_d_min_max b d mn mx)
         \<and> at_Ku ?a' = at_Ku a \<and> at_Tu ?a' = at_Tu a
         \<and> gain_Kp ?a' = gain_Kp a \<and> gain_Ki ?a' = gain_Ki a \<and> gain_Kd ?a' = gain_Kd a"
      by (intro conjI) (rule autotune_iteration_low[OF h])+
  qed
  show ?thesis
    unfolding Let_def by (intro conjI) (rule heat, rule high, rule low)
qed

lemma example_cooling_facts:
  "2 < pid_cycle example_cooling" "at_max example_cooling = 215" "at_min example_cooling = 205"
  "\<not> 2 < pid_cycle (example_cooling\<lparr>pid_cycle := 2\<rparr>)"
  "gain_Kp (example_cooling\<lparr>pid_cycle := 2\<rparr>) = 0"
  "\<not> at_heating example_cooling"
  by (simp_all add: example_cooling_def autotune_globals_def)

text \<open>
  Claim C5, as stated, fails on the code. In the iteration that switches the relay back
  to heating with \<^verbatim>\<open>pid_cycle == 2\<close>, two cycles having been counted, no gains are
  reported: the computation is under \<^verbatim>\<open>if(pid_cycle > 2)\<close>. And where they are
  reported (here with \<^verbatim>\<open>pid_cycle == 3\<close>, \<open>d = 102\<close>, \<open>min = 205\<close>, \<open>max = 215\<close>), the
  reported \<open>Ku\<close> is not \<open>4 d / (\<pi> (max - min) / 2)\<close>: the code divides by the constant
  \<open>3.14159\<close>, which is less than \<open>\<pi>\<close>.
\<close>

theorem autotune_gains_counterexample:
  "pid_cycle (example_cooling\<lparr>pid_cycle := 2\<rparr>) = 2
   \<and> switches_to_heating example_call True 209 130000 (example_cooling\<lparr>pid_cycle := 2\<rparr>)
   \<and> \<not> (\<exists>kp ki kd. Classic_PID kp ki kd \<in> set (new_lines (example_cooling\<lparr>pid_cycle := 2\<rparr>)
          (snd (autotune_iteration example_config example_call (True, 209, 130000)
                 (example_cooling\<lparr>pid_cycle := 2\<rparr>)))))
   \<and> pid_cycle example_cooling = 3
   \<and> switches_to_heating example_call True 209 130000 example_cooling
   \<and> (\<exists>b. filter tuning_line (new_lines example_cooling
          (snd (autotune_iteration example_config example_call (True, 209, 130000) example_cooling))) =
         [Bias_d_min_max b 102 205 215,
          Ku_Tu (at_Ku (snd (autotune_iteration example_config example_call (True, 209, 130000)
                   example_cooling)))
            (at_Tu (snd (autotune_iteration example_config example_call (True, 209, 130000)
                   example_cooling))),
          Classic_PID
            (gain_Kp (snd (autotune_iteration example_config example_call (True, 209, 130000)
                   example_cooling)))
            (gain_Ki (snd (autotune_iteration example_config example_call (True, 209, 130000)
                   example_cooling)))
            (gain_Kd (snd (autotune_iteration example_config example_call (True, 209, 130000)
                   example_cooling)))])
   \<and> at_Ku (snd (autotune_iteration example_config example_call (True, 209, 130000) example_cooling))
       \<noteq> 4 * 102 / (pi * (215 - 205) / 2)"
proof -
  let ?a2 = "example_cooling\<lparr>pid_cycle := 2\<rparr>"
  let ?a2' = "snd (autotune_iteration example_config example_call (True, 209, 130000) ?a2)"
  let ?a3' = "snd (autotune_iteration example_config example_call (True, 209, 130000) example_cooling)"
  have n2: "\<not> (switches_to_heating example_call True 209 130000 ?a2 \<and> 2 < pid_cycle ?a2)"
    using example_cooling_facts(4) by simp
  have no: "\<not> (\<exists>kp ki kd. Classic_PID kp ki kd \<in> set (new_lines ?a2 ?a2'))"
  proof
    assume "\<exists>kp ki kd. Classic_PID kp ki kd \<in> set (new_lines ?a2 ?a2')"
    then obtain kp ki kd where "Classic_PID kp ki kd \<in> set (new_lines ?a2 ?a2')" by blast
    then have "Classic_PID kp ki kd \<in> set (filter tuning_line (new_lines ?a2 ?a2'))" by simp
    then show False using autotune_iteration_low(1)[OF n2, of example_config] by blast
  qed
  have d: "at_d ?a3' = 102" by (rule example_cooling_d)
  obtain b where b: "filter tuning_line (new_lines example_cooling ?a3') =
         [Bias_d_min_max b (at_d ?a3') (min (at_min example_cooling) 209) (max (at_max example_cooling) 209),
          Ku_Tu (at_Ku ?a3') (at_Tu ?a3'), Classic_PID (gain_Kp ?a3') (gain_Ki ?a3') (gain_Kd ?a3')]"
    using autotune_iteration_high(1)[OF example_cooling_switches(1) example_cooling_facts(1), of example_config]
    by (elim exE)
  have b': "\<exists>b. filter tuning_line (new_lines example_cooling ?a3') =
         [Bias_d_min_max b 102 205 215,
          Ku_Tu (at_Ku ?a3') (at_Tu ?a3'), Classic_PID (gain_Kp ?a3') (gain_Ki ?a3') (gain_Kd ?a3')]"
    using b d example_cooling_facts(2,3) by simp
  have ku: "at_Ku ?a3' = 4 * 102 / (314159 / 100000 * (215 - 205) / 2)"
    using autotune_iteration_high(2)[OF example_cooling_switches(1) example_cooling_facts(1), of example_config]
      d example_cooling_facts(2,3) by simp
  have "4 * 102 / (pi * (215 - 205) / 2) < 4 * 102 / (314159 / 100000 * (215 - 205) / 2)"
    using pi_gt_314159 by (simp add: field_simps)
  then have ne: "at_Ku ?a3' \<noteq> 4 * 102 / (pi * (215 - 205) / 2)"
    using ku by simp
  have c2: "pid_cycle ?a2 = 2" by simp
  have c3: "pid_cycle example_cooling = 3" by (simp add: example_cooling_def)
  show ?thesis
    by (intro conjI) (rule c2, rule example_cooling_switches(2), rule no, rule c3,
        rule example_cooling_switches(1), rule b', rule ne)
qed

theorem autotune_gains_reported_witness:
  "switches_to_heating example_call True 209 130000 example_cooling
   \<and> 2 < pid_cycle example_cooling
   \<and> at_d (snd (autotune_iteration example_config example_call (True, 209, 130000) example_cooling)) = 102
   \<and> gain_Kp (snd (autotune_iteration example_config example_call (True, 209, 130000) example_cooling))
       = 6 / 10 * at_Ku (snd (autotune_iteration example_config example_call (True, 209, 130000)
                               example_cooling))
   \<and> at_heating (snd (autotune_iteration example_config example_call (True, 209, 130000) example_cooling))
   \<and> \<not> (switches_to_heating example_call True 209 130000 (example_cooling\<lparr>pid_cycle := 2\<rparr>)
          \<and> 2 < pid_cycle (example_cooling\<lparr>pid_cycle := 2\<rparr>))
   \<and> gain_Kp (snd (autotune_iteration example_config example_call (True, 209, 130000)
                    (example_cooling\<lparr>pid_cycle := 2\<rparr>))) = 0"
  using example_cooling_switches(1) example_cooling_facts example_cooling_d
    autotune_gains_reported [where c = example_call and ready = True and current = 209
      and now = 130000 and a = example_cooling and cfg = example_config]
    autotune_gains_reported [where c = example_call and ready = True and current = 209
      and now = 130000 and a = "example_cooling\<lparr>pid_cycle := 2\<rparr>" and cfg = example_config]
  by (simp add: Let_def)

subsection \<open>The relay autotuner: how it returns\<close>

lemma autotune_report_exit:
  "fst (autotune_report c now a) = (if not_rising c now a then Some Exit_not_rising else None)"
  by (auto simp add: autotune_report_def not_rising_def safety_check_cycles_count_def say_def Let_def)

lemma autotune_checks_exit:
  "fst (autotune_checks c now a) =
     (if too_high c a then Some Exit_too_high
      else if not_rising c now a then Some Exit_not_rising
      else if timed_out now a then Some Exit_timeout
      else if pid_cycle a > at_ncycles c then Some Exit_finished
      else None)"
proof -
  obtain e a1 where r: "autotune_report c now a = (e, a1)"
    by (cases "autotune_report c now a")
  have e: "e = (if not_rising c now a then Some Exit_not_rising else None)"
    using autotune_report_exit[of c now a] r by simp
  have f: "at_t1 a1 = at_t1 a" "at_t2 a1 = at_t2 a" "pid_cycle a1 = pid_cycle a"
    using autotune_report_fields(11,12,14)[of c now a] r by simp_all
  show ?thesis
    by (simp add: autotune_checks_def r e f too_high_def timed_out_def)
qed




lemma autotune_iteration_exit:
  "fst (autotune_iteration cfg c (ready, current, now) a) =
     (if too_high c (autotune_relay cfg c ready current now a) then Some Exit_too_high
      else if not_rising c now (autotune_relay cfg c ready current now a) then Some Exit_not_rising
      else if timed_out now (autotune_relay cfg c ready current now a) then Some Exit_timeout
      else if pid_cycle (autotune_relay cfg c ready current now a) > at_ncycles c
      then Some Exit_finished
      else None)"
  by (simp add: autotune_iteration_def autotune_checks_exit)




text \<open>
  The check of the rise compares \<^verbatim>\<open>fabs(input - temp_ambient)\<close> with 5, under the comment
  \<^verbatim>\<open>check that temperature is rising\<close>: an input that is 5 degrees or more below the
  ambient temperature saved at the first report passes it.
\<close>

lemma autotune_rise_check_fabs:
  assumes "at_input (autotune_relay cfg c ready current now a)
             \<le> at_temp_ambient (autotune_relay cfg c ready current now a) - 5"
  shows "fst (autotune_iteration cfg c (ready, current, now) a) \<noteq> Some Exit_not_rising"
  using assms unfolding autotune_iteration_exit by (simp add: not_rising_def)











end
